theory Spec2Isabelle
  imports Main "HOL-Library.Word"
begin

unbundle bit_operations_syntax

section \<open>Source locations and diagnostics\<close>

text \<open>
  A \<^verbatim>\<open>struct source_location\<close> is read by the front-end through its \<^verbatim>\<open>path\<close> and
  \<^verbatim>\<open>line\<close> members only.
\<close>

record source_location =
  path :: string
  line :: nat

text \<open>
  \<^verbatim>\<open>fatal(location, fmt, ...)\<close> prints a diagnostic and terminates the compiler. It is a
  value here: the location, the format string as written in the source and the
  arguments. A big integer printed through \<^verbatim>\<open>bigint_to_new_cstr\<close> is kept as the integer.
  \<^verbatim>\<open>UNREACHABLE()\<close> and a failed \<^verbatim>\<open>assert\<close> abort the process; reading a NULL pointer or
  the wrong member of a union is undefined behaviour in C and is a separate error value.
\<close>

datatype fmt_arg = Str string | Zu nat | Big int

datatype error =
    Fatal source_location string "fmt_arg list"
  | Unreachable
  | Assertion
  | Bad_pointer
  | Bad_union

section \<open>Types (tir.c)\<close>

datatype type_kind =
    TYPE_VOID | TYPE_BOOL | TYPE_BYTE
  | TYPE_U8 | TYPE_S8 | TYPE_U16 | TYPE_S16 | TYPE_U32 | TYPE_S32
  | TYPE_U64 | TYPE_S64 | TYPE_USIZE | TYPE_SSIZE
  | TYPE_INTEGER
  | TYPE_FUNCTION | TYPE_POINTER | TYPE_ARRAY | TYPE_SLICE | TYPE_STRUCT

text \<open>
  A type object is immutable once its constructor returns. A \<^verbatim>\<open>struct type const*\<close> is
  modelled by the address of the object together with its members, so that members are
  read directly and two pointers are equal exactly when the two values are (for objects
  that are live at the same time). \<open>taddr\<close> is the address returned by \<^verbatim>\<open>autil_xalloc\<close>.
  The integer type of unsuffixed literals and the struct types are those of resolve.c,
  which is of a later revision than tir.c; of a struct type only the symbol table is
  kept, the member variables being added after the construction.
\<close>

datatype type =
  Type (taddr: nat) (tname: string) (tsize: nat) (tkind: type_kind) (tdata: type_data)
and type_data =
    No_data
  | Integer_data int int
  | Function_data "type list" type
  | Pointer_data type
  | Array_data nat type
  | Slice_data type
  | Struct_data nat

definition SIZE_MAX :: nat where
  "SIZE_MAX = 2 ^ 64 - 1"

text \<open>The \<^verbatim>\<open>%zu\<close> conversion of \<^verbatim>\<open>autil_string_new_fmt\<close>: decimal digits, no padding.\<close>

definition digit_char :: "nat \<Rightarrow> char" where
  "digit_char d = ''0123456789'' ! d"

function fmt_zu :: "nat \<Rightarrow> string" where
  "fmt_zu n =
     (if n < 10 then [digit_char n]
      else fmt_zu (n div 10) @ [digit_char (n mod 10)])"
  by pat_completeness auto
termination
  by (relation "measure (\<lambda>n. n)") auto

declare fmt_zu.simps [simp del]

section \<open>The syntax tree (parse.c)\<close>

text \<open>
  The part of the syntax tree that the resolution of a literal reads: an integer token
  with its value and suffix, an operator token, and expressions.
\<close>

record cst_integer =
  cst_integer_location :: source_location
  cst_integer_value :: int
  cst_integer_suffix :: string

datatype token_kind =
    TOKEN_NOT | TOKEN_COUNTOF | TOKEN_PLUS | TOKEN_DASH | TOKEN_TILDE | TOKEN_STAR
  | TOKEN_AMPERSAND

record token =
  tok_kind :: token_kind
  tok_location :: source_location

datatype cst_expr =
  Cst_expr (cst_expr_location: source_location) (cst_expr_data: cst_expr_data)
and cst_expr_data =
    CST_EXPR_BOOLEAN bool
  | CST_EXPR_INTEGER cst_integer
  | CST_EXPR_GROUPED cst_expr
  | CST_EXPR_UNARY token cst_expr
  | CST_EXPR_BINARY token cst_expr cst_expr

text \<open>
  Type specifiers, symbols and declarations, as parse.c builds them. A symbol is a
  sequence of elements, each an identifier with its template arguments. Of a
  declaration other than a function or a struct only the kind is kept; the body of a
  function is a pointer that the resolution of templates copies and does not read.
\<close>

record cst_identifier =
  id_location :: source_location
  id_name :: string

datatype cst_typespec =
  Cst_typespec (typespec_location: source_location) (typespec_data: cst_typespec_data)
and cst_typespec_data =
    TYPESPEC_SYMBOL cst_symbol
  | TYPESPEC_FUNCTION "cst_typespec list" cst_typespec
  | TYPESPEC_POINTER cst_typespec
  | TYPESPEC_ARRAY cst_expr cst_typespec
  | TYPESPEC_SLICE cst_typespec
  | TYPESPEC_TYPEOF cst_expr
and cst_symbol =
  Cst_symbol (cst_symbol_location: source_location) (is_from_root: bool)
    (cst_symbol_elements: "cst_symbol_element list")
and cst_symbol_element =
  Cst_symbol_element (element_location: source_location) (element_identifier: cst_identifier)
    (element_template_arguments: "cst_typespec list")

record cst_function_parameter =
  parameter_location :: source_location
  parameter_identifier :: cst_identifier
  parameter_typespec :: cst_typespec

datatype cst_decl =
  Cst_decl (decl_location: source_location) (decl_name: string) (decl_data: cst_decl_data)
and cst_decl_data =
    CST_DECL_VARIABLE
  | CST_DECL_CONSTANT
  | CST_DECL_FUNCTION "cst_identifier list" "cst_function_parameter list" cst_typespec nat
  | CST_DECL_STRUCT "cst_identifier list" "cst_member list"
  | CST_DECL_EXTEND
  | CST_DECL_ALIAS
  | CST_DECL_EXTERN_VARIABLE
  | CST_DECL_EXTERN_FUNCTION
and cst_member =
  Cst_member (member_location: source_location) (member_name: string)
    (member_data: cst_member_data)
and cst_member_data =
    CST_MEMBER_VARIABLE cst_typespec
  | CST_MEMBER_CONSTANT cst_decl
  | CST_MEMBER_FUNCTION cst_decl

section \<open>Addresses, values, symbols, symbol tables (tir.c)\<close>

datatype address =
    ADDRESS_STATIC string nat
  | ADDRESS_LOCAL int

text \<open>
  A compile-time value: the type and the member of the \<^verbatim>\<open>data\<close> union that the
  constructor filled in. A function value refers to its \<^verbatim>\<open>struct tir_function\<close> by
  address.
\<close>

datatype "value" =
  Value (vtype: type) (vdata: value_data)
and value_data =
    Data_boolean bool
  | Data_byte "8 word"
  | Data_integer int
  | Data_function nat
  | Data_pointer address
  | Data_array "value list"
  | Data_slice "value" "value"

datatype symbol_kind =
    SYMBOL_TYPE | SYMBOL_VARIABLE | SYMBOL_CONSTANT | SYMBOL_FUNCTION
  | SYMBOL_TEMPLATE | SYMBOL_NAMESPACE

text \<open>
  A symbol is immutable too and is modelled like a type: \<open>sym_addr\<close> is the address of
  the object, the other fields are the members set by \<^verbatim>\<open>symbol_new\<close>. The member
  \<^verbatim>\<open>symbols\<close> of a namespace points to a symbol table, which is mutable and lives in the
  table store of the context. The members of a template are those that resolve.c reads
  in \<^verbatim>\<open>symbol->data.template\<close>: the declaration, the address prefix, the symbol table
  in which the template was declared, and the table of its instances.
\<close>

record template =
  tpl_decl :: cst_decl
  tpl_symbol_addr_prefix :: "string option"
  tpl_parent_symbol_table :: nat
  tpl_symbols :: nat

record symbol =
  sym_addr :: nat
  sym_kind :: symbol_kind
  sym_location :: source_location
  sym_name :: string
  sym_type :: "type option"
  sym_address :: "address option"
  sym_value :: "value option"
  sym_symbols :: "nat option"
  sym_template :: "template option"

text \<open>
  A symbol table: the \<^verbatim>\<open>parent\<close> pointer and the entries in insertion order. Keys are
  interned strings, so that comparing keys is comparing strings.
\<close>

record symbol_table =
  parent :: "nat option"
  elements :: "(string \<times> symbol) list"

text \<open>
  A module of the loaded-modules cache, as far as resolve.c reads it: its name and
  canonical path, whether it is fully loaded, its symbol and export tables, and the
  imports of its syntax tree, each with its location and path.
\<close>

record module =
  mod_name :: string
  mod_path :: string
  mod_loaded :: bool
  mod_symbols :: nat
  mod_exports :: nat
  mod_imports :: "(source_location \<times> string) list"

text \<open>
  The compilation context, as far as these files use it. Symbol tables are mutable
  objects: they are kept in a store and named by the order of their creation
  (\<^verbatim>\<open>symbol_table_new\<close> appends), so that the parent of a table, which exists before the
  table does, has a smaller name. \<open>live\<close> is the set of addresses handed out by
  \<^verbatim>\<open>autil_xalloc\<close> and not freed; \<open>xalloc\<close> is the allocator, which is not part of these
  files: any function of the live set. \<open>modules\<close> is the cache of loaded modules and
  \<open>chilling_symbol_tables\<close> the list of tables to be frozen at the end.
\<close>

record "context" =
  xalloc :: "nat set \<Rightarrow> nat"
  live :: "nat set"
  tables :: "symbol_table list"
  global_symbol_table :: nat
  chilling_symbol_tables :: "nat list"
  modules :: "module list"
  builtin_location :: source_location
  builtin_void :: type
  builtin_bool :: type
  builtin_byte :: type
  builtin_integer :: type
  builtin_u8 :: type
  builtin_s8 :: type
  builtin_u16 :: type
  builtin_s16 :: type
  builtin_u32 :: type
  builtin_s32 :: type
  builtin_u64 :: type
  builtin_s64 :: type
  builtin_usize :: type
  builtin_ssize :: type
  u8_min :: int
  u8_max :: int

definition symbol_table_new :: "context \<Rightarrow> nat option \<Rightarrow> nat \<times> context" where
  "symbol_table_new ctx parent_ptr =
     (length (tables ctx),
      ctx\<lparr>tables := tables ctx @ [\<lparr>parent = parent_ptr, elements = []\<rparr>]\<rparr>)"

definition symbol_table_lookup_local :: "symbol_table \<Rightarrow> string \<Rightarrow> symbol option" where
  "symbol_table_lookup_local self nm = map_of (elements self) nm"

text \<open>
  \<^verbatim>\<open>symbol_table_lookup\<close> climbs the parent pointers. A pointer outside the store, or a
  parent that is not older than its child, cannot be built by \<^verbatim>\<open>symbol_table_new\<close>.
\<close>

function symbol_table_lookup ::
  "symbol_table list \<Rightarrow> nat \<Rightarrow> string \<Rightarrow> error + symbol option" where
  "symbol_table_lookup tabs self nm =
     (if self < length tabs then
        (case symbol_table_lookup_local (tabs ! self) nm of
           Some local \<Rightarrow> Inr (Some local)
         | None \<Rightarrow>
             (case parent (tabs ! self) of
                None \<Rightarrow> Inr None
              | Some p \<Rightarrow>
                  if p < self then symbol_table_lookup tabs p nm else Inl Bad_pointer))
      else Inl Bad_pointer)"
  by pat_completeness auto
termination
  by (relation "measure (\<lambda>(tabs, self, nm). self)") auto

declare symbol_table_lookup.simps [simp del]

text \<open>
  \<^verbatim>\<open>symbol_table_insert\<close> of tir.c: any symbol already bound locally under the name is a
  redeclaration, reported at the new symbol's location and citing the location of the
  previous one.
\<close>

definition symbol_table_insert ::
  "context \<Rightarrow> nat \<Rightarrow> string \<Rightarrow> symbol \<Rightarrow> error + context" where
  "symbol_table_insert ctx self nm symb =
     (if self < length (tables ctx) then
        (case symbol_table_lookup_local (tables ctx ! self) nm of
           Some local \<Rightarrow>
             Inl (Fatal (sym_location symb)
                    ''redeclaration of `%s` previously declared at [%s:%zu]''
                    [Str nm, Str (path (sym_location local)), Zu (line (sym_location local))])
         | None \<Rightarrow>
             Inr (ctx\<lparr>tables := (tables ctx)
                    [self := (tables ctx ! self)
                       \<lparr>elements := elements (tables ctx ! self) @ [(nm, symb)]\<rparr>]\<rparr>))
      else Inl Bad_pointer)"

definition symbol_new ::
  "context \<Rightarrow> symbol_kind \<Rightarrow> source_location \<Rightarrow> string \<Rightarrow> type option \<Rightarrow>
   address option \<Rightarrow> value option \<Rightarrow> symbol \<times> context" where
  "symbol_new ctx k loc nm ty ad va =
     (let p = xalloc ctx (live ctx) in
      (\<lparr>sym_addr = p, sym_kind = k, sym_location = loc, sym_name = nm, sym_type = ty,
        sym_address = ad, sym_value = va, sym_symbols = None, sym_template = None\<rparr>,
       ctx\<lparr>live := insert p (live ctx)\<rparr>))"

definition symbol_new_type :: "context \<Rightarrow> source_location \<Rightarrow> type \<Rightarrow> symbol \<times> context" where
  "symbol_new_type ctx loc ty = symbol_new ctx SYMBOL_TYPE loc (tname ty) (Some ty) None None"

definition symbol_new_namespace ::
  "context \<Rightarrow> source_location \<Rightarrow> string \<Rightarrow> nat \<Rightarrow> symbol \<times> context" where
  "symbol_new_namespace ctx loc nm tab =
     (case symbol_new ctx SYMBOL_NAMESPACE loc nm None None None of
        (self, ctx') \<Rightarrow> (self\<lparr>sym_symbols := Some tab\<rparr>, ctx'))"

section \<open>The type registry (tir.c)\<close>

definition type_new :: "context \<Rightarrow> string \<Rightarrow> nat \<Rightarrow> type_kind \<Rightarrow> type_data \<Rightarrow> type \<times> context" where
  "type_new ctx nm sz k d =
     (let p = xalloc ctx (live ctx) in (Type p nm sz k d, ctx\<lparr>live := insert p (live ctx)\<rparr>))"

text \<open>
  The canonical names, as the four \<^verbatim>\<open>type_new_*\<close> functions format them:
  \<^verbatim>\<open>func(P1, P2) R\<close>, \<^verbatim>\<open>*T\<close>, \<^verbatim>\<open>[N]T\<close> and \<^verbatim>\<open>[]T\<close>.
\<close>

fun function_name_params :: "type list \<Rightarrow> string" where
  "function_name_params [] = []"
| "function_name_params (t # ts) = tname t @ concat (map (\<lambda>u. '', '' @ tname u) ts)"

definition function_type_name :: "type list \<Rightarrow> type \<Rightarrow> string" where
  "function_type_name parameter_types return_type =
     ''func('' @ function_name_params parameter_types @ '') '' @ tname return_type"

definition pointer_type_name :: "type \<Rightarrow> string" where
  "pointer_type_name base = ''*'' @ tname base"

definition array_type_name :: "nat \<Rightarrow> type \<Rightarrow> string" where
  "array_type_name count base = ''['' @ fmt_zu count @ '']'' @ tname base"

definition slice_type_name :: "type \<Rightarrow> string" where
  "slice_type_name base = ''[]'' @ tname base"

definition type_new_function :: "context \<Rightarrow> type list \<Rightarrow> type \<Rightarrow> type \<times> context" where
  "type_new_function ctx parameter_types return_type =
     type_new ctx (function_type_name parameter_types return_type)
       8 TYPE_FUNCTION (Function_data parameter_types return_type)"

definition type_new_pointer :: "context \<Rightarrow> type \<Rightarrow> type \<times> context" where
  "type_new_pointer ctx base =
     type_new ctx (pointer_type_name base) 8 TYPE_POINTER (Pointer_data base)"

text \<open>
  \<^verbatim>\<open>count * base->size\<close> is a \<^verbatim>\<open>size_t\<close> product and wraps; the assertion that follows
  detects the wrap-around.
\<close>

definition type_new_array :: "context \<Rightarrow> nat \<Rightarrow> type \<Rightarrow> error + type \<times> context" where
  "type_new_array ctx count base =
     (let sz = (count * tsize base) mod 2 ^ 64 in
      if count = 0 \<or> sz div count = tsize base
      then Inr (type_new ctx (array_type_name count base) sz TYPE_ARRAY (Array_data count base))
      else Inl Assertion)"

definition type_new_slice :: "context \<Rightarrow> type \<Rightarrow> type \<times> context" where
  "type_new_slice ctx base =
     type_new ctx (slice_type_name base) (8 * 2) TYPE_SLICE (Slice_data base)"

text \<open>
  The part that the four \<^verbatim>\<open>type_unique_*\<close> functions share word for word: look the
  name of the freshly built type up in the global symbol table; when a symbol is found,
  free the new object and return the \<^verbatim>\<open>type\<close> member of the symbol (a pointer that is
  NULL for a namespace symbol, hence the option); otherwise register the new type under
  a new type symbol.
\<close>

definition type_unique :: "type \<times> context \<Rightarrow> error + type option \<times> context" where
  "type_unique new =
     (let (ty, ctx) = new in
      case symbol_table_lookup (tables ctx) (global_symbol_table ctx) (tname ty) of
        Inl e \<Rightarrow> Inl e
      | Inr (Some existing) \<Rightarrow> Inr (sym_type existing, ctx\<lparr>live := live ctx - {taddr ty}\<rparr>)
      | Inr None \<Rightarrow>
          (let (symb, ctx') = symbol_new_type ctx (builtin_location ctx) ty in
           case symbol_table_insert ctx' (global_symbol_table ctx') (sym_name symb) symb of
             Inl e \<Rightarrow> Inl e
           | Inr ctx'' \<Rightarrow> Inr (Some ty, ctx'')))"

definition type_unique_function ::
  "context \<Rightarrow> type list \<Rightarrow> type \<Rightarrow> error + type option \<times> context" where
  "type_unique_function ctx parameter_types return_type =
     type_unique (type_new_function ctx parameter_types return_type)"

definition type_unique_pointer :: "context \<Rightarrow> type \<Rightarrow> error + type option \<times> context" where
  "type_unique_pointer ctx base = type_unique (type_new_pointer ctx base)"

definition type_unique_array :: "context \<Rightarrow> nat \<Rightarrow> type \<Rightarrow> error + type option \<times> context" where
  "type_unique_array ctx count base =
     (case type_new_array ctx count base of
        Inl e \<Rightarrow> Inl e
      | Inr new \<Rightarrow> type_unique new)"

definition type_unique_slice :: "context \<Rightarrow> type \<Rightarrow> error + type option \<times> context" where
  "type_unique_slice ctx base = type_unique (type_new_slice ctx base)"

text \<open>
  A call of one of the four builders, its canonical name, and a sequence of calls, each
  in the context that the one before it left.
\<close>

datatype unique_request =
    Unique_function "type list" type
  | Unique_pointer type
  | Unique_array nat type
  | Unique_slice type

fun type_unique_request :: "context \<Rightarrow> unique_request \<Rightarrow> error + type option \<times> context" where
  "type_unique_request ctx (Unique_function parameter_types return_type) =
     type_unique_function ctx parameter_types return_type"
| "type_unique_request ctx (Unique_pointer base) = type_unique_pointer ctx base"
| "type_unique_request ctx (Unique_array count base) = type_unique_array ctx count base"
| "type_unique_request ctx (Unique_slice base) = type_unique_slice ctx base"

fun request_name :: "unique_request \<Rightarrow> string" where
  "request_name (Unique_function parameter_types return_type) =
     function_type_name parameter_types return_type"
| "request_name (Unique_pointer base) = pointer_type_name base"
| "request_name (Unique_array count base) = array_type_name count base"
| "request_name (Unique_slice base) = slice_type_name base"

fun type_unique_requests ::
  "context \<Rightarrow> unique_request list \<Rightarrow> error + type option list \<times> context" where
  "type_unique_requests ctx [] = Inr ([], ctx)"
| "type_unique_requests ctx (r # rs) =
     (case type_unique_request ctx r of
        Inl e \<Rightarrow> Inl e
      | Inr (t, ctx') \<Rightarrow>
          (case type_unique_requests ctx' rs of
             Inl e \<Rightarrow> Inl e
           | Inr (ts, ctx'') \<Rightarrow> Inr (t # ts, ctx'')))"

text \<open>
  What the registry relies on. The allocator returns an address that is not live. In
  the global symbol table, a symbol found under the canonical name of a compound type
  is a symbol of a type of that name whose object is live, and no two such names lead
  to objects at the same address.
\<close>

definition allocator_fresh :: "context \<Rightarrow> bool" where
  "allocator_fresh ctx = (\<forall>S. finite S \<longrightarrow> xalloc ctx S \<notin> S)"

definition registered :: "context \<Rightarrow> string \<Rightarrow> type \<Rightarrow> bool" where
  "registered ctx nm ty =
     (\<exists>symb. symbol_table_lookup (tables ctx) (global_symbol_table ctx) nm = Inr (Some symb)
             \<and> sym_type symb = Some ty)"

definition registry_ok :: "context \<Rightarrow> bool" where
  "registry_ok ctx =
     (finite (live ctx)
      \<and> (\<forall>r symb. symbol_table_lookup (tables ctx) (global_symbol_table ctx) (request_name r)
                     = Inr (Some symb) \<longrightarrow>
            (\<exists>ty. sym_type symb = Some ty \<and> tname ty = request_name r
                   \<and> taddr ty \<in> live ctx))
      \<and> (\<forall>r r' ty ty'. registered ctx (request_name r) ty
                         \<and> registered ctx (request_name r') ty'
                         \<and> taddr ty = taddr ty' \<longrightarrow> ty = ty'))"

definition type_is_integer :: "type \<Rightarrow> bool" where
  "type_is_integer self =
     (tkind self = TYPE_U8 \<or> tkind self = TYPE_S8 \<or> tkind self = TYPE_U16
      \<or> tkind self = TYPE_S16 \<or> tkind self = TYPE_U32 \<or> tkind self = TYPE_S32
      \<or> tkind self = TYPE_U64 \<or> tkind self = TYPE_S64 \<or> tkind self = TYPE_USIZE
      \<or> tkind self = TYPE_SSIZE)"

definition type_is_uinteger :: "type \<Rightarrow> bool" where
  "type_is_uinteger self =
     (tkind self = TYPE_U8 \<or> tkind self = TYPE_U16 \<or> tkind self = TYPE_U32
      \<or> tkind self = TYPE_U64 \<or> tkind self = TYPE_USIZE)"

definition type_is_sinteger :: "type \<Rightarrow> bool" where
  "type_is_sinteger self =
     (tkind self = TYPE_S8 \<or> tkind self = TYPE_S16 \<or> tkind self = TYPE_S32
      \<or> tkind self = TYPE_S64 \<or> tkind self = TYPE_SSIZE)"

definition type_can_compare_equality :: "type \<Rightarrow> bool" where
  "type_can_compare_equality self =
     (tkind self = TYPE_BOOL \<or> tkind self = TYPE_BYTE \<or> type_is_integer self
      \<or> tkind self = TYPE_FUNCTION \<or> tkind self = TYPE_POINTER)"

definition type_can_compare_order :: "type \<Rightarrow> bool" where
  "type_can_compare_order self =
     (tkind self = TYPE_BOOL \<or> tkind self = TYPE_BYTE \<or> type_is_integer self
      \<or> tkind self = TYPE_POINTER)"


section \<open>Big integers and bit arrays\<close>

text \<open>
  An \<^verbatim>\<open>autil_bigint\<close> is an integer; \<^verbatim>\<open>autil_bigint_add\<close>, \<^verbatim>\<open>sub\<close>, \<^verbatim>\<open>mul\<close>, \<^verbatim>\<open>neg\<close> and
  \<^verbatim>\<open>cmp\<close> are the operations of \<open>int\<close>.
\<close>

text \<open>
  Modelled from the spec: \<^verbatim>\<open>autil_bigint_divrem\<close> is not in these files; section 4.B of
  the specification gives it as truncated division. This is its quotient.
\<close>

definition bigint_divrem_quot :: "int \<Rightarrow> int \<Rightarrow> int" where
  "bigint_divrem_quot a b = sgn a * sgn b * (\<bar>a\<bar> div \<bar>b\<bar>)"

text \<open>
  Modelled from the spec: \<^verbatim>\<open>bigint_to_u8\<close> and \<^verbatim>\<open>bigint_to_uz\<close> are not in these files; the
  specification says that they fail when the value is out of range. \<open>None\<close> is the
  failure (a non-zero return value).
\<close>

definition bigint_to_u8 :: "int \<Rightarrow> 8 word option" where
  "bigint_to_u8 i = (if 0 \<le> i \<and> i \<le> 255 then Some (word_of_int i) else None)"

definition bigint_to_uz :: "int \<Rightarrow> nat option" where
  "bigint_to_uz i = (if 0 \<le> i \<and> i \<le> int SIZE_MAX then Some (nat i) else None)"

definition uz_to_bigint :: "nat \<Rightarrow> int" where
  "uz_to_bigint n = int n"

text \<open>
  Modelled from the spec: \<^verbatim>\<open>bigint_to_bitarr\<close> and \<^verbatim>\<open>bitarr_to_bigint\<close> are not in these
  files. The specification: conversion to a bit array of a given width fails when the
  value does not fit and is two's complement for negatives; conversion from a bit array
  is told whether the bits are signed. A bit array is the list of its bits, least
  significant first; a value fits when its magnitude has no more bits than the array.
\<close>

definition bigint_to_bitarr :: "nat \<Rightarrow> int \<Rightarrow> bool list option" where
  "bigint_to_bitarr bit_count i =
     (if \<bar>i\<bar> < 2 ^ bit_count
      then Some (map (\<lambda>n. (i mod 2 ^ bit_count) div 2 ^ n mod 2 = 1) [0..<bit_count])
      else None)"

fun bitarr_unsigned :: "bool list \<Rightarrow> int" where
  "bitarr_unsigned [] = 0"
| "bitarr_unsigned (b # bs) = (if b then 1 else 0) + 2 * bitarr_unsigned bs"

definition bitarr_to_bigint :: "bool list \<Rightarrow> bool \<Rightarrow> int" where
  "bitarr_to_bigint bits is_signed =
     (if is_signed \<and> bits \<noteq> [] \<and> last bits
      then bitarr_unsigned bits - 2 ^ length bits
      else bitarr_unsigned bits)"

section \<open>Typed expressions (tir.c)\<close>

datatype uop_kind =
    UOP_NOT | UOP_POS | UOP_NEG | UOP_BITNOT | UOP_DEREFERENCE | UOP_ADDRESSOF | UOP_COUNTOF

datatype bop_kind =
    BOP_OR | BOP_AND | BOP_SHL | BOP_SHR
  | BOP_EQ | BOP_NE | BOP_LE | BOP_LT | BOP_GE | BOP_GT
  | BOP_ADD | BOP_SUB | BOP_MUL | BOP_DIV
  | BOP_BITOR | BOP_BITXOR | BOP_BITAND

text \<open>
  A \<^verbatim>\<open>struct tir_expr\<close>: location, type, and the member of the \<^verbatim>\<open>data\<close> union selected by
  \<^verbatim>\<open>kind\<close>.
\<close>

datatype tir_expr =
  Tir_expr (expr_location: source_location) (expr_type: type) (expr_data: tir_expr_data)
and tir_expr_data =
    TIR_EXPR_IDENTIFIER symbol
  | TIR_EXPR_BOOLEAN bool
  | TIR_EXPR_INTEGER int
  | TIR_EXPR_BYTES address nat
  | TIR_EXPR_LITERAL_ARRAY "tir_expr list" "tir_expr option"
  | TIR_EXPR_LITERAL_SLICE tir_expr tir_expr
  | TIR_EXPR_CAST tir_expr
  | TIR_EXPR_SYSCALL "tir_expr list"
  | TIR_EXPR_CALL tir_expr "tir_expr list"
  | TIR_EXPR_INDEX tir_expr tir_expr
  | TIR_EXPR_SLICE tir_expr tir_expr tir_expr
  | TIR_EXPR_SIZEOF type
  | TIR_EXPR_UNARY uop_kind tir_expr
  | TIR_EXPR_BINARY bop_kind tir_expr tir_expr

fun tir_expr_is_lvalue :: "tir_expr \<Rightarrow> error + bool" where
  "tir_expr_is_lvalue (Tir_expr loc ty d) =
     (case d of
        TIR_EXPR_IDENTIFIER symb \<Rightarrow>
          (case sym_kind symb of
             SYMBOL_VARIABLE \<Rightarrow> Inr True
           | SYMBOL_CONSTANT \<Rightarrow> Inr True
           | SYMBOL_FUNCTION \<Rightarrow> Inr False
           | _ \<Rightarrow> Inl Unreachable)
      | TIR_EXPR_INDEX lhs idx \<Rightarrow>
          (if tkind (expr_type lhs) = TYPE_SLICE then Inr True else tir_expr_is_lvalue lhs)
      | TIR_EXPR_UNARY op rhs \<Rightarrow> Inr (op = UOP_DEREFERENCE)
      | _ \<Rightarrow> Inr False)"

section \<open>Values (tir.c)\<close>

definition value_new_boolean :: "context \<Rightarrow> bool \<Rightarrow> value" where
  "value_new_boolean ctx boolean = Value (builtin_bool ctx) (Data_boolean boolean)"

definition value_new_byte :: "context \<Rightarrow> 8 word \<Rightarrow> value" where
  "value_new_byte ctx byte = Value (builtin_byte ctx) (Data_byte byte)"

text \<open>
  \<^verbatim>\<open>value_new_integer\<close> asserts that the integer is within the bounds stored in the type.
\<close>

definition value_new_integer :: "type \<Rightarrow> int \<Rightarrow> error + value" where
  "value_new_integer ty integer =
     (if tkind ty = TYPE_BYTE \<or> type_is_integer ty then
        (case tdata ty of
           Integer_data mn mx \<Rightarrow>
             if mn \<le> integer \<and> integer \<le> mx then Inr (Value ty (Data_integer integer))
             else Inl Assertion
         | _ \<Rightarrow> Inl Bad_union)
      else Inl Assertion)"

text \<open>
  A \<^verbatim>\<open>struct tir_function const*\<close>: the address of the function object and the two members
  that \<^verbatim>\<open>tir_function_new\<close> sets and nothing changes afterwards.
\<close>

record tir_function =
  fn_addr :: nat
  fn_name :: string
  fn_type :: type

definition value_new_function :: "tir_function \<Rightarrow> value" where
  "value_new_function function = Value (fn_type function) (Data_function (fn_addr function))"

definition value_new_pointer :: "type \<Rightarrow> address \<Rightarrow> error + value" where
  "value_new_pointer ty addr =
     (if tkind ty = TYPE_POINTER then Inr (Value ty (Data_pointer addr)) else Inl Assertion)"

definition value_new_array :: "type \<Rightarrow> value list \<Rightarrow> error + value" where
  "value_new_array ty els =
     (if tkind ty = TYPE_ARRAY then
        (case tdata ty of
           Array_data count base \<Rightarrow>
             if count = length els then Inr (Value ty (Data_array els)) else Inl Assertion
         | _ \<Rightarrow> Inl Bad_union)
      else Inl Assertion)"

definition value_new_slice :: "type \<Rightarrow> value \<Rightarrow> value \<Rightarrow> error + value" where
  "value_new_slice ty pointer count =
     (if tkind ty \<noteq> TYPE_SLICE \<or> tkind (vtype pointer) \<noteq> TYPE_POINTER
         \<or> tkind (vtype count) \<noteq> TYPE_USIZE
      then Inl Assertion
      else case (vdata count, tdata ty, tdata (vtype pointer)) of
        (Data_integer c, Slice_data sb, Pointer_data pb) \<Rightarrow>
          if 0 \<le> c \<and> sb = pb then Inr (Value ty (Data_slice pointer count)) else Inl Assertion
      | _ \<Rightarrow> Inl Bad_union)"

text \<open>Collecting results in order, stopping at the first error.\<close>

fun collect :: "(error + 'a) list \<Rightarrow> error + 'a list" where
  "collect [] = Inr []"
| "collect (x # xs) =
     (case x of
        Inl e \<Rightarrow> Inl e
      | Inr v \<Rightarrow> (case collect xs of Inl e \<Rightarrow> Inl e | Inr vs \<Rightarrow> Inr (v # vs)))"

text \<open>
  \<^verbatim>\<open>value_clone\<close>. The clone of a function value is built from the function object, whose
  type is the type of the value; the model takes it from the value.
\<close>

fun value_clone :: "context \<Rightarrow> value \<Rightarrow> error + value" where
  "value_clone ctx (Value ty d) =
     (if tkind ty = TYPE_VOID \<or> tkind ty = TYPE_INTEGER then Inl Unreachable
      else if tkind ty = TYPE_BOOL then
        (case d of Data_boolean b \<Rightarrow> Inr (value_new_boolean ctx b) | _ \<Rightarrow> Inl Bad_union)
      else if tkind ty = TYPE_BYTE then
        (case d of Data_byte b \<Rightarrow> Inr (value_new_byte ctx b) | _ \<Rightarrow> Inl Bad_union)
      else if type_is_integer ty then
        (case d of Data_integer i \<Rightarrow> value_new_integer ty i | _ \<Rightarrow> Inl Bad_union)
      else if tkind ty = TYPE_FUNCTION then
        (case d of Data_function f \<Rightarrow> Inr (Value ty (Data_function f)) | _ \<Rightarrow> Inl Bad_union)
      else if tkind ty = TYPE_POINTER then
        (case d of Data_pointer a \<Rightarrow> value_new_pointer ty a | _ \<Rightarrow> Inl Bad_union)
      else if tkind ty = TYPE_ARRAY then
        (case d of
           Data_array els \<Rightarrow>
             (case collect (map (value_clone ctx) els) of
                Inl e \<Rightarrow> Inl e
              | Inr cloned \<Rightarrow> value_new_array ty cloned)
         | _ \<Rightarrow> Inl Bad_union)
      else
        (case d of
           Data_slice pointer count \<Rightarrow>
             (case value_clone ctx pointer of
                Inl e \<Rightarrow> Inl e
              | Inr p \<Rightarrow>
                  (case value_clone ctx count of
                     Inl e \<Rightarrow> Inl e
                   | Inr c \<Rightarrow> value_new_slice ty p c))
         | _ \<Rightarrow> Inl Bad_union))"

text \<open>
  \<^verbatim>\<open>value_eq\<close>: the operands must have the same type; the switch is on the kind of that
  type. The pointer, array and slice cases are \<^verbatim>\<open>UNREACHABLE()\<close>.
\<close>

definition value_eq :: "value \<Rightarrow> value \<Rightarrow> error + bool" where
  "value_eq lhs rhs =
     (if vtype lhs \<noteq> vtype rhs then Inl Assertion
      else if tkind (vtype lhs) = TYPE_VOID then Inr True
      else if tkind (vtype lhs) = TYPE_BOOL then
        (case (vdata lhs, vdata rhs) of
           (Data_boolean a, Data_boolean b) \<Rightarrow> Inr (a = b) | _ \<Rightarrow> Inl Bad_union)
      else if tkind (vtype lhs) = TYPE_BYTE then
        (case (vdata lhs, vdata rhs) of
           (Data_byte a, Data_byte b) \<Rightarrow> Inr (a = b) | _ \<Rightarrow> Inl Bad_union)
      else if type_is_integer (vtype lhs) then
        (case (vdata lhs, vdata rhs) of
           (Data_integer a, Data_integer b) \<Rightarrow> Inr (a = b) | _ \<Rightarrow> Inl Bad_union)
      else if tkind (vtype lhs) = TYPE_FUNCTION then
        (case (vdata lhs, vdata rhs) of
           (Data_function a, Data_function b) \<Rightarrow> Inr (a = b) | _ \<Rightarrow> Inl Bad_union)
      else Inl Unreachable)"

definition value_lt :: "value \<Rightarrow> value \<Rightarrow> error + bool" where
  "value_lt lhs rhs =
     (if vtype lhs \<noteq> vtype rhs then Inl Assertion
      else if tkind (vtype lhs) = TYPE_VOID then Inr True
      else if tkind (vtype lhs) = TYPE_BOOL then
        (case (vdata lhs, vdata rhs) of
           (Data_boolean a, Data_boolean b) \<Rightarrow> Inr (a < b) | _ \<Rightarrow> Inl Bad_union)
      else if tkind (vtype lhs) = TYPE_BYTE then
        (case (vdata lhs, vdata rhs) of
           (Data_byte a, Data_byte b) \<Rightarrow> Inr (a < b) | _ \<Rightarrow> Inl Bad_union)
      else if type_is_integer (vtype lhs) then
        (case (vdata lhs, vdata rhs) of
           (Data_integer a, Data_integer b) \<Rightarrow> Inr (a < b) | _ \<Rightarrow> Inl Bad_union)
      else Inl Unreachable)"

definition value_gt :: "value \<Rightarrow> value \<Rightarrow> error + bool" where
  "value_gt lhs rhs =
     (if vtype lhs \<noteq> vtype rhs then Inl Assertion
      else if tkind (vtype lhs) = TYPE_VOID then Inr True
      else if tkind (vtype lhs) = TYPE_BOOL then
        (case (vdata lhs, vdata rhs) of
           (Data_boolean a, Data_boolean b) \<Rightarrow> Inr (a > b) | _ \<Rightarrow> Inl Bad_union)
      else if tkind (vtype lhs) = TYPE_BYTE then
        (case (vdata lhs, vdata rhs) of
           (Data_byte a, Data_byte b) \<Rightarrow> Inr (a > b) | _ \<Rightarrow> Inl Bad_union)
      else if type_is_integer (vtype lhs) then
        (case (vdata lhs, vdata rhs) of
           (Data_integer a, Data_integer b) \<Rightarrow> Inr (a > b) | _ \<Rightarrow> Inl Bad_union)
      else Inl Unreachable)"


text \<open>
  \<^verbatim>\<open>value_to_new_bytes\<close>: the little-endian bytes of a value. \<open>bits_to_bytes\<close> is the loop
  that ors bit \<open>i\<close> into byte \<open>i / 8\<close>; \<open>place\<close> is the \<^verbatim>\<open>memmove\<close> of an element into the
  buffer (a copy that would leave either buffer is an error here).
\<close>

definition bits_to_bytes :: "nat \<Rightarrow> bool list \<Rightarrow> 8 word list" where
  "bits_to_bytes n bits =
     map (\<lambda>j. word_of_int (bitarr_unsigned (take 8 (drop (8 * j) bits)))) [0..<n]"

definition place :: "8 word list \<Rightarrow> nat \<Rightarrow> 8 word list \<Rightarrow> nat \<Rightarrow> error + 8 word list" where
  "place buf off src n =
     (if off + n \<le> length buf \<and> n \<le> length src
      then Inr (take off buf @ take n src @ drop (off + n) buf)
      else Inl Bad_pointer)"

fun place_all :: "8 word list \<Rightarrow> nat \<Rightarrow> nat \<Rightarrow> 8 word list list \<Rightarrow> error + 8 word list" where
  "place_all buf off n [] = Inr buf"
| "place_all buf off n (src # srcs) =
     (case place buf off src n of
        Inl e \<Rightarrow> Inl e
      | Inr buf' \<Rightarrow> place_all buf' (off + n) n srcs)"

fun value_to_new_bytes :: "value \<Rightarrow> error + 8 word list" where
  "value_to_new_bytes (Value ty d) =
     (if tkind ty = TYPE_VOID then (if tsize ty = 0 then Inr [] else Inl Assertion)
      else if tkind ty = TYPE_BOOL then
        (if tsize ty \<noteq> 1 then Inl Assertion
         else case d of Data_boolean b \<Rightarrow> Inr [if b then 1 else 0] | _ \<Rightarrow> Inl Bad_union)
      else if tkind ty = TYPE_BYTE then
        (if tsize ty \<noteq> 1 then Inl Assertion
         else case d of Data_byte b \<Rightarrow> Inr [b] | _ \<Rightarrow> Inl Bad_union)
      else if type_is_integer ty then
        (case d of
           Data_integer i \<Rightarrow>
             (case bigint_to_bitarr (tsize ty * 8) i of
                None \<Rightarrow> Inl Unreachable
              | Some bits \<Rightarrow> Inr (bits_to_bytes (tsize ty) bits))
         | _ \<Rightarrow> Inl Bad_union)
      else if tkind ty = TYPE_ARRAY then
        (case (d, tdata ty) of
           (Data_array els, Array_data count base) \<Rightarrow>
             (case collect (map value_to_new_bytes els) of
                Inl e \<Rightarrow> Inl e
              | Inr ebs \<Rightarrow> place_all (replicate (tsize ty) 0) 0 (tsize base) ebs)
         | _ \<Rightarrow> Inl Bad_union)
      else Inl Unreachable)"

section \<open>The compile-time evaluator (eval.c)\<close>

definition integer_is_out_of_range :: "type \<Rightarrow> int \<Rightarrow> error + bool" where
  "integer_is_out_of_range ty res =
     (if type_is_integer ty then
        (case tdata ty of
           Integer_data mn mx \<Rightarrow> Inr (res < mn \<or> res > mx)
         | _ \<Rightarrow> Inl Bad_union)
      else Inl Assertion)"

text \<open>The \<^verbatim>\<open>TIR_EXPR_CAST\<close> case, from the evaluated operand on.\<close>

definition eval_cast :: "context \<Rightarrow> source_location \<Rightarrow> type \<Rightarrow> value \<Rightarrow> error + value" where
  "eval_cast ctx loc ty from =
     (if tkind (vtype from) = TYPE_POINTER
      then Inl (Fatal loc ''constant expression contains cast from pointer type'' [])
      else if tkind ty = TYPE_POINTER
      then Inl (Fatal loc ''constant expression contains cast to pointer type'' [])
      else case value_to_new_bytes from of
        Inl e \<Rightarrow> Inl e
      | Inr bytes \<Rightarrow>
          if tkind ty = TYPE_BOOL then Inr (value_new_boolean ctx (\<exists>b \<in> set bytes. b \<noteq> 0))
          else if tkind ty = TYPE_BYTE then
            (if length bytes \<ge> 1 then Inr (value_new_byte ctx (bytes ! 0)) else Inl Assertion)
          else if type_is_integer ty then
            (if bytes = [] then Inl Bad_pointer
             else
               let extend = (type_is_sinteger (vtype from) \<and> bit (last bytes) 7);
                   bit_count = tsize ty * 8;
                   bits = map (\<lambda>i. if i \<ge> length bytes * 8 then extend
                                    else bit (bytes ! (i div 8)) (i mod 8)) [0..<bit_count]
               in value_new_integer ty (bitarr_to_bigint bits (type_is_sinteger ty)))
          else Inl Unreachable)"

text \<open>The \<^verbatim>\<open>TIR_EXPR_INDEX\<close> case, from the evaluated operands on.\<close>

definition eval_index ::
  "context \<Rightarrow> source_location \<Rightarrow> source_location \<Rightarrow> value \<Rightarrow> value \<Rightarrow> error + value" where
  "eval_index ctx loc idx_loc lhs idx =
     (if tkind (vtype idx) \<noteq> TYPE_USIZE then Inl Assertion
      else case vdata idx of
        Data_integer idx_bigint \<Rightarrow>
          (case bigint_to_uz idx_bigint of
             None \<Rightarrow> Inl (Fatal idx_loc ''index out-of-range (received %s)'' [Big idx_bigint])
           | Some idx_uz \<Rightarrow>
               if tkind (vtype lhs) = TYPE_ARRAY then
                 (case (tdata (vtype lhs), vdata lhs) of
                    (Array_data count base, Data_array els) \<Rightarrow>
                      if idx_uz \<ge> count
                      then Inl (Fatal idx_loc
                             ''index out-of-bounds (array count is %zu, received %zu)''
                             [Zu count, Zu idx_uz])
                      else if idx_uz < length els then value_clone ctx (els ! idx_uz)
                      else Inl Bad_pointer
                  | _ \<Rightarrow> Inl Bad_union)
               else if tkind (vtype lhs) = TYPE_SLICE then
                 Inl (Fatal loc
                   ''indexing with left-hand-type `%s` not supported in compile-time expressions''
                   [Str (tname (vtype lhs))])
               else Inl Unreachable)
      | _ \<Rightarrow> Inl Bad_union)"

text \<open>
  The \<^verbatim>\<open>TIR_EXPR_SLICE\<close> case between the evaluation of the three operands and the call of
  \<^verbatim>\<open>eval_lvalue\<close>: the conversions of begin and end to \<^verbatim>\<open>size_t\<close> and, for an array, the
  two bounds checks. The result is begin and end as \<^verbatim>\<open>size_t\<close>.
\<close>

definition eval_slice_check ::
  "source_location \<Rightarrow> source_location \<Rightarrow> source_location \<Rightarrow> value \<Rightarrow> value \<Rightarrow> value \<Rightarrow>
   error + nat \<times> nat" where
  "eval_slice_check loc begin_loc end_loc lhs begin end =
     (if tkind (vtype begin) \<noteq> TYPE_USIZE then Inl Assertion
      else case vdata begin of
        Data_integer begin_bigint \<Rightarrow>
          (case bigint_to_uz begin_bigint of
             None \<Rightarrow>
               Inl (Fatal begin_loc ''index out-of-range (received %s)'' [Big begin_bigint])
           | Some begin_uz \<Rightarrow>
               if tkind (vtype end) \<noteq> TYPE_USIZE then Inl Assertion
               else case vdata end of
                 Data_integer end_bigint \<Rightarrow>
                   (case bigint_to_uz end_bigint of
                      None \<Rightarrow>
                        Inl (Fatal end_loc ''index out-of-range (received %s)'' [Big end_bigint])
                    | Some end_uz \<Rightarrow>
                        if tkind (vtype lhs) = TYPE_ARRAY then
                          (case tdata (vtype lhs) of
                             Array_data count base \<Rightarrow>
                               if begin_uz \<ge> count
                               then Inl (Fatal begin_loc
                                      ''index out-of-bounds (array count is %zu, received %zu)''
                                      [Zu count, Zu begin_uz])
                               else if end_uz > count
                               then Inl (Fatal begin_loc
                                      ''index out-of-bounds (array count is %zu, received %zu)''
                                      [Zu count, Zu end_uz])
                               else Inr (begin_uz, end_uz)
                           | _ \<Rightarrow> Inl Bad_union)
                        else if tkind (vtype lhs) = TYPE_SLICE then
                          Inl (Fatal loc
                            ''slicing with left-hand-type `%s` not supported in compile-time expressions''
                            [Str (tname (vtype lhs))])
                        else Inl Unreachable)
               | _ \<Rightarrow> Inl Bad_union)
      | _ \<Rightarrow> Inl Bad_union)"

text \<open>
  The rest of the array branch of \<^verbatim>\<open>TIR_EXPR_SLICE\<close>, from the pointer returned by
  \<^verbatim>\<open>eval_lvalue\<close> on: the pointer is retyped to a pointer to the element type and moved
  by \<open>begin\<close> elements, the count is \<open>end - begin\<close>.
\<close>

definition eval_slice_make ::
  "context \<Rightarrow> type \<Rightarrow> value \<Rightarrow> nat \<Rightarrow> nat \<Rightarrow> error + value \<times> context" where
  "eval_slice_make ctx ty pointer begin_uz end_uz =
     (if tkind (vtype pointer) \<noteq> TYPE_POINTER then Inl Assertion
      else case (vdata pointer, tdata ty) of
        (Data_pointer (ADDRESS_STATIC nm offset), Slice_data base) \<Rightarrow>
          (case type_unique_pointer ctx base of
             Inl e \<Rightarrow> Inl e
           | Inr (None, ctx') \<Rightarrow> Inl Bad_pointer
           | Inr (Some pty, ctx') \<Rightarrow>
               (case value_new_integer (builtin_usize ctx')
                       (uz_to_bigint end_uz - uz_to_bigint begin_uz) of
                  Inl e \<Rightarrow> Inl e
                | Inr count \<Rightarrow>
                    (case value_new_slice ty
                            (Value pty (Data_pointer
                               (ADDRESS_STATIC nm ((offset + begin_uz * tsize base) mod 2 ^ 64))))
                            count of
                       Inl e \<Rightarrow> Inl e
                     | Inr res \<Rightarrow> Inr (res, ctx'))))
      | (Data_pointer (ADDRESS_LOCAL off), Slice_data base) \<Rightarrow> Inl Assertion
      | _ \<Rightarrow> Inl Bad_union)"

text \<open>
  The bitwise operators on sized integers: both operands as bit arrays of the width of
  the type, the operator bit by bit, and back.
\<close>

definition eval_bitwise_integer ::
  "type \<Rightarrow> (bool \<Rightarrow> bool \<Rightarrow> bool) \<Rightarrow> int \<Rightarrow> int \<Rightarrow> error + value" where
  "eval_bitwise_integer ty f a b =
     (case (bigint_to_bitarr (tsize ty * 8) a, bigint_to_bitarr (tsize ty * 8) b) of
        (Some lhs_bits, Some rhs_bits) \<Rightarrow>
          value_new_integer ty
            (bitarr_to_bigint (map (\<lambda>(x, y). f x y) (zip lhs_bits rhs_bits))
               (type_is_sinteger ty))
      | _ \<Rightarrow> Inl Unreachable)"

definition eval_bitwise ::
  "context \<Rightarrow> (bool \<Rightarrow> bool \<Rightarrow> bool) \<Rightarrow> (8 word \<Rightarrow> 8 word \<Rightarrow> 8 word) \<Rightarrow> value \<Rightarrow> value \<Rightarrow>
   error + value" where
  "eval_bitwise ctx f g lhs rhs =
     (if \<not> (tkind (vtype lhs) = TYPE_BOOL \<or> tkind (vtype lhs) = TYPE_BYTE
             \<or> type_is_integer (vtype lhs))
         \<or> \<not> (tkind (vtype rhs) = TYPE_BOOL \<or> tkind (vtype rhs) = TYPE_BYTE
                \<or> type_is_integer (vtype rhs))
         \<or> tkind (vtype lhs) \<noteq> tkind (vtype rhs)
      then Inl Assertion
      else case (vdata lhs, vdata rhs) of
        (Data_boolean a, Data_boolean b) \<Rightarrow>
          if tkind (vtype lhs) = TYPE_BOOL then Inr (value_new_boolean ctx (f a b))
          else Inl Bad_union
      | (Data_byte a, Data_byte b) \<Rightarrow>
          if tkind (vtype lhs) = TYPE_BYTE then Inr (value_new_byte ctx (g a b))
          else Inl Bad_union
      | (Data_integer a, Data_integer b) \<Rightarrow>
          if type_is_integer (vtype lhs) then eval_bitwise_integer (vtype lhs) f a b
          else Inl Bad_union
      | _ \<Rightarrow> Inl Bad_union)"

text \<open>
  The arithmetic operators \<^verbatim>\<open>BOP_ADD\<close>, \<^verbatim>\<open>BOP_SUB\<close> and \<^verbatim>\<open>BOP_MUL\<close>, which differ in the
  big-integer operation and in the format string only.
\<close>

definition eval_arithmetic ::
  "source_location \<Rightarrow> type \<Rightarrow> (int \<Rightarrow> int \<Rightarrow> int) \<Rightarrow> string \<Rightarrow> value \<Rightarrow> value \<Rightarrow> error + value" where
  "eval_arithmetic loc ty f fmt lhs rhs =
     (if \<not> type_is_integer (vtype lhs) \<or> \<not> type_is_integer (vtype rhs) then Inl Assertion
      else case (vdata lhs, vdata rhs) of
        (Data_integer a, Data_integer b) \<Rightarrow>
          (case integer_is_out_of_range ty (f a b) of
             Inl e \<Rightarrow> Inl e
           | Inr True \<Rightarrow> Inl (Fatal loc fmt [Big a, Big b, Big (f a b)])
           | Inr False \<Rightarrow> value_new_integer ty (f a b))
      | _ \<Rightarrow> Inl Bad_union)"

definition eval_divide :: "source_location \<Rightarrow> type \<Rightarrow> value \<Rightarrow> value \<Rightarrow> error + value" where
  "eval_divide loc ty lhs rhs =
     (if \<not> type_is_integer (vtype lhs) \<or> \<not> type_is_integer (vtype rhs) then Inl Assertion
      else case (vdata lhs, vdata rhs) of
        (Data_integer a, Data_integer b) \<Rightarrow>
          if b = 0 then Inl (Fatal loc ''divide by zero (%s / %s)'' [Big a, Big b])
          else value_new_integer ty (bigint_divrem_quot a b)
      | _ \<Rightarrow> Inl Bad_union)"

definition eval_logical :: "context \<Rightarrow> (bool \<Rightarrow> bool \<Rightarrow> bool) \<Rightarrow> value \<Rightarrow> value \<Rightarrow> error + value" where
  "eval_logical ctx f lhs rhs =
     (if tkind (vtype lhs) \<noteq> TYPE_BOOL \<or> tkind (vtype rhs) \<noteq> TYPE_BOOL then Inl Assertion
      else case (vdata lhs, vdata rhs) of
        (Data_boolean a, Data_boolean b) \<Rightarrow> Inr (value_new_boolean ctx (f a b))
      | _ \<Rightarrow> Inl Bad_union)"

text \<open>
  The switch on the operator of the \<^verbatim>\<open>TIR_EXPR_BINARY\<close> case. Both operands have been
  evaluated when it is entered. In \<^verbatim>\<open>BOP_LE\<close> and \<^verbatim>\<open>BOP_GE\<close> the C operator \<^verbatim>\<open>||\<close> calls
  \<^verbatim>\<open>value_eq\<close> only when the first comparison is false.
\<close>

definition eval_binary ::
  "context \<Rightarrow> source_location \<Rightarrow> type \<Rightarrow> bop_kind \<Rightarrow> value \<Rightarrow> value \<Rightarrow> error + value" where
  "eval_binary ctx loc ty op lhs rhs =
     (case op of
        BOP_OR \<Rightarrow> eval_logical ctx (\<or>) lhs rhs
      | BOP_AND \<Rightarrow> eval_logical ctx (\<and>) lhs rhs
      | BOP_EQ \<Rightarrow>
          (case value_eq lhs rhs of Inl e \<Rightarrow> Inl e | Inr b \<Rightarrow> Inr (value_new_boolean ctx b))
      | BOP_NE \<Rightarrow>
          (case value_eq lhs rhs of Inl e \<Rightarrow> Inl e | Inr b \<Rightarrow> Inr (value_new_boolean ctx (\<not> b)))
      | BOP_LE \<Rightarrow>
          (case value_lt lhs rhs of
             Inl e \<Rightarrow> Inl e
           | Inr True \<Rightarrow> Inr (value_new_boolean ctx True)
           | Inr False \<Rightarrow>
               (case value_eq lhs rhs of Inl e \<Rightarrow> Inl e | Inr b \<Rightarrow> Inr (value_new_boolean ctx b)))
      | BOP_LT \<Rightarrow>
          (case value_lt lhs rhs of Inl e \<Rightarrow> Inl e | Inr b \<Rightarrow> Inr (value_new_boolean ctx b))
      | BOP_GE \<Rightarrow>
          (case value_gt lhs rhs of
             Inl e \<Rightarrow> Inl e
           | Inr True \<Rightarrow> Inr (value_new_boolean ctx True)
           | Inr False \<Rightarrow>
               (case value_eq lhs rhs of Inl e \<Rightarrow> Inl e | Inr b \<Rightarrow> Inr (value_new_boolean ctx b)))
      | BOP_GT \<Rightarrow>
          (case value_gt lhs rhs of Inl e \<Rightarrow> Inl e | Inr b \<Rightarrow> Inr (value_new_boolean ctx b))
      | BOP_ADD \<Rightarrow>
          eval_arithmetic loc ty (+)
            ''arithmetic operation produces out-of-range result (%s + %s == %s)'' lhs rhs
      | BOP_SUB \<Rightarrow>
          eval_arithmetic loc ty (-)
            ''arithmetic operation produces out-of-range result (%s - %s == %s)'' lhs rhs
      | BOP_MUL \<Rightarrow>
          eval_arithmetic loc ty (*)
            ''arithmetic operation produces out-of-range result (%s * %s == %s)'' lhs rhs
      | BOP_DIV \<Rightarrow> eval_divide loc ty lhs rhs
      | BOP_BITOR \<Rightarrow> eval_bitwise ctx (\<or>) (OR) lhs rhs
      | BOP_BITXOR \<Rightarrow> eval_bitwise ctx (\<noteq>) (XOR) lhs rhs
      | BOP_BITAND \<Rightarrow> eval_bitwise ctx (\<and>) (AND) lhs rhs
      | _ \<Rightarrow> Inl Unreachable)"

text \<open>
  The operators \<^verbatim>\<open>UOP_NOT\<close>, \<^verbatim>\<open>UOP_POS\<close>, \<^verbatim>\<open>UOP_NEG\<close> and \<^verbatim>\<open>UOP_BITNOT\<close> of the
  \<^verbatim>\<open>TIR_EXPR_UNARY\<close> case, from the evaluated operand on.
\<close>

definition eval_unary ::
  "context \<Rightarrow> source_location \<Rightarrow> type \<Rightarrow> uop_kind \<Rightarrow> value \<Rightarrow> error + value" where
  "eval_unary ctx loc ty op rhs =
     (case op of
        UOP_NOT \<Rightarrow>
          (if tkind (vtype rhs) \<noteq> TYPE_BOOL then Inl Assertion
           else case vdata rhs of
             Data_boolean b \<Rightarrow> Inr (Value (vtype rhs) (Data_boolean (\<not> b)))
           | _ \<Rightarrow> Inl Bad_union)
      | UOP_POS \<Rightarrow> (if type_is_integer (vtype rhs) then Inr rhs else Inl Assertion)
      | UOP_NEG \<Rightarrow>
          (if \<not> type_is_integer (vtype rhs) then Inl Assertion
           else case vdata rhs of
             Data_integer i \<Rightarrow>
               (case integer_is_out_of_range ty (- i) of
                  Inl e \<Rightarrow> Inl e
                | Inr True \<Rightarrow>
                    Inl (Fatal loc
                      ''arithmetic operation produces out-of-range result (-(%s) == %s)''
                      [Big i, Big (- i)])
                | Inr False \<Rightarrow> value_new_integer ty (- i))
           | _ \<Rightarrow> Inl Bad_union)
      | UOP_BITNOT \<Rightarrow>
          (if \<not> (tkind (vtype rhs) = TYPE_BYTE \<or> type_is_integer (vtype rhs)) then Inl Assertion
           else if tkind (vtype rhs) = TYPE_BYTE then
             (case vdata rhs of
                Data_byte b \<Rightarrow> Inr (Value (vtype rhs) (Data_byte (NOT b)))
              | _ \<Rightarrow> Inl Bad_union)
           else case vdata rhs of
             Data_integer i \<Rightarrow>
               (case bigint_to_bitarr (tsize (vtype rhs) * 8) i of
                  None \<Rightarrow> Inl Unreachable
                | Some rhs_bits \<Rightarrow>
                    value_new_integer (vtype rhs)
                      (bitarr_to_bigint (map Not rhs_bits) (type_is_sinteger (vtype rhs))))
           | _ \<Rightarrow> Inl Bad_union)
      | _ \<Rightarrow> Inl Unreachable)"

text \<open>The \<^verbatim>\<open>UOP_COUNTOF\<close> operator, from the evaluated operand on.\<close>

definition eval_countof :: "context \<Rightarrow> value \<Rightarrow> error + value" where
  "eval_countof ctx rhs =
     (if tkind (vtype rhs) = TYPE_ARRAY then
        (case (tdata (vtype rhs), vdata rhs) of
           (Array_data count_uz base, Data_array els) \<Rightarrow>
             if count_uz = length els
             then Inr (Value (builtin_usize ctx) (Data_integer (uz_to_bigint count_uz)))
             else Inl Assertion
         | _ \<Rightarrow> Inl Bad_union)
      else if tkind (vtype rhs) = TYPE_SLICE then
        (case vdata rhs of
           Data_slice pointer count \<Rightarrow>
             (if tkind (vtype count) \<noteq> TYPE_USIZE then Inl Assertion
              else case vdata count of
                Data_integer count_bigint \<Rightarrow>
                  Inr (Value (builtin_usize ctx) (Data_integer count_bigint))
              | _ \<Rightarrow> Inl Bad_union)
         | _ \<Rightarrow> Inl Bad_union)
      else Inl Unreachable)"


text \<open>
  The \<^verbatim>\<open>TIR_EXPR_INDEX\<close> case of \<^verbatim>\<open>eval_lvalue\<close>, from the evaluated operands on.
  \<open>lhs_type\<close> is the type of the indexed expression. The first argument of the
  out-of-bounds diagnostic is read in the source from the array member of a pointer
  type; it is left out of the argument list.
\<close>

definition eval_lvalue_index ::
  "context \<Rightarrow> source_location \<Rightarrow> type \<Rightarrow> value \<Rightarrow> value \<Rightarrow> error + value \<times> context" where
  "eval_lvalue_index ctx idx_loc lhs_type lhs idx =
     (if tkind (vtype lhs) \<noteq> TYPE_POINTER \<or> tkind (vtype idx) \<noteq> TYPE_USIZE then Inl Assertion
      else case tdata (vtype lhs) of
        Pointer_data array_type \<Rightarrow>
          (if tkind array_type \<noteq> TYPE_ARRAY then Inl Assertion
           else case tdata array_type of
             Array_data array_count element_type \<Rightarrow>
               (case type_unique_pointer ctx element_type of
                  Inl e \<Rightarrow> Inl e
                | Inr (pty, ctx') \<Rightarrow>
                    (case vdata idx of
                       Data_integer idx_bigint \<Rightarrow>
                         (case bigint_to_uz idx_bigint of
                            None \<Rightarrow>
                              Inl (Fatal idx_loc ''index out-of-range (received %s)''
                                     [Big idx_bigint])
                          | Some idx_uz \<Rightarrow>
                              if tkind lhs_type \<noteq> TYPE_ARRAY then Inl Assertion
                              else case tdata lhs_type of
                                Array_data count base \<Rightarrow>
                                  if idx_uz \<ge> count
                                  then Inl (Fatal idx_loc
                                         ''index out-of-bounds (array count is %zu, received %s)''
                                         [Big idx_bigint])
                                  else
                                    (case (vdata lhs, pty) of
                                       (Data_pointer (ADDRESS_STATIC nm offset), Some ty) \<Rightarrow>
                                         (case value_new_pointer ty
                                                 (ADDRESS_STATIC nm
                                                    ((offset + tsize element_type * idx_uz)
                                                       mod 2 ^ 64)) of
                                            Inl e \<Rightarrow> Inl e
                                          | Inr res \<Rightarrow> Inr (res, ctx'))
                                     | (Data_pointer (ADDRESS_STATIC nm offset), None) \<Rightarrow>
                                         Inl Bad_pointer
                                     | (Data_pointer (ADDRESS_LOCAL off), _) \<Rightarrow> Inl Assertion
                                     | _ \<Rightarrow> Inl Bad_union)
                              | _ \<Rightarrow> Inl Bad_union)
                     | _ \<Rightarrow> Inl Bad_union))
           | _ \<Rightarrow> Inl Bad_union)
      | _ \<Rightarrow> Inl Bad_union)"

text \<open>
  \<^verbatim>\<open>eval_rvalue\<close> and \<^verbatim>\<open>eval_lvalue\<close>. The context is threaded through because
  \<^verbatim>\<open>type_unique_pointer\<close> may register a type. \<open>eval_rvalues\<close> is the loop over the
  elements of an array literal. The evaluator argument of the source holds a symbol
  table that neither function reads.
\<close>

fun eval_rvalue :: "context \<Rightarrow> tir_expr \<Rightarrow> error + value \<times> context"
and eval_rvalues :: "context \<Rightarrow> tir_expr list \<Rightarrow> error + value list \<times> context"
and eval_lvalue :: "context \<Rightarrow> tir_expr \<Rightarrow> error + value \<times> context"
where
  "eval_rvalue ctx (Tir_expr loc ty (TIR_EXPR_IDENTIFIER symb)) =
     (if sym_kind symb = SYMBOL_CONSTANT \<or> sym_kind symb = SYMBOL_FUNCTION then
        (case sym_value symb of
           None \<Rightarrow> Inl Assertion
         | Some v \<Rightarrow> (case value_clone ctx v of Inl e \<Rightarrow> Inl e | Inr c \<Rightarrow> Inr (c, ctx)))
      else Inl (Fatal loc ''identifier `%s` is not a constant'' [Str (sym_name symb)]))"
| "eval_rvalue ctx (Tir_expr loc ty (TIR_EXPR_BOOLEAN b)) = Inr (value_new_boolean ctx b, ctx)"
| "eval_rvalue ctx (Tir_expr loc ty (TIR_EXPR_INTEGER integer)) =
     (if tkind ty = TYPE_BYTE then
        (case bigint_to_u8 integer of
           None \<Rightarrow> Inl Assertion
         | Some byte \<Rightarrow> Inr (value_new_byte ctx byte, ctx))
      else if type_is_integer ty then
        (case value_new_integer ty integer of Inl e \<Rightarrow> Inl e | Inr v \<Rightarrow> Inr (v, ctx))
      else Inl Assertion)"
| "eval_rvalue ctx (Tir_expr loc ty (TIR_EXPR_BYTES addr count)) =
     (case type_unique_pointer ctx (builtin_byte ctx) of
        Inl e \<Rightarrow> Inl e
      | Inr (None, ctx') \<Rightarrow> Inl Bad_pointer
      | Inr (Some pty, ctx') \<Rightarrow>
          (case value_new_pointer pty addr of
             Inl e \<Rightarrow> Inl e
           | Inr pointer \<Rightarrow>
               (case value_new_integer (builtin_usize ctx') (uz_to_bigint count) of
                  Inl e \<Rightarrow> Inl e
                | Inr cnt \<Rightarrow>
                    (case value_new_slice ty pointer cnt of
                       Inl e \<Rightarrow> Inl e
                     | Inr res \<Rightarrow> Inr (res, ctx')))))"
| "eval_rvalue ctx (Tir_expr loc ty (TIR_EXPR_LITERAL_ARRAY els ellipsis)) =
     (case eval_rvalues ctx els of
        Inl e \<Rightarrow> Inl e
      | Inr (evaled, ctx1) \<Rightarrow>
          (case ellipsis of
             None \<Rightarrow>
               (case value_new_array ty evaled of Inl e \<Rightarrow> Inl e | Inr res \<Rightarrow> Inr (res, ctx1))
           | Some ell \<Rightarrow>
               (case eval_rvalue ctx1 ell of
                  Inl e \<Rightarrow> Inl e
                | Inr (evaled_ellipsis, ctx2) \<Rightarrow>
                    (case tdata ty of
                       Array_data count base \<Rightarrow>
                         (case collect (replicate (count - length els)
                                 (value_clone ctx2 evaled_ellipsis)) of
                            Inl e \<Rightarrow> Inl e
                          | Inr clones \<Rightarrow>
                              (case value_new_array ty (evaled @ clones) of
                                 Inl e \<Rightarrow> Inl e
                               | Inr res \<Rightarrow> Inr (res, ctx2)))
                     | _ \<Rightarrow> Inl Bad_union))))"
| "eval_rvalue ctx (Tir_expr loc ty (TIR_EXPR_LITERAL_SLICE pointer count)) =
     (case eval_rvalue ctx pointer of
        Inl e \<Rightarrow> Inl e
      | Inr (p, ctx1) \<Rightarrow>
          (case eval_rvalue ctx1 count of
             Inl e \<Rightarrow> Inl e
           | Inr (c, ctx2) \<Rightarrow>
               (case value_new_slice ty p c of Inl e \<Rightarrow> Inl e | Inr res \<Rightarrow> Inr (res, ctx2))))"
| "eval_rvalue ctx (Tir_expr loc ty (TIR_EXPR_CAST expr)) =
     (case eval_rvalue ctx expr of
        Inl e \<Rightarrow> Inl e
      | Inr (from, ctx1) \<Rightarrow>
          (case eval_cast ctx1 loc ty from of Inl e \<Rightarrow> Inl e | Inr res \<Rightarrow> Inr (res, ctx1)))"
| "eval_rvalue ctx (Tir_expr loc ty (TIR_EXPR_SYSCALL arguments)) =
     Inl (Fatal loc ''constant expression contains system call'' [])"
| "eval_rvalue ctx (Tir_expr loc ty (TIR_EXPR_CALL function arguments)) =
     Inl (Fatal loc ''constant expression contains function call'' [])"
| "eval_rvalue ctx (Tir_expr loc ty (TIR_EXPR_INDEX lhs idx)) =
     (case eval_rvalue ctx lhs of
        Inl e \<Rightarrow> Inl e
      | Inr (l, ctx1) \<Rightarrow>
          (case eval_rvalue ctx1 idx of
             Inl e \<Rightarrow> Inl e
           | Inr (i, ctx2) \<Rightarrow>
               (case eval_index ctx2 loc (expr_location idx) l i of
                  Inl e \<Rightarrow> Inl e
                | Inr res \<Rightarrow> Inr (res, ctx2))))"
| "eval_rvalue ctx (Tir_expr loc ty (TIR_EXPR_SLICE lhs begin end)) =
     (case eval_rvalue ctx lhs of
        Inl e \<Rightarrow> Inl e
      | Inr (l, ctx1) \<Rightarrow>
          (case eval_rvalue ctx1 begin of
             Inl e \<Rightarrow> Inl e
           | Inr (b, ctx2) \<Rightarrow>
               (case eval_rvalue ctx2 end of
                  Inl e \<Rightarrow> Inl e
                | Inr (n, ctx3) \<Rightarrow>
                    (case eval_slice_check loc (expr_location begin) (expr_location end) l b n of
                       Inl e \<Rightarrow> Inl e
                     | Inr (begin_uz, end_uz) \<Rightarrow>
                         (case eval_lvalue ctx3 lhs of
                            Inl e \<Rightarrow> Inl e
                          | Inr (pointer, ctx4) \<Rightarrow>
                              eval_slice_make ctx4 ty pointer begin_uz end_uz)))))"
| "eval_rvalue ctx (Tir_expr loc ty (TIR_EXPR_SIZEOF rhs)) =
     (if tkind ty \<noteq> TYPE_USIZE then Inl Assertion
      else case value_new_integer (builtin_usize ctx) (uz_to_bigint (tsize rhs)) of
        Inl e \<Rightarrow> Inl e
      | Inr res \<Rightarrow> Inr (res, ctx))"
| "eval_rvalue ctx (Tir_expr loc ty (TIR_EXPR_UNARY op rhs)) =
     (if op = UOP_DEREFERENCE then
        Inl (Fatal loc ''dereference operator not supported in compile-time expressions'' [])
      else if op = UOP_ADDRESSOF then eval_lvalue ctx rhs
      else if op = UOP_COUNTOF then
        (if tkind ty \<noteq> TYPE_USIZE then Inl Assertion
         else case value_new_integer (builtin_usize ctx) 0 of
           Inl e \<Rightarrow> Inl e
         | Inr zero \<Rightarrow>
             (case eval_rvalue ctx rhs of
                Inl e \<Rightarrow> Inl e
              | Inr (r, ctx1) \<Rightarrow>
                  (case eval_countof ctx1 r of Inl e \<Rightarrow> Inl e | Inr res \<Rightarrow> Inr (res, ctx1))))
      else
        (case eval_rvalue ctx rhs of
           Inl e \<Rightarrow> Inl e
         | Inr (r, ctx1) \<Rightarrow>
             (case eval_unary ctx1 loc ty op r of Inl e \<Rightarrow> Inl e | Inr res \<Rightarrow> Inr (res, ctx1))))"
| "eval_rvalue ctx (Tir_expr loc ty (TIR_EXPR_BINARY op lhs rhs)) =
     (case eval_rvalue ctx lhs of
        Inl e \<Rightarrow> Inl e
      | Inr (l, ctx1) \<Rightarrow>
          (case eval_rvalue ctx1 rhs of
             Inl e \<Rightarrow> Inl e
           | Inr (r, ctx2) \<Rightarrow>
               (case eval_binary ctx2 loc ty op l r of
                  Inl e \<Rightarrow> Inl e
                | Inr res \<Rightarrow> Inr (res, ctx2))))"
| "eval_rvalues ctx [] = Inr ([], ctx)"
| "eval_rvalues ctx (e # es) =
     (case eval_rvalue ctx e of
        Inl err \<Rightarrow> Inl err
      | Inr (v, ctx1) \<Rightarrow>
          (case eval_rvalues ctx1 es of
             Inl err \<Rightarrow> Inl err
           | Inr (vs, ctx2) \<Rightarrow> Inr (v # vs, ctx2)))"
| "eval_lvalue ctx (Tir_expr loc ty d) =
     (case tir_expr_is_lvalue (Tir_expr loc ty d) of
        Inl e \<Rightarrow> Inl e
      | Inr False \<Rightarrow> Inl Assertion
      | Inr True \<Rightarrow>
          (case d of
             TIR_EXPR_IDENTIFIER symb \<Rightarrow>
               (case (sym_address symb, sym_type symb) of
                  (Some (ADDRESS_STATIC nm offset), Some sty) \<Rightarrow>
                    (case type_unique_pointer ctx sty of
                       Inl e \<Rightarrow> Inl e
                     | Inr (None, ctx') \<Rightarrow> Inl Bad_pointer
                     | Inr (Some pty, ctx') \<Rightarrow>
                         (case value_new_pointer pty (ADDRESS_STATIC nm offset) of
                            Inl e \<Rightarrow> Inl e
                          | Inr res \<Rightarrow> Inr (res, ctx')))
                | (Some (ADDRESS_STATIC nm offset), None) \<Rightarrow> Inl Assertion
                | (Some (ADDRESS_LOCAL off), _) \<Rightarrow>
                    Inl (Fatal loc
                      ''addressof operator applied to non-static object in compile-time expression''
                      [])
                | (None, _) \<Rightarrow> Inl Bad_pointer)
           | TIR_EXPR_INDEX lhs idx \<Rightarrow>
               (case eval_lvalue ctx lhs of
                  Inl e \<Rightarrow> Inl e
                | Inr (l, ctx1) \<Rightarrow>
                    (case eval_rvalue ctx1 idx of
                       Inl e \<Rightarrow> Inl e
                     | Inr (i, ctx2) \<Rightarrow>
                         eval_lvalue_index ctx2 (expr_location idx) (expr_type lhs) l i))
           | TIR_EXPR_UNARY op rhs \<Rightarrow>
               (if op = UOP_DEREFERENCE then
                  Inl (Fatal loc
                    ''dereference operator not supported in compile-time expressions'' [])
                else Inl Unreachable)
           | _ \<Rightarrow> Inl Unreachable))"


section \<open>A concrete context\<close>

text \<open>
  A context as \<^verbatim>\<open>context_init\<close> leaves it, for the examples below: the builtin types at
  the addresses 1 to 13, an empty global symbol table, and an allocator that returns the
  address after the largest live one.
\<close>

definition example_location :: source_location where
  "example_location = \<lparr>path = ''example.sunder'', line = 1\<rparr>"

definition example_bool :: type where
  "example_bool = Type 1 ''bool'' 1 TYPE_BOOL No_data"

definition example_byte :: type where
  "example_byte = Type 2 ''byte'' 1 TYPE_BYTE No_data"

definition example_integer :: type where
  "example_integer = Type 3 ''integer'' 0 TYPE_INTEGER No_data"

definition example_u8 :: type where
  "example_u8 = Type 4 ''u8'' 1 TYPE_U8 (Integer_data 0 255)"

definition example_s8 :: type where
  "example_s8 = Type 5 ''s8'' 1 TYPE_S8 (Integer_data (- 128) 127)"

definition example_u16 :: type where
  "example_u16 = Type 6 ''u16'' 2 TYPE_U16 (Integer_data 0 65535)"

definition example_s16 :: type where
  "example_s16 = Type 7 ''s16'' 2 TYPE_S16 (Integer_data (- 32768) 32767)"

definition example_u32 :: type where
  "example_u32 = Type 8 ''u32'' 4 TYPE_U32 (Integer_data 0 4294967295)"

definition example_s32 :: type where
  "example_s32 = Type 9 ''s32'' 4 TYPE_S32 (Integer_data (- 2147483648) 2147483647)"

definition example_u64 :: type where
  "example_u64 = Type 10 ''u64'' 8 TYPE_U64 (Integer_data 0 18446744073709551615)"

definition example_s64 :: type where
  "example_s64 =
     Type 11 ''s64'' 8 TYPE_S64 (Integer_data (- 9223372036854775808) 9223372036854775807)"

definition example_usize :: type where
  "example_usize = Type 12 ''usize'' 8 TYPE_USIZE (Integer_data 0 18446744073709551615)"

definition example_ssize :: type where
  "example_ssize =
     Type 13 ''ssize'' 8 TYPE_SSIZE (Integer_data (- 9223372036854775808) 9223372036854775807)"

definition example_void :: type where
  "example_void = Type 30 ''void'' 0 TYPE_VOID No_data"

definition example_xalloc :: "nat set \<Rightarrow> nat" where
  "example_xalloc S = Suc (Max (insert 0 S))"

definition example_context :: "context" where
  "example_context =
     \<lparr>xalloc = example_xalloc,
      live = {1, 2, 3, 4, 5, 6, 7, 8, 9, 10, 11, 12, 13},
      tables = [\<lparr>parent = None, elements = []\<rparr>],
      global_symbol_table = 0,
      chilling_symbol_tables = [],
      modules = [],
      builtin_location = \<lparr>path = ''builtin'', line = 0\<rparr>,
      builtin_void = example_void,
      builtin_bool = example_bool,
      builtin_byte = example_byte,
      builtin_integer = example_integer,
      builtin_u8 = example_u8,
      builtin_s8 = example_s8,
      builtin_u16 = example_u16,
      builtin_s16 = example_s16,
      builtin_u32 = example_u32,
      builtin_s32 = example_s32,
      builtin_u64 = example_u64,
      builtin_s64 = example_s64,
      builtin_usize = example_usize,
      builtin_ssize = example_ssize,
      u8_min = 0,
      u8_max = 255\<rparr>"

text \<open>
  The context after the declaration \<^verbatim>\<open>const a: [3]u8 = (:[3]u8)[1u8, 2u8, 3u8];\<close> and an
  expression that slices \<open>a\<close> or takes its address: the types \<open>[3]u8\<close>, \<open>[]u8\<close> and
  \<open>*[3]u8\<close> are registered, and \<open>a\<close> is a constant at the static address \<open>a\<close>.
\<close>

definition example_array_u8 :: type where
  "example_array_u8 = Type 14 ''[3]u8'' 3 TYPE_ARRAY (Array_data 3 example_u8)"

definition example_slice_u8 :: type where
  "example_slice_u8 = Type 16 ''[]u8'' 16 TYPE_SLICE (Slice_data example_u8)"

definition example_pointer_array_u8 :: type where
  "example_pointer_array_u8 = Type 19 ''*[3]u8'' 8 TYPE_POINTER (Pointer_data example_array_u8)"

definition example_type_symbol :: "nat \<Rightarrow> type \<Rightarrow> symbol" where
  "example_type_symbol p ty =
     \<lparr>sym_addr = p, sym_kind = SYMBOL_TYPE, sym_location = \<lparr>path = ''builtin'', line = 0\<rparr>,
      sym_name = tname ty, sym_type = Some ty, sym_address = None, sym_value = None,
      sym_symbols = None, sym_template = None\<rparr>"

definition example_context_a :: "context" where
  "example_context_a =
     example_context
       \<lparr>live := {1, 2, 3, 4, 5, 6, 7, 8, 9, 10, 11, 12, 13, 14, 15, 16, 17, 18, 19, 20},
        tables := [\<lparr>parent = None,
                    elements = [(''[3]u8'', example_type_symbol 15 example_array_u8),
                                (''[]u8'', example_type_symbol 17 example_slice_u8),
                                (''*[3]u8'', example_type_symbol 20 example_pointer_array_u8)]\<rparr>]\<rparr>"

definition example_constant_a :: symbol where
  "example_constant_a =
     \<lparr>sym_addr = 18, sym_kind = SYMBOL_CONSTANT, sym_location = example_location,
      sym_name = ''a'', sym_type = Some example_array_u8,
      sym_address = Some (ADDRESS_STATIC ''a'' 0),
      sym_value = Some (Value example_array_u8 (Data_array
        [Value example_u8 (Data_integer 1), Value example_u8 (Data_integer 2),
         Value example_u8 (Data_integer 3)])),
      sym_symbols = None, sym_template = None\<rparr>"

definition example_a :: tir_expr where
  "example_a = Tir_expr example_location example_array_u8 (TIR_EXPR_IDENTIFIER example_constant_a)"

definition example_index :: "int \<Rightarrow> tir_expr" where
  "example_index i = Tir_expr example_location example_usize (TIR_EXPR_INTEGER i)"

definition example_slice_of_a :: "int \<Rightarrow> int \<Rightarrow> tir_expr" where
  "example_slice_of_a b e =
     Tir_expr example_location example_slice_u8
       (TIR_EXPR_SLICE example_a (example_index b) (example_index e))"

definition example_addressof_a :: tir_expr where
  "example_addressof_a =
     Tir_expr example_location example_pointer_array_u8 (TIR_EXPR_UNARY UOP_ADDRESSOF example_a)"

definition example_true :: tir_expr where
  "example_true = Tir_expr example_location example_bool (TIR_EXPR_BOOLEAN True)"

definition example_false :: tir_expr where
  "example_false = Tir_expr example_location example_bool (TIR_EXPR_BOOLEAN False)"

text \<open>The boolean expression \<open>1u8 / 0u8 == 0u8\<close>, whose evaluation divides by zero.\<close>

definition example_failing :: tir_expr where
  "example_failing =
     Tir_expr example_location example_bool (TIR_EXPR_BINARY BOP_EQ
       (Tir_expr example_location example_u8 (TIR_EXPR_BINARY BOP_DIV
          (Tir_expr example_location example_u8 (TIR_EXPR_INTEGER 1))
          (Tir_expr example_location example_u8 (TIR_EXPR_INTEGER 0))))
       (Tir_expr example_location example_u8 (TIR_EXPR_INTEGER 0)))"

section \<open>Merging an imported symbol table (resolve.c)\<close>

text \<open>
  \<^verbatim>\<open>merge_symbol_table\<close> adds the symbols of the table \<open>othr\<close> to the table \<open>self\<close>. The
  loop runs over the entries of \<open>othr\<close> by index and reads the entry in the current
  state; a namespace is merged by a recursive call on the two tables of the namespace
  symbols. Nothing in the store bounds the nesting of namespaces, so the function takes
  fuel, one unit for each iteration and each call, and \<open>None\<close> is running out of it.
  The calls of \<^verbatim>\<open>symbol_table_insert\<close> in resolve.c pass a fourth argument \<^verbatim>\<open>false\<close>
  that the function of tir.c does not have. Two symbol pointers are compared by their
  addresses. The resolver argument is not used by the function.
\<close>

fun merge_symbol_table ::
  "nat \<Rightarrow> context \<Rightarrow> nat \<Rightarrow> nat \<Rightarrow> nat \<Rightarrow> (error + context) option" where
  "merge_symbol_table 0 ctx self othr i = None"
| "merge_symbol_table (Suc fuel) ctx self othr i =
     (if \<not> (self < length (tables ctx) \<and> othr < length (tables ctx)) then Some (Inl Bad_pointer)
      else if i < length (elements (tables ctx ! othr)) then
        (let nm = fst (elements (tables ctx ! othr) ! i);
             symb = snd (elements (tables ctx ! othr) ! i)
         in
         if sym_kind symb = SYMBOL_NAMESPACE then
           (case
              (case symbol_table_lookup_local (tables ctx ! self) nm of
                 None \<Rightarrow>
                   (let (table, ctx1) = symbol_table_new ctx (Some self);
                        ctx2 = ctx1\<lparr>chilling_symbol_tables :=
                                     chilling_symbol_tables ctx1 @ [table]\<rparr>;
                        (namespace, ctx3) =
                          symbol_new_namespace ctx2 (sym_location symb) (sym_name symb) table
                    in case symbol_table_insert ctx3 self nm namespace of
                         Inl e \<Rightarrow> Inl e
                       | Inr ctx4 \<Rightarrow> Inr (namespace, ctx4))
               | Some existing \<Rightarrow> Inr (existing, ctx))
            of
              Inl e \<Rightarrow> Some (Inl e)
            | Inr (existing, ctx') \<Rightarrow>
                (case (if sym_kind existing \<noteq> SYMBOL_NAMESPACE
                       then symbol_table_insert ctx' self nm symb else Inr ctx') of
                   Inl e \<Rightarrow> Some (Inl e)
                 | Inr ctx'' \<Rightarrow>
                     (case (sym_symbols existing, sym_symbols symb) of
                        (Some existing_symbols, Some symbol_symbols) \<Rightarrow>
                          (case merge_symbol_table fuel ctx'' existing_symbols symbol_symbols 0 of
                             None \<Rightarrow> None
                           | Some (Inl e) \<Rightarrow> Some (Inl e)
                           | Some (Inr ctx''') \<Rightarrow>
                               merge_symbol_table fuel ctx''' self othr (Suc i))
                      | _ \<Rightarrow> Some (Inl Bad_pointer))))
         else
           (case symbol_table_lookup_local (tables ctx ! self) nm of
              None \<Rightarrow>
                (case symbol_table_insert ctx self nm symb of
                   Inl e \<Rightarrow> Some (Inl e)
                 | Inr ctx' \<Rightarrow> merge_symbol_table fuel ctx' self othr (Suc i))
            | Some existing \<Rightarrow>
                if sym_addr existing \<noteq> sym_addr symb then
                  (case symbol_table_insert ctx self nm symb of
                     Inl e \<Rightarrow> Some (Inl e)
                   | Inr ctx' \<Rightarrow> merge_symbol_table fuel ctx' self othr (Suc i))
                else merge_symbol_table fuel ctx self othr (Suc i)))
      else Some (Inr ctx))"

text \<open>
  Two modules for the examples: table 1 is the symbol table of the importing module,
  table 2 the export table of an imported module that declares the constant \<open>x\<close>, and
  table 3 the export table of another module that declares a different \<open>x\<close>.
\<close>

definition example_constant_x :: "nat \<Rightarrow> nat \<Rightarrow> symbol" where
  "example_constant_x p ln =
     \<lparr>sym_addr = p, sym_kind = SYMBOL_CONSTANT,
      sym_location = \<lparr>path = ''lib.sunder'', line = ln\<rparr>,
      sym_name = ''x'', sym_type = Some example_u8,
      sym_address = Some (ADDRESS_STATIC ''x'' 0),
      sym_value = Some (Value example_u8 (Data_integer 1)), sym_symbols = None,
      sym_template = None\<rparr>"

definition example_context_import :: "context" where
  "example_context_import =
     example_context
       \<lparr>live := {1, 2, 3, 4, 5, 6, 7, 8, 9, 10, 11, 12, 13, 14, 15},
        tables := [\<lparr>parent = None, elements = []\<rparr>,
                   \<lparr>parent = Some 0, elements = []\<rparr>,
                   \<lparr>parent = None, elements = [(''x'', example_constant_x 14 3)]\<rparr>,
                   \<lparr>parent = None, elements = [(''x'', example_constant_x 15 7)]\<rparr>]\<rparr>"

section \<open>Integer expressions (tir.c)\<close>

text \<open>
  \<^verbatim>\<open>tir_expr_new_integer\<close> of tir.c, which resolve.c calls under the name
  \<^verbatim>\<open>expr_new_integer\<close>: the range check of a literal against the bounds of a byte or of
  the integer type. The type must be byte or a sized integer type; tir.c has no case for
  the unsized integer type of an unsuffixed literal.
\<close>

definition tir_expr_new_integer ::
  "context \<Rightarrow> source_location \<Rightarrow> type \<Rightarrow> int \<Rightarrow> error + tir_expr" where
  "tir_expr_new_integer ctx loc ty v =
     (if \<not> (tkind ty = TYPE_BYTE \<or> type_is_integer ty) then Inl Assertion
      else
        let is_byte = (tkind ty = TYPE_BYTE);
            is_integer = type_is_integer ty
        in if is_byte \<and> v < u8_min ctx
           then Inl (Fatal loc ''out-of-range byte literal (%s < %s)'' [Big v, Big (u8_min ctx)])
           else if is_byte \<and> v > u8_max ctx
           then Inl (Fatal loc ''out-of-range byte literal (%s > %s)'' [Big v, Big (u8_max ctx)])
           else if is_integer then
             (case tdata ty of
                Integer_data mn mx \<Rightarrow>
                  if v < mn
                  then Inl (Fatal loc ''out-of-range integer literal (%s < %s)'' [Big v, Big mn])
                  else if v > mx
                  then Inl (Fatal loc ''out-of-range integer literal (%s > %s)'' [Big v, Big mx])
                  else Inr (Tir_expr loc ty (TIR_EXPR_INTEGER v))
              | _ \<Rightarrow> Inl Bad_union)
           else Inr (Tir_expr loc ty (TIR_EXPR_INTEGER v)))"

section \<open>Statements, blocks and function completion (resolve.c)\<close>

text \<open>
  Resolved statements and blocks, with the members that resolve.c passes to their
  constructors. The defer of a statement or block is a pointer to a frozen statement and
  is modelled by that statement.
\<close>

datatype stmt_kind =
    STMT_DEFER | STMT_IF | STMT_FOR_RANGE | STMT_FOR_EXPR | STMT_BREAK | STMT_CONTINUE
  | STMT_DUMP | STMT_RETURN | STMT_ASSIGN | STMT_EXPR

datatype stmt =
  Stmt (stmt_location: source_location) (stmt_data: stmt_data)
and stmt_data =
    Stmt_defer "stmt option" block
  | Stmt_if "conditional list"
  | Stmt_for_range symbol tir_expr tir_expr block
  | Stmt_for_expr tir_expr block
  | Stmt_break "stmt option" "stmt option"
  | Stmt_continue "stmt option" "stmt option"
  | Stmt_dump tir_expr
  | Stmt_return "tir_expr option" "stmt option"
  | Stmt_assign tir_expr tir_expr
  | Stmt_expr tir_expr
and conditional =
  Conditional source_location "tir_expr option" block
and block =
  Block (block_location: source_location) (block_symbol_table: nat) (block_stmts: "stmt list")
    (block_defer_begin: "stmt option") (block_defer_end: "stmt option")

fun stmt_kind_of :: "stmt \<Rightarrow> stmt_kind" where
  "stmt_kind_of (Stmt loc d) =
     (case d of
        Stmt_defer prev body \<Rightarrow> STMT_DEFER
      | Stmt_if conditionals \<Rightarrow> STMT_IF
      | Stmt_for_range v b e body \<Rightarrow> STMT_FOR_RANGE
      | Stmt_for_expr e body \<Rightarrow> STMT_FOR_EXPR
      | Stmt_break d1 d2 \<Rightarrow> STMT_BREAK
      | Stmt_continue d1 d2 \<Rightarrow> STMT_CONTINUE
      | Stmt_dump e \<Rightarrow> STMT_DUMP
      | Stmt_return e d1 \<Rightarrow> STMT_RETURN
      | Stmt_assign l r \<Rightarrow> STMT_ASSIGN
      | Stmt_expr e \<Rightarrow> STMT_EXPR)"

text \<open>
  A \<^verbatim>\<open>struct function\<close> with the members that the resolution of its body reads and
  writes; the body is NULL until the function is completed.
\<close>

record "function" =
  fun_name :: string
  fun_type :: type
  fun_address :: address
  fun_local_stack_offset :: int
  fun_body :: "block option"

text \<open>
  The members of \<^verbatim>\<open>struct resolver\<close> that block resolution and function completion read
  and write.
\<close>

record resolver =
  current_static_addr_prefix :: "string option"
  current_function :: "function option"
  current_symbol_table :: nat
  current_export_table :: nat
  current_rbp_offset :: int
  is_within_const_decl :: bool
  is_within_loop :: bool
  current_loop_defer :: "stmt option"
  current_defer :: "stmt option"

text \<open>
  The resolver with its member \<^verbatim>\<open>module\<close>, the module being resolved, as a position in
  the cache of modules.
\<close>

record module_resolver = resolver +
  module_index :: nat

text \<open>
  The functions that the resolution of statements, types and templates calls and that
  are not modelled here are parameters: the resolution of expressions and of function,
  variable, constant and alias declarations, the functions on struct types of the later
  revision of tir.c, and \<^verbatim>\<open>ceil8zu\<close> and \<^verbatim>\<open>SIZEOF_UNSIZED\<close>, which are not in these
  files.
\<close>

record hooks =
  resolve_expr ::
    "module_resolver \<Rightarrow> context \<Rightarrow> cst_expr \<Rightarrow> error + tir_expr \<times> module_resolver \<times> context"
  shallow_implicit_cast :: "type \<Rightarrow> tir_expr \<Rightarrow> tir_expr"
  resolve_decl_function ::
    "module_resolver \<Rightarrow> context \<Rightarrow> cst_decl \<Rightarrow> error + symbol \<times> module_resolver \<times> context"
  resolve_decl_constant ::
    "module_resolver \<Rightarrow> context \<Rightarrow> cst_decl \<Rightarrow> error + symbol \<times> module_resolver \<times> context"
  type_new_struct :: "context \<Rightarrow> string \<Rightarrow> nat \<Rightarrow> type \<times> context"
  type_struct_add_member_variable :: "context \<Rightarrow> type \<Rightarrow> string \<Rightarrow> type \<Rightarrow> error + context"
  type_symbols :: "type \<Rightarrow> nat"
  resolve_decl_variable ::
    "module_resolver \<Rightarrow> context \<Rightarrow> cst_decl \<Rightarrow>
     error + (tir_expr \<times> tir_expr) \<times> module_resolver \<times> context"
  resolve_decl_alias ::
    "module_resolver \<Rightarrow> context \<Rightarrow> cst_decl \<Rightarrow> error + symbol \<times> module_resolver \<times> context"
  ceil8zu :: "nat \<Rightarrow> nat"
  SIZEOF_UNSIZED :: nat

text \<open>
  The statements of the syntax tree, as parse.c builds them: a declaration, a defer
  with its block, an if with its conditionals (the last may have no condition, the
  \<^verbatim>\<open>else\<close>), the two loops, break, continue, dump, return, assignment and expression.
\<close>

datatype cst_stmt =
  Cst_stmt (cst_stmt_location: source_location) (cst_stmt_data: cst_stmt_data)
and cst_stmt_data =
    CST_STMT_DECL cst_decl
  | CST_STMT_DEFER cst_block
  | CST_STMT_IF "cst_conditional list"
  | CST_STMT_FOR_RANGE cst_identifier "cst_expr option" cst_expr cst_block
  | CST_STMT_FOR_EXPR cst_expr cst_block
  | CST_STMT_BREAK
  | CST_STMT_CONTINUE
  | CST_STMT_DUMP cst_expr
  | CST_STMT_RETURN "cst_expr option"
  | CST_STMT_ASSIGN cst_expr cst_expr
  | CST_STMT_EXPR cst_expr
and cst_conditional =
  Cst_conditional (cst_conditional_location: source_location)
    (cst_conditional_condition: "cst_expr option") (cst_conditional_body: cst_block)
and cst_block =
  Cst_block (cst_block_location: source_location) (cst_block_stmts: "cst_stmt list")

text \<open>
  A statement resolver returns the resolved statement, or NULL, with the resolver and
  the context, or fails.
\<close>

type_synonym 'a resolution = "error + 'a \<times> module_resolver \<times> context"

definition check_type_compatibility :: "source_location \<Rightarrow> type \<Rightarrow> type \<Rightarrow> error + unit" where
  "check_type_compatibility location actual expected =
     (if actual \<noteq> expected
      then Inl (Fatal location ''incompatible type `%s` (expected `%s`)''
                  [Str (tname actual), Str (tname expected)])
      else Inr ())"

text \<open>
  \<^verbatim>\<open>resolver_reserve_storage_local\<close>. The \<^verbatim>\<open>struct function\<close> that is being completed is
  reached through \<^verbatim>\<open>resolver->current_function\<close> and is updated there.
\<close>

definition resolver_reserve_storage_local ::
  "hooks \<Rightarrow> module_resolver \<Rightarrow> type \<Rightarrow> error + address \<times> module_resolver" where
  "resolver_reserve_storage_local H self ty =
     (case current_function self of
        None \<Rightarrow> Inl Assertion
      | Some f \<Rightarrow>
          let offset = current_rbp_offset self - int (ceil8zu H (tsize ty));
              f' = (if offset < fun_local_stack_offset f
                    then f\<lparr>fun_local_stack_offset := offset\<rparr> else f)
          in Inr (ADDRESS_LOCAL offset,
                  self\<lparr>current_rbp_offset := offset, current_function := Some f'\<rparr>))"

text \<open>
  \<^verbatim>\<open>resolve_stmt_decl\<close>: a variable declaration becomes an assignment, a constant or an
  alias declaration is resolved and leaves no statement (NULL), and the other
  declarations are not allowed in a block.
\<close>

definition resolve_stmt_decl ::
  "hooks \<Rightarrow> module_resolver \<Rightarrow> context \<Rightarrow> source_location \<Rightarrow> cst_decl \<Rightarrow>
   (stmt option) resolution" where
  "resolve_stmt_decl H r ctx location decl =
     (case decl_data decl of
        CST_DECL_VARIABLE \<Rightarrow>
          (case resolve_decl_variable H r ctx decl of
             Inl e \<Rightarrow> Inl e
           | Inr ((lhs, rhs), r, ctx) \<Rightarrow> Inr (Some (Stmt location (Stmt_assign lhs rhs)), r, ctx))
      | CST_DECL_CONSTANT \<Rightarrow>
          (case resolve_decl_constant H r ctx decl of
             Inl e \<Rightarrow> Inl e
           | Inr (symb, r, ctx) \<Rightarrow> Inr (None, r, ctx))
      | CST_DECL_FUNCTION template_parameters function_parameters return_typespec body \<Rightarrow>
          Inl (Fatal location ''nested function declaration'' [])
      | CST_DECL_STRUCT template_parameters members \<Rightarrow>
          Inl (Fatal (decl_location decl) ''local declaration of struct `%s`''
                 [Str (decl_name decl)])
      | CST_DECL_EXTEND \<Rightarrow>
          Inl (Fatal (decl_location decl) ''local declaration of type extension `%s`''
                 [Str (decl_name decl)])
      | CST_DECL_ALIAS \<Rightarrow>
          (case resolve_decl_alias H r ctx decl of
             Inl e \<Rightarrow> Inl e
           | Inr (symb, r, ctx) \<Rightarrow> Inr (None, r, ctx))
      | CST_DECL_EXTERN_VARIABLE \<Rightarrow>
          Inl (Fatal (decl_location decl) ''local declaration of extern variable `%s`''
                 [Str (decl_name decl)])
      | CST_DECL_EXTERN_FUNCTION \<Rightarrow>
          Inl (Fatal (decl_location decl) ''local declaration of extern function `%s`''
                 [Str (decl_name decl)]))"

definition resolve_stmt_break ::
  "module_resolver \<Rightarrow> context \<Rightarrow> source_location \<Rightarrow> stmt resolution" where
  "resolve_stmt_break r ctx location =
     (if \<not> is_within_loop r then Inl (Fatal location ''break statement outside of loop'' [])
      else Inr (Stmt location (Stmt_break (current_defer r) (current_loop_defer r)), r, ctx))"

definition resolve_stmt_continue ::
  "module_resolver \<Rightarrow> context \<Rightarrow> source_location \<Rightarrow> stmt resolution" where
  "resolve_stmt_continue r ctx location =
     (if \<not> is_within_loop r then Inl (Fatal location ''continue statement outside of loop'' [])
      else Inr (Stmt location (Stmt_continue (current_defer r) (current_loop_defer r)), r, ctx))"

definition resolve_stmt_dump ::
  "hooks \<Rightarrow> module_resolver \<Rightarrow> context \<Rightarrow> source_location \<Rightarrow> cst_expr \<Rightarrow> stmt resolution" where
  "resolve_stmt_dump H r ctx location e =
     (case resolve_expr H r ctx e of
        Inl err \<Rightarrow> Inl err
      | Inr (expr, r, ctx) \<Rightarrow>
          if tsize (expr_type expr) = SIZEOF_UNSIZED H
          then Inl (Fatal location ''type `%s` has no defined size''
                      [Str (tname (expr_type expr))])
          else Inr (Stmt location (Stmt_dump expr), r, ctx))"

definition resolve_stmt_return ::
  "hooks \<Rightarrow> module_resolver \<Rightarrow> context \<Rightarrow> source_location \<Rightarrow> cst_expr option \<Rightarrow>
   stmt resolution" where
  "resolve_stmt_return H r ctx location e =
     (case current_function r of
        None \<Rightarrow> Inl Assertion
      | Some f \<Rightarrow>
          (case tdata (fun_type f) of
             Function_data parameter_types return_type \<Rightarrow>
               (case e of
                  Some cst \<Rightarrow>
                    (case resolve_expr H r ctx cst of
                       Inl err \<Rightarrow> Inl err
                     | Inr (resolved, r, ctx) \<Rightarrow>
                         let expr = shallow_implicit_cast H return_type resolved in
                         case check_type_compatibility (expr_location expr) (expr_type expr)
                                return_type of
                           Inl err \<Rightarrow> Inl err
                         | Inr u \<Rightarrow>
                             Inr (Stmt location (Stmt_return (Some expr) (current_defer r)),
                                  r, ctx))
                | None \<Rightarrow>
                    if builtin_void ctx \<noteq> return_type
                    then Inl (Fatal location
                           ''illegal return statement in function with non-void return type'' [])
                    else Inr (Stmt location (Stmt_return None (current_defer r)), r, ctx))
           | _ \<Rightarrow> Inl Bad_union))"

definition resolve_stmt_assign ::
  "hooks \<Rightarrow> module_resolver \<Rightarrow> context \<Rightarrow> source_location \<Rightarrow> cst_expr \<Rightarrow> cst_expr \<Rightarrow>
   stmt resolution" where
  "resolve_stmt_assign H r ctx location cst_lhs cst_rhs =
     (case resolve_expr H r ctx cst_lhs of
        Inl err \<Rightarrow> Inl err
      | Inr (lhs, r, ctx) \<Rightarrow>
          (case resolve_expr H r ctx cst_rhs of
             Inl err \<Rightarrow> Inl err
           | Inr (resolved, r, ctx) \<Rightarrow>
               (case tir_expr_is_lvalue lhs of
                  Inl err \<Rightarrow> Inl err
                | Inr is_lvalue \<Rightarrow>
                    if \<not> is_lvalue then
                      Inl (Fatal (expr_location lhs)
                             ''left hand side of assignment statement is not an lvalue'' [])
                    else
                      let rhs = shallow_implicit_cast H (expr_type lhs) resolved in
                      case check_type_compatibility location (expr_type rhs) (expr_type lhs) of
                        Inl err \<Rightarrow> Inl err
                      | Inr u \<Rightarrow> Inr (Stmt location (Stmt_assign lhs rhs), r, ctx))))"

definition resolve_stmt_expr ::
  "hooks \<Rightarrow> module_resolver \<Rightarrow> context \<Rightarrow> source_location \<Rightarrow> cst_expr \<Rightarrow> stmt resolution" where
  "resolve_stmt_expr H r ctx location e =
     (case resolve_expr H r ctx e of
        Inl err \<Rightarrow> Inl err
      | Inr (expr, r, ctx) \<Rightarrow>
          if tsize (expr_type expr) = SIZEOF_UNSIZED H
          then Inl (Fatal (expr_location expr)
                      ''statement-expression produces result of unsized type `%s`''
                      [Str (tname (expr_type expr))])
          else Inr (Stmt location (Stmt_expr expr), r, ctx))"

text \<open>The condition of an if or of a loop: an expression of type bool.\<close>

definition resolve_condition ::
  "hooks \<Rightarrow> module_resolver \<Rightarrow> context \<Rightarrow> cst_expr \<Rightarrow> tir_expr resolution" where
  "resolve_condition H r ctx e =
     (case resolve_expr H r ctx e of
        Inl err \<Rightarrow> Inl err
      | Inr (condition, r, ctx) \<Rightarrow>
          if tkind (expr_type condition) \<noteq> TYPE_BOOL
          then Inl (Fatal (expr_location condition)
                      ''illegal condition with non-boolean type `%s`''
                      [Str (tname (expr_type condition))])
          else Inr (condition, r, ctx))"

text \<open>
  A bound of a range loop: an expression that is of type usize after the implicit
  cast; \<open>what\<close> is \<open>begin\<close> or \<open>end\<close> in the diagnostic.
\<close>

definition resolve_range_bound ::
  "hooks \<Rightarrow> module_resolver \<Rightarrow> context \<Rightarrow> string \<Rightarrow> cst_expr \<Rightarrow> tir_expr resolution" where
  "resolve_range_bound H r ctx what e =
     (case resolve_expr H r ctx e of
        Inl err \<Rightarrow> Inl err
      | Inr (resolved, r, ctx) \<Rightarrow>
          let bound = shallow_implicit_cast H (builtin_usize ctx) resolved in
          if expr_type bound \<noteq> builtin_usize ctx
          then Inl (Fatal (expr_location bound)
                      (''illegal range-'' @ what @ ''-expression with non-usize type `%s`'')
                      [Str (tname (expr_type bound))])
          else Inr (bound, r, ctx))"

text \<open>
  The part of \<^verbatim>\<open>resolve_stmt_for_range\<close> before the body is resolved: the two bounds,
  the storage and the symbol of the loop variable, and the symbol table of the body.
  The result is the loop variable, the bounds, the table, the resolver as it was when
  its members were saved, and the resolver inside the loop.
\<close>

definition for_range_enter ::
  "hooks \<Rightarrow> module_resolver \<Rightarrow> context \<Rightarrow> source_location \<Rightarrow> cst_identifier \<Rightarrow>
   cst_expr option \<Rightarrow> cst_expr \<Rightarrow>
   (symbol \<times> tir_expr \<times> tir_expr \<times> nat \<times> module_resolver) resolution" where
  "for_range_enter H r ctx location identifier cst_begin cst_end =
     (case (case cst_begin of
              Some e \<Rightarrow> resolve_range_bound H r ctx ''begin'' e
            | None \<Rightarrow>
                (case tir_expr_new_integer ctx location (builtin_usize ctx) 0 of
                   Inl err \<Rightarrow> Inl err
                 | Inr zero \<Rightarrow> Inr (zero, r, ctx))) of
        Inl err \<Rightarrow> Inl err
      | Inr (begin, r, ctx) \<Rightarrow>
          (case resolve_range_bound H r ctx ''end'' cst_end of
             Inl err \<Rightarrow> Inl err
           | Inr (end, saved, ctx) \<Rightarrow>
               (case resolver_reserve_storage_local H saved (builtin_usize ctx) of
                  Inl err \<Rightarrow> Inl err
                | Inr (loop_var_address, r) \<Rightarrow>
                    let (loop_var_symbol, ctx) =
                          symbol_new ctx SYMBOL_VARIABLE (id_location identifier)
                            (id_name identifier) (Some (builtin_usize ctx))
                            (Some loop_var_address) None;
                        (symbol_table, ctx) =
                          symbol_table_new ctx (Some (current_symbol_table r))
                    in case symbol_table_insert ctx symbol_table (sym_name loop_var_symbol)
                              loop_var_symbol of
                         Inl err \<Rightarrow> Inl err
                       | Inr ctx \<Rightarrow>
                           Inr ((loop_var_symbol, begin, end, symbol_table, saved),
                                r\<lparr>is_within_loop := True,
                                  current_loop_defer := current_defer r\<rparr>, ctx))))"

text \<open>
  \<^verbatim>\<open>resolve_stmt\<close> with the statements that have blocks (\<^verbatim>\<open>resolve_stmt_defer\<close>,
  \<^verbatim>\<open>resolve_stmt_if\<close>, \<^verbatim>\<open>resolve_stmt_for_range\<close>, \<^verbatim>\<open>resolve_stmt_for_expr\<close>),
  \<^verbatim>\<open>resolve_block\<close>, and the loops of \<^verbatim>\<open>resolve_block\<close> over the statements and of
  \<^verbatim>\<open>resolve_stmt_if\<close> over the conditionals. In the loop of \<^verbatim>\<open>resolve_block\<close> a
  statement that resolves to NULL is not added to the resolved statements.
\<close>

fun resolve_stmt ::
  "hooks \<Rightarrow> module_resolver \<Rightarrow> context \<Rightarrow> cst_stmt \<Rightarrow> (stmt option) resolution"
and resolve_stmts ::
  "hooks \<Rightarrow> module_resolver \<Rightarrow> context \<Rightarrow> cst_stmt list \<Rightarrow> (stmt list) resolution"
and resolve_block ::
  "hooks \<Rightarrow> module_resolver \<Rightarrow> context \<Rightarrow> nat \<Rightarrow> cst_block \<Rightarrow> block resolution"
and resolve_conditionals ::
  "hooks \<Rightarrow> module_resolver \<Rightarrow> context \<Rightarrow> cst_conditional list \<Rightarrow>
   (conditional list) resolution"
where
  "resolve_stmt H r ctx (Cst_stmt location (CST_STMT_DECL decl)) =
     (if current_function r = None then Inl Assertion
      else resolve_stmt_decl H r ctx location decl)"
| "resolve_stmt H r ctx (Cst_stmt location (CST_STMT_DEFER blk)) =
     (if current_function r = None then Inl Assertion
      else
        let (symbol_table, ctx) = symbol_table_new ctx (Some (current_symbol_table r))
        in case resolve_block H r ctx symbol_table blk of
             Inl err \<Rightarrow> Inl err
           | Inr (body, r, ctx) \<Rightarrow>
               Inr (Some (Stmt location (Stmt_defer (current_defer r) body)),
                    r\<lparr>current_defer :=
                         Some (Stmt location (Stmt_defer (current_defer r) body))\<rparr>, ctx))"
| "resolve_stmt H r ctx (Cst_stmt location (CST_STMT_IF conditionals)) =
     (if current_function r = None then Inl Assertion
      else case resolve_conditionals H r ctx conditionals of
             Inl err \<Rightarrow> Inl err
           | Inr (resolved_conditionals, r, ctx) \<Rightarrow>
               (case resolved_conditionals of
                  [] \<Rightarrow> Inl Assertion
                | Conditional first_location condition body # rest \<Rightarrow>
                    Inr (Some (Stmt first_location (Stmt_if resolved_conditionals)), r, ctx)))"
| "resolve_stmt H r ctx
     (Cst_stmt location (CST_STMT_FOR_RANGE identifier cst_begin cst_end blk)) =
     (if current_function r = None then Inl Assertion
      else case for_range_enter H r ctx location identifier cst_begin cst_end of
             Inl err \<Rightarrow> Inl err
           | Inr ((loop_var_symbol, begin, end, symbol_table, saved), r', ctx) \<Rightarrow>
               (case resolve_block H r' ctx symbol_table blk of
                  Inl err \<Rightarrow> Inl err
                | Inr (body, r'', ctx) \<Rightarrow>
                    Inr (Some (Stmt location (Stmt_for_range loop_var_symbol begin end body)),
                         r''\<lparr>current_rbp_offset := current_rbp_offset saved,
                             is_within_loop := is_within_loop saved,
                             current_loop_defer := current_loop_defer saved\<rparr>, ctx)))"
| "resolve_stmt H r ctx (Cst_stmt location (CST_STMT_FOR_EXPR e blk)) =
     (if current_function r = None then Inl Assertion
      else case resolve_condition H r ctx e of
             Inl err \<Rightarrow> Inl err
           | Inr (expr, r', ctx) \<Rightarrow>
               let (symbol_table, ctx) = symbol_table_new ctx (Some (current_symbol_table r'))
               in case resolve_block H
                         (r'\<lparr>is_within_loop := True, current_loop_defer := current_defer r'\<rparr>)
                         ctx symbol_table blk of
                    Inl err \<Rightarrow> Inl err
                  | Inr (body, r'', ctx) \<Rightarrow>
                      Inr (Some (Stmt location (Stmt_for_expr expr body)),
                           r''\<lparr>is_within_loop := is_within_loop r',
                               current_loop_defer := current_loop_defer r'\<rparr>, ctx))"
| "resolve_stmt H r ctx (Cst_stmt location CST_STMT_BREAK) =
     (if current_function r = None then Inl Assertion
      else map_sum id (\<lambda>(s, r, ctx). (Some s, r, ctx)) (resolve_stmt_break r ctx location))"
| "resolve_stmt H r ctx (Cst_stmt location CST_STMT_CONTINUE) =
     (if current_function r = None then Inl Assertion
      else map_sum id (\<lambda>(s, r, ctx). (Some s, r, ctx)) (resolve_stmt_continue r ctx location))"
| "resolve_stmt H r ctx (Cst_stmt location (CST_STMT_DUMP e)) =
     (if current_function r = None then Inl Assertion
      else map_sum id (\<lambda>(s, r, ctx). (Some s, r, ctx)) (resolve_stmt_dump H r ctx location e))"
| "resolve_stmt H r ctx (Cst_stmt location (CST_STMT_RETURN e)) =
     (if current_function r = None then Inl Assertion
      else map_sum id (\<lambda>(s, r, ctx). (Some s, r, ctx)) (resolve_stmt_return H r ctx location e))"
| "resolve_stmt H r ctx (Cst_stmt location (CST_STMT_ASSIGN lhs rhs)) =
     (if current_function r = None then Inl Assertion
      else map_sum id (\<lambda>(s, r, ctx). (Some s, r, ctx))
             (resolve_stmt_assign H r ctx location lhs rhs))"
| "resolve_stmt H r ctx (Cst_stmt location (CST_STMT_EXPR e)) =
     (if current_function r = None then Inl Assertion
      else map_sum id (\<lambda>(s, r, ctx). (Some s, r, ctx)) (resolve_stmt_expr H r ctx location e))"
| "resolve_stmts H r ctx [] = Inr ([], r, ctx)"
| "resolve_stmts H r ctx (s # ss) =
     (case resolve_stmt H r ctx s of
        Inl err \<Rightarrow> Inl err
      | Inr (resolved_stmt, r, ctx) \<Rightarrow>
          (case resolve_stmts H r ctx ss of
             Inl err \<Rightarrow> Inl err
           | Inr (rest, r, ctx) \<Rightarrow>
               Inr ((case resolved_stmt of None \<Rightarrow> rest | Some resolved \<Rightarrow> resolved # rest),
                    r, ctx)))"
| "resolve_block H r ctx symbol_table (Cst_block location stmts) =
     (if current_function r = None then Inl Assertion
      else case resolve_stmts H (r\<lparr>current_symbol_table := symbol_table\<rparr>) ctx stmts of
             Inl err \<Rightarrow> Inl err
           | Inr (resolved, r', ctx) \<Rightarrow>
               Inr (Block location symbol_table resolved (current_defer r') (current_defer r),
                    r'\<lparr>current_symbol_table := current_symbol_table r,
                       current_rbp_offset := current_rbp_offset r,
                       current_defer := current_defer r\<rparr>, ctx))"
| "resolve_conditionals H r ctx [] = Inr ([], r, ctx)"
| "resolve_conditionals H r ctx (Cst_conditional location condition blk # rest) =
     (if condition = None \<and> rest \<noteq> [] then Inl Assertion
      else case (case condition of
                   None \<Rightarrow> Inr (None, r, ctx)
                 | Some e \<Rightarrow> map_sum id (\<lambda>(c, r, ctx). (Some c, r, ctx))
                               (resolve_condition H r ctx e)) of
             Inl err \<Rightarrow> Inl err
           | Inr (resolved_condition, r, ctx) \<Rightarrow>
               let (symbol_table, ctx) = symbol_table_new ctx (Some (current_symbol_table r))
               in case resolve_block H r ctx symbol_table blk of
                    Inl err \<Rightarrow> Inl err
                  | Inr (body, r, ctx) \<Rightarrow>
                      (case resolve_conditionals H r ctx rest of
                         Inl err \<Rightarrow> Inl err
                       | Inr (resolved_rest, r, ctx) \<Rightarrow>
                           Inr (Conditional location resolved_condition body # resolved_rest,
                                r, ctx)))"

text \<open>
  An entry of the queue of incomplete functions: the location and the body of the
  declaration, the function, and its outermost symbol table.
\<close>

record incomplete_function =
  inc_decl_location :: source_location
  inc_decl_body :: cst_block
  inc_function :: "function"
  inc_symbol_table :: nat

text \<open>
  \<^verbatim>\<open>complete_function\<close>. The function is handed to the resolver as its current function
  while the body is resolved and taken back from there. The result is the completed
  function with the resolver and the context, or the diagnostic.
\<close>

definition complete_function ::
  "hooks \<Rightarrow> module_resolver \<Rightarrow> context \<Rightarrow> incomplete_function \<Rightarrow> function resolution" where
  "complete_function H resolver ctx incomplete =
     (if current_function resolver \<noteq> None \<or> current_rbp_offset resolver \<noteq> 0
         \<or> is_within_loop resolver
      then Inl Assertion
      else case fun_address (inc_function incomplete) of
        ADDRESS_LOCAL off \<Rightarrow> Inl Bad_union
      | ADDRESS_STATIC static_name offset \<Rightarrow>
          (case resolve_block H
                  (resolver\<lparr>current_static_addr_prefix := Some static_name,
                            current_function := Some (inc_function incomplete)\<rparr>)
                  ctx (inc_symbol_table incomplete) (inc_decl_body incomplete) of
             Inl e \<Rightarrow> Inl e
           | Inr (body, resolver', ctx') \<Rightarrow>
               (case current_function resolver' of
                  None \<Rightarrow> Inl Bad_pointer
                | Some completed \<Rightarrow>
                    (let function = completed\<lparr>fun_body := Some body\<rparr>;
                         resolver'' = resolver'
                           \<lparr>current_static_addr_prefix := current_static_addr_prefix resolver,
                            current_function := None\<rparr>
                     in if current_rbp_offset resolver'' \<noteq> 0 then Inl Assertion
                        else if tkind (fun_type function) \<noteq> TYPE_FUNCTION then Inl Assertion
                        else case tdata (fun_type function) of
                          Function_data parameter_types return_type \<Rightarrow>
                            (let func_has_void_return = (tkind return_type = TYPE_VOID);
                                 stmts = block_stmts body;
                                 non_void_returning_func_does_not_end_with_return =
                                   (\<not> func_has_void_return
                                    \<and> (length stmts = 0
                                         \<or> stmt_kind_of (stmts ! (length stmts - 1)) \<noteq>
                                             STMT_RETURN))
                             in if non_void_returning_func_does_not_end_with_return
                                then Inl (Fatal (inc_decl_location incomplete)
                                  ''Non-void-returning function does not end with a return statement''
                                  [])
                                else Inr (function, resolver'', ctx'))
                        | _ \<Rightarrow> Inl Bad_union))))"

section \<open>Integer literals (resolve.c)\<close>

text \<open>
  Modelled from the spec: the interned suffix strings \<^verbatim>\<open>context()->interned.*\<close> are set
  where the context is initialised, which is not in these files. The specification
  names the suffixes: empty for the untyped integer, \<open>y\<close> for byte, \<open>u\<close> and \<open>s\<close> for
  usize and ssize, and the name of the type for the others.
\<close>

definition integer_literal_suffix_to_type ::
  "context \<Rightarrow> source_location \<Rightarrow> string \<Rightarrow> error + type" where
  "integer_literal_suffix_to_type ctx loc suffix =
     (if suffix = '''' then Inr (builtin_integer ctx)
      else if suffix = ''y'' then Inr (builtin_byte ctx)
      else if suffix = ''u8'' then Inr (builtin_u8 ctx)
      else if suffix = ''s8'' then Inr (builtin_s8 ctx)
      else if suffix = ''u16'' then Inr (builtin_u16 ctx)
      else if suffix = ''s16'' then Inr (builtin_s16 ctx)
      else if suffix = ''u32'' then Inr (builtin_u32 ctx)
      else if suffix = ''s32'' then Inr (builtin_s32 ctx)
      else if suffix = ''u64'' then Inr (builtin_u64 ctx)
      else if suffix = ''s64'' then Inr (builtin_s64 ctx)
      else if suffix = ''u'' then Inr (builtin_usize ctx)
      else if suffix = ''s'' then Inr (builtin_ssize ctx)
      else Inl (Fatal loc ''unknown integer literal suffix `%s`'' [Str suffix]))"

definition resolve_expr_integer :: "context \<Rightarrow> cst_expr \<Rightarrow> error + tir_expr" where
  "resolve_expr_integer ctx expr =
     (case cst_expr_data expr of
        CST_EXPR_INTEGER cst_integer \<Rightarrow>
          (case integer_literal_suffix_to_type ctx (cst_integer_location cst_integer)
                  (cst_integer_suffix cst_integer) of
             Inl e \<Rightarrow> Inl e
           | Inr ty \<Rightarrow>
               tir_expr_new_integer ctx (cst_expr_location expr) ty (cst_integer_value cst_integer))
      | _ \<Rightarrow> Inl Assertion)"

text \<open>
  \<^verbatim>\<open>resolve_expr_unary\<close>: a sign that is immediately followed by an integer literal is
  folded into the literal. \<open>rest\<close> stands for the remainder of the function, which
  resolves the operand with \<^verbatim>\<open>resolve_expr\<close> and dispatches on the operator.
\<close>

definition resolve_expr_unary ::
  "(context \<Rightarrow> cst_expr \<Rightarrow> error + tir_expr) \<Rightarrow> context \<Rightarrow> cst_expr \<Rightarrow> error + tir_expr" where
  "resolve_expr_unary rest ctx expr =
     (case cst_expr_data expr of
        CST_EXPR_UNARY op cst_rhs \<Rightarrow>
          (let is_sign = (tok_kind op = TOKEN_PLUS \<or> tok_kind op = TOKEN_DASH) in
           case cst_expr_data cst_rhs of
             CST_EXPR_INTEGER cst_integer \<Rightarrow>
               if is_sign then
                 (let v = (if tok_kind op = TOKEN_DASH then - cst_integer_value cst_integer
                           else cst_integer_value cst_integer)
                  in case integer_literal_suffix_to_type ctx (cst_integer_location cst_integer)
                            (cst_integer_suffix cst_integer) of
                       Inl e \<Rightarrow> Inl e
                     | Inr ty \<Rightarrow> tir_expr_new_integer ctx (tok_location op) ty v)
               else rest ctx expr
           | _ \<Rightarrow> rest ctx expr)
      | _ \<Rightarrow> Inl Assertion)"

text \<open>The literal \<open>v\<close> with a suffix, and the same literal under a sign.\<close>

definition example_literal :: "int \<Rightarrow> string \<Rightarrow> cst_expr" where
  "example_literal v suffix =
     Cst_expr example_location
       (CST_EXPR_INTEGER \<lparr>cst_integer_location = example_location, cst_integer_value = v,
                           cst_integer_suffix = suffix\<rparr>)"

definition example_signed_literal :: "token_kind \<Rightarrow> int \<Rightarrow> string \<Rightarrow> cst_expr" where
  "example_signed_literal k v suffix =
     Cst_expr example_location
       (CST_EXPR_UNARY \<lparr>tok_kind = k, tok_location = example_location\<rparr> (example_literal v suffix))"

section \<open>Imports (resolve.c)\<close>

text \<open>
  The file system and the environment, which resolve.c reaches through functions that
  are not in these files. They are parameters: the directory of a path, whether a file
  exists, the canonical form of a path, the value of \<^verbatim>\<open>SUNDER_IMPORT_PATH\<close>, whether a
  path is a directory, and the files of a directory.
\<close>

record filesystem =
  directory_path :: "string \<Rightarrow> string"
  file_exists :: "string \<Rightarrow> bool"
  canonical_path :: "string \<Rightarrow> string"
  import_path_env :: "string option"
  file_is_directory :: "string \<Rightarrow> bool"
  directory_files :: "string \<Rightarrow> string list"

text \<open>\<^verbatim>\<open>string_split_on\<close> with the separator \<open>:\<close>.\<close>

fun string_split_on :: "char \<Rightarrow> string \<Rightarrow> string \<Rightarrow> string list" where
  "string_split_on sep acc [] = [rev acc]"
| "string_split_on sep acc (c # cs) =
     (if c = sep then rev acc # string_split_on sep [] cs
      else string_split_on sep (c # acc) cs)"

definition cstr_ends_with :: "string \<Rightarrow> string \<Rightarrow> bool" where
  "cstr_ends_with cstr target =
     (length target \<le> length cstr \<and> drop (length cstr - length target) cstr = target)"

fun first_existing :: "filesystem \<Rightarrow> string \<Rightarrow> string list \<Rightarrow> string option" where
  "first_existing fs import_path [] = None"
| "first_existing fs import_path (s # ss) =
     (if file_exists fs (s @ ''/'' @ import_path)
      then Some (canonical_path fs (s @ ''/'' @ import_path))
      else first_existing fs import_path ss)"

definition canonical_import_path :: "filesystem \<Rightarrow> string \<Rightarrow> string \<Rightarrow> string option" where
  "canonical_import_path fs module_path import_path =
     (let module_dir = directory_path fs module_path;
          tmp = module_dir @ ''/'' @ import_path
      in if file_exists fs tmp then Some (canonical_path fs tmp)
         else case import_path_env fs of
                None \<Rightarrow> None
              | Some SUNDER_IMPORT_PATH \<Rightarrow>
                  first_existing fs import_path (string_split_on CHR '':'' [] SUNDER_IMPORT_PATH))"

text \<open>
  Modelled from the spec: \<^verbatim>\<open>lookup_module\<close> is not in these files. The specification
  says the canonical path is looked up in the cache of loaded modules; the result is the
  position of the first module with that path, the model of the pointer to it.
\<close>

fun lookup_module_from :: "module list \<Rightarrow> nat \<Rightarrow> string \<Rightarrow> nat option" where
  "lookup_module_from [] i p = None"
| "lookup_module_from (m # ms) i p =
     (if mod_path m = p then Some i else lookup_module_from ms (Suc i) p)"

definition lookup_module :: "context \<Rightarrow> string \<Rightarrow> nat option" where
  "lookup_module ctx p = lookup_module_from (modules ctx) 0 p"

text \<open>
  \<^verbatim>\<open>resolve_import_file\<close>. \<open>load\<close> stands for \<^verbatim>\<open>load_module\<close>, which is not in these
  files: from a context, a name and a canonical path it returns the loaded module and
  the new context, or fails, or does not return. \<open>m\<close> is the module being resolved.
  The recursion over the files of a directory and the merge take fuel.
\<close>

type_synonym loader = "context \<Rightarrow> string \<Rightarrow> string \<Rightarrow> (error + nat \<times> context) option"

fun resolve_import_file ::
  "nat \<Rightarrow> filesystem \<Rightarrow> loader \<Rightarrow> context \<Rightarrow> nat \<Rightarrow> source_location \<Rightarrow> string \<Rightarrow> bool \<Rightarrow>
   (error + context) option"
and resolve_import_files ::
  "nat \<Rightarrow> filesystem \<Rightarrow> loader \<Rightarrow> context \<Rightarrow> nat \<Rightarrow> source_location \<Rightarrow> string \<Rightarrow> string list \<Rightarrow>
   (error + context) option"
where
  "resolve_import_file 0 fs load ctx m location file_name from_directory = None"
| "resolve_import_file (Suc fuel) fs load ctx m location file_name from_directory =
     (if \<not> m < length (modules ctx) then Some (Inl Bad_pointer)
      else case canonical_import_path fs (mod_path (modules ctx ! m)) file_name of
        None \<Rightarrow> Some (Inl (Fatal location ''failed to resolve import `%s`'' [Str file_name]))
      | Some p \<Rightarrow>
          if file_is_directory fs p then
            resolve_import_files fuel fs load ctx m location file_name (directory_files fs p)
          else if \<not> cstr_ends_with file_name ''.sunder'' \<and> from_directory then Some (Inr ctx)
          else
            (case (case lookup_module ctx p of
                     None \<Rightarrow> load ctx file_name p
                   | Some found \<Rightarrow> Some (Inr (found, ctx))) of
               None \<Rightarrow> None
             | Some (Inl e) \<Rightarrow> Some (Inl e)
             | Some (Inr (module, ctx')) \<Rightarrow>
                 if \<not> (module < length (modules ctx') \<and> m < length (modules ctx'))
                 then Some (Inl Bad_pointer)
                 else if \<not> mod_loaded (modules ctx' ! module)
                 then Some (Inl (Fatal location ''circular dependency when importing `%s`''
                                   [Str file_name]))
                 else merge_symbol_table fuel ctx' (mod_symbols (modules ctx' ! m))
                        (mod_exports (modules ctx' ! module)) 0))"
| "resolve_import_files fuel fs load ctx m location file_name [] = Some (Inr ctx)"
| "resolve_import_files 0 fs load ctx m location file_name (f # fs') = None"
| "resolve_import_files (Suc fuel) fs load ctx m location file_name (f # fs') =
     (case resolve_import_file fuel fs load ctx m location (file_name @ ''/'' @ f) True of
        None \<Rightarrow> None
      | Some (Inl e) \<Rightarrow> Some (Inl e)
      | Some (Inr ctx') \<Rightarrow> resolve_import_files fuel fs load ctx' m location file_name fs')"

text \<open>The loop of \<^verbatim>\<open>resolve\<close> over the imports of the module, through \<^verbatim>\<open>resolve_import\<close>.\<close>

fun resolve_imports ::
  "nat \<Rightarrow> filesystem \<Rightarrow> loader \<Rightarrow> context \<Rightarrow> nat \<Rightarrow> (source_location \<times> string) list \<Rightarrow>
   (error + context) option" where
  "resolve_imports fuel fs load ctx m [] = Some (Inr ctx)"
| "resolve_imports fuel fs load ctx m (import # imports) =
     (case resolve_import_file fuel fs load ctx m (fst import) (snd import) False of
        None \<Rightarrow> None
      | Some (Inl e) \<Rightarrow> Some (Inl e)
      | Some (Inr ctx') \<Rightarrow> resolve_imports fuel fs load ctx' m imports)"

text \<open>
  The rest of the front-end, as parameters: the parser, which gives the imports of the
  file at a path, and the steps of \<^verbatim>\<open>resolve\<close> before and after the imports (the
  namespace of the module, and its declarations and function bodies).
\<close>

record frontend =
  parse_imports :: "string \<Rightarrow> (source_location \<times> string) list"
  resolve_namespace :: "context \<Rightarrow> nat \<Rightarrow> error + context"
  resolve_declarations :: "context \<Rightarrow> nat \<Rightarrow> error + context"

definition resolve ::
  "nat \<Rightarrow> filesystem \<Rightarrow> frontend \<Rightarrow> loader \<Rightarrow> context \<Rightarrow> nat \<Rightarrow> (error + context) option" where
  "resolve fuel fs fe load ctx m =
     (if \<not> m < length (modules ctx) then Some (Inl Bad_pointer)
      else case resolve_namespace fe ctx m of
        Inl e \<Rightarrow> Some (Inl e)
      | Inr ctx1 \<Rightarrow>
          (case resolve_imports fuel fs load ctx1 m (mod_imports (modules ctx ! m)) of
             None \<Rightarrow> None
           | Some (Inl e) \<Rightarrow> Some (Inl e)
           | Some (Inr ctx2) \<Rightarrow> Some (resolve_declarations fe ctx2 m)))"

text \<open>
  Modelled from the spec: \<^verbatim>\<open>load_module\<close> is not in these files. The specification: a
  module that is absent from the cache is loaded, that is parsed and resolved, and a
  module can be present in the cache and not yet fully loaded. So the module enters the
  cache not loaded, with a new symbol table under the global one and a new export
  table, is parsed and resolved, and is marked loaded when that returns.
\<close>

primrec load_module :: "nat \<Rightarrow> filesystem \<Rightarrow> frontend \<Rightarrow> loader" where
  "load_module 0 fs fe = (\<lambda>ctx nm p. None)"
| "load_module (Suc fuel) fs fe = (\<lambda>ctx nm p.
     let (symbols, ctx1) = symbol_table_new ctx (Some (global_symbol_table ctx));
         (exports, ctx2) = symbol_table_new ctx1 None;
         module = length (modules ctx2);
         ctx3 = ctx2\<lparr>modules := modules ctx2 @
                  [\<lparr>mod_name = nm, mod_path = p, mod_loaded = False, mod_symbols = symbols,
                    mod_exports = exports, mod_imports = parse_imports fe p\<rparr>]\<rparr>
     in case resolve fuel fs fe (load_module fuel fs fe) ctx3 module of
          None \<Rightarrow> None
        | Some (Inl e) \<Rightarrow> Some (Inl e)
        | Some (Inr ctx4) \<Rightarrow>
            if module < length (modules ctx4)
            then Some (Inr (module,
                   ctx4\<lparr>modules := (modules ctx4)
                          [module := (modules ctx4 ! module)\<lparr>mod_loaded := True\<rparr>]\<rparr>))
            else Some (Inl Bad_pointer))"

text \<open>
  Two sets of files for the examples. In the first, \<open>a\<close> and \<open>b\<close> import each other.
  In the second, \<open>a\<close> imports \<open>b\<close> and \<open>c\<close>, and each of these imports \<open>d\<close>. Every
  module declares one constant that bears the number of the module as its address.
\<close>

definition example_filesystem :: filesystem where
  "example_filesystem =
     \<lparr>directory_path = (\<lambda>p. ''.''),
      file_exists = (\<lambda>p. p \<in> {''./a'', ''./b'', ''./c'', ''./d''}),
      canonical_path = (\<lambda>p. p),
      import_path_env = None,
      file_is_directory = (\<lambda>p. False),
      directory_files = (\<lambda>p. [])\<rparr>"

definition example_declare :: "context \<Rightarrow> nat \<Rightarrow> error + context" where
  "example_declare ctx m =
     symbol_table_insert ctx (mod_exports (modules ctx ! m)) (mod_name (modules ctx ! m))
       \<lparr>sym_addr = 100 + m, sym_kind = SYMBOL_CONSTANT, sym_location = example_location,
        sym_name = mod_name (modules ctx ! m), sym_type = Some example_u8,
        sym_address = Some (ADDRESS_STATIC (mod_name (modules ctx ! m)) 0),
        sym_value = Some (Value example_u8 (Data_integer 1)), sym_symbols = None,
      sym_template = None\<rparr>"

definition example_cycle :: frontend where
  "example_cycle =
     \<lparr>parse_imports = (\<lambda>p. if p = ''./a'' then [(\<lparr>path = ''a'', line = 1\<rparr>, ''b'')]
                           else if p = ''./b'' then [(\<lparr>path = ''b'', line = 1\<rparr>, ''a'')]
                           else []),
      resolve_namespace = (\<lambda>ctx m. Inr ctx),
      resolve_declarations = example_declare\<rparr>"

definition example_dag :: frontend where
  "example_dag =
     \<lparr>parse_imports = (\<lambda>p. if p = ''./a'' then [(\<lparr>path = ''a'', line = 1\<rparr>, ''b''),
                                                   (\<lparr>path = ''a'', line = 2\<rparr>, ''c'')]
                           else if p = ''./b'' then [(\<lparr>path = ''b'', line = 1\<rparr>, ''d'')]
                           else if p = ''./c'' then [(\<lparr>path = ''c'', line = 1\<rparr>, ''d'')]
                           else []),
      resolve_namespace = (\<lambda>ctx m. Inr ctx),
      resolve_declarations = example_declare\<rparr>"

definition example_fuel :: nat where
  "example_fuel = Suc (Suc (Suc (Suc (Suc (Suc 0)))))"

text \<open>
  Two states of the cache for the examples. In the first, \<open>a\<close> and \<open>b\<close> are both being
  loaded: \<open>a\<close> imported \<open>b\<close>, and \<open>b\<close> is about to import \<open>a\<close>. In the second, only
  \<open>a\<close> is being loaded, and is about to import \<open>b\<close>.
\<close>

definition example_context_cycle :: "context" where
  "example_context_cycle =
     example_context
       \<lparr>tables := [\<lparr>parent = None, elements = []\<rparr>,
                   \<lparr>parent = Some 0, elements = []\<rparr>, \<lparr>parent = None, elements = []\<rparr>,
                   \<lparr>parent = Some 0, elements = []\<rparr>, \<lparr>parent = None, elements = []\<rparr>],
        modules := [\<lparr>mod_name = ''a'', mod_path = ''./a'', mod_loaded = False, mod_symbols = 1,
                     mod_exports = 2, mod_imports = [(\<lparr>path = ''a'', line = 1\<rparr>, ''b'')]\<rparr>,
                    \<lparr>mod_name = ''b'', mod_path = ''./b'', mod_loaded = False, mod_symbols = 3,
                     mod_exports = 4, mod_imports = [(\<lparr>path = ''b'', line = 1\<rparr>, ''a'')]\<rparr>]\<rparr>"

definition example_context_loading :: "context" where
  "example_context_loading =
     example_context
       \<lparr>tables := [\<lparr>parent = None, elements = []\<rparr>,
                   \<lparr>parent = Some 0, elements = []\<rparr>, \<lparr>parent = None, elements = []\<rparr>],
        modules := [\<lparr>mod_name = ''a'', mod_path = ''./a'', mod_loaded = False, mod_symbols = 1,
                     mod_exports = 2,
                     mod_imports = [(\<lparr>path = ''a'', line = 1\<rparr>, ''b''),
                                    (\<lparr>path = ''a'', line = 2\<rparr>, ''c'')]\<rparr>]\<rparr>"

section \<open>Template instances (resolve.c)\<close>













text \<open>
  \<^verbatim>\<open>xget_symbol\<close>, \<^verbatim>\<open>xget_template_instance\<close>, \<^verbatim>\<open>resolve_typespec\<close> and
  \<^verbatim>\<open>complete_struct\<close> call each other: a type specifier names a symbol, a symbol with
  template arguments is an instance, the arguments of an instance are type specifiers,
  and the members of a struct instance have type specifiers. The cycle always passes
  through \<^verbatim>\<open>xget_template_instance\<close>. So the other functions take it as the parameter
  \<open>instance\<close> and are recursive on the syntax only, and \<^verbatim>\<open>xget_template_instance\<close>
  itself takes fuel: each nested instantiation uses one unit, and without fuel the
  function does not return. The resolver and the context are passed along; a function
  returns them with its result.
\<close>

type_synonym 'a resolved = "(error + 'a \<times> module_resolver \<times> context) option"












text \<open>
  The examples. The parameters of the resolution are simple: an expression is an
  integer literal, a function declaration becomes a function symbol in the current
  table, a struct type is a new type object that holds its symbol table, and adding a
  member variable leaves the context as it is.
\<close>

definition example_hooks :: hooks where
  "example_hooks =
     \<lparr>resolve_expr = (\<lambda>r ctx e. case resolve_expr_integer ctx e of
                                   Inl err \<Rightarrow> Inl err
                                 | Inr resolved \<Rightarrow> Inr (resolved, r, ctx)),
      shallow_implicit_cast = (\<lambda>ty e. e),
      resolve_decl_function = (\<lambda>r ctx d.
         case symbol_new ctx SYMBOL_FUNCTION (decl_location d) (decl_name d) None None None of
           (symb, ctx) \<Rightarrow>
             (case symbol_table_insert ctx (current_symbol_table r) (decl_name d) symb of
                Inl err \<Rightarrow> Inl err
              | Inr ctx \<Rightarrow> Inr (symb, r, ctx))),
      resolve_decl_constant = (\<lambda>r ctx d. Inl Unreachable),
      type_new_struct = (\<lambda>ctx nm symbols. type_new ctx nm 0 TYPE_STRUCT (Struct_data symbols)),
      type_struct_add_member_variable = (\<lambda>ctx ty nm member_type. Inr ctx),
      type_symbols = (\<lambda>ty. case tdata ty of Struct_data symbols \<Rightarrow> symbols | _ \<Rightarrow> 0),
      resolve_decl_variable = (\<lambda>r ctx d. Inl Unreachable),
      resolve_decl_alias = (\<lambda>r ctx d. Inl Unreachable),
      ceil8zu = (\<lambda>n. ((n + 7) div 8) * 8),
      SIZEOF_UNSIZED = SIZE_MAX\<rparr>"

definition example_module_resolver :: module_resolver where
  "example_module_resolver =
     \<lparr>current_static_addr_prefix = None, current_function = None, current_symbol_table = 0,
      current_export_table = 0, current_rbp_offset = 0, is_within_const_decl = False,
      is_within_loop = False, current_loop_defer = None, current_defer = None,
      module_index = 0\<rparr>"
















section \<open>Function completion on the syntax tree, and examples\<close>

text \<open>
  Two predicates on the statements of the syntax tree, for the statement of the
  property: the statement is a constant or an alias declaration, and the statement is a
  return. \<open>statements_kept\<close> is a list of statements without its constant and alias
  declarations, and \<open>body_kept\<close> those of the body of a function.
\<close>

fun declares_constant_or_alias :: "cst_stmt \<Rightarrow> bool" where
  "declares_constant_or_alias (Cst_stmt location (CST_STMT_DECL decl)) =
     (decl_data decl = CST_DECL_CONSTANT \<or> decl_data decl = CST_DECL_ALIAS)"
| "declares_constant_or_alias (Cst_stmt location d) = False"

fun cst_stmt_is_return :: "cst_stmt \<Rightarrow> bool" where
  "cst_stmt_is_return (Cst_stmt location (CST_STMT_RETURN e)) = True"
| "cst_stmt_is_return (Cst_stmt location d) = False"

definition statements_kept :: "cst_stmt list \<Rightarrow> cst_stmt list" where
  "statements_kept stmts = filter (\<lambda>s. \<not> declares_constant_or_alias s) stmts"

definition body_kept :: "incomplete_function \<Rightarrow> cst_stmt list" where
  "body_kept incomplete = statements_kept (cst_block_stmts (inc_decl_body incomplete))"

text \<open>
  The examples: the types \<open>func(u32) u32\<close> and \<open>func() void\<close>; parameters that
  resolve a boolean or an integer literal and that declare a constant, an alias or a
  variable in the current symbol table; and a function \<open>f\<close> with a given body.
\<close>

definition example_func_u32 :: type where
  "example_func_u32 =
     Type 31 ''func(u32) u32'' 8 TYPE_FUNCTION (Function_data [example_u32] example_u32)"

definition example_func_void :: type where
  "example_func_void = Type 32 ''func() void'' 8 TYPE_FUNCTION (Function_data [] example_void)"

definition example_declare_local ::
  "symbol_kind \<Rightarrow> module_resolver \<Rightarrow> context \<Rightarrow> cst_decl \<Rightarrow>
   error + symbol \<times> module_resolver \<times> context" where
  "example_declare_local k r ctx d =
     (case symbol_new ctx k (decl_location d) (decl_name d) (Some example_u32)
             (if k = SYMBOL_TYPE then None
              else if k = SYMBOL_CONSTANT then Some (ADDRESS_STATIC (decl_name d) 0)
              else Some (ADDRESS_LOCAL (- 8)))
             (if k = SYMBOL_CONSTANT then Some (Value example_u32 (Data_integer 2)) else None) of
        (symb, ctx) \<Rightarrow>
          (case symbol_table_insert ctx (current_symbol_table r) (decl_name d) symb of
             Inl err \<Rightarrow> Inl err
           | Inr ctx \<Rightarrow> Inr (symb, r, ctx)))"

definition example_statement_hooks :: hooks where
  "example_statement_hooks =
     example_hooks
       \<lparr>resolve_expr := (\<lambda>r ctx e. case cst_expr_data e of
            CST_EXPR_BOOLEAN b \<Rightarrow>
              Inr (Tir_expr (cst_expr_location e) (builtin_bool ctx) (TIR_EXPR_BOOLEAN b), r, ctx)
          | _ \<Rightarrow> (case resolve_expr_integer ctx e of
                    Inl err \<Rightarrow> Inl err
                  | Inr resolved \<Rightarrow> Inr (resolved, r, ctx))),
        resolve_decl_constant := example_declare_local SYMBOL_CONSTANT,
        resolve_decl_alias := example_declare_local SYMBOL_TYPE,
        resolve_decl_variable := (\<lambda>r ctx d.
          case example_declare_local SYMBOL_VARIABLE r ctx d of
            Inl err \<Rightarrow> Inl err
          | Inr (symb, r, ctx) \<Rightarrow>
              Inr ((Tir_expr (decl_location d) example_u32 (TIR_EXPR_IDENTIFIER symb),
                    Tir_expr (decl_location d) example_u32 (TIR_EXPR_INTEGER 0)), r, ctx))\<rparr>"

text \<open>
  The statements \<^verbatim>\<open>return i u32;\<close>, \<^verbatim>\<open>const x: u32 = 2u32;\<close>, \<^verbatim>\<open>alias t = u32;\<close> and
  \<^verbatim>\<open>if true { return 1u32; } else { return 2u32; }\<close>.
\<close>

definition example_return :: "int \<Rightarrow> cst_stmt" where
  "example_return i =
     Cst_stmt example_location (CST_STMT_RETURN (Some (example_literal i ''u32'')))"

definition example_const :: cst_stmt where
  "example_const =
     Cst_stmt example_location (CST_STMT_DECL (Cst_decl example_location ''x'' CST_DECL_CONSTANT))"

definition example_alias :: cst_stmt where
  "example_alias =
     Cst_stmt example_location (CST_STMT_DECL (Cst_decl example_location ''t'' CST_DECL_ALIAS))"

definition example_if_else :: cst_stmt where
  "example_if_else =
     Cst_stmt example_location (CST_STMT_IF
       [Cst_conditional example_location
          (Some (Cst_expr example_location (CST_EXPR_BOOLEAN True)))
          (Cst_block example_location [example_return 1]),
        Cst_conditional example_location None
          (Cst_block example_location [example_return 2])])"

definition example_function :: "type \<Rightarrow> function" where
  "example_function ty =
     \<lparr>fun_name = ''f'', fun_type = ty, fun_address = ADDRESS_STATIC ''f'' 0,
      fun_local_stack_offset = 0, fun_body = None\<rparr>"

definition example_incomplete :: "type \<Rightarrow> cst_stmt list \<Rightarrow> incomplete_function" where
  "example_incomplete ty body =
     \<lparr>inc_decl_location = example_location,
      inc_decl_body = Cst_block example_location body,
      inc_function = example_function ty,
      inc_symbol_table = 0\<rparr>"

text \<open>
  What the examples resolve to: the return and the if statement, the body of \<open>f\<close>
  with given statements, the context after the two blocks of the if statement have
  received their symbol tables, and the contexts after the declaration of \<open>x\<close> and
  after the declarations of \<open>x\<close> and \<open>t\<close>.
\<close>

definition example_resolved_return :: "int \<Rightarrow> stmt" where
  "example_resolved_return i =
     Stmt example_location
       (Stmt_return (Some (Tir_expr example_location example_u32 (TIR_EXPR_INTEGER i))) None)"

definition example_resolved_if_else :: stmt where
  "example_resolved_if_else =
     Stmt example_location (Stmt_if
       [Conditional example_location
          (Some (Tir_expr example_location example_bool (TIR_EXPR_BOOLEAN True)))
          (Block example_location 1 [example_resolved_return 1] None None),
        Conditional example_location None
          (Block example_location 2 [example_resolved_return 2] None None)])"

definition example_body :: "stmt list \<Rightarrow> block" where
  "example_body stmts = Block example_location 0 stmts None None"

definition example_context_blocks :: "context" where
  "example_context_blocks =
     example_context
       \<lparr>tables := [\<lparr>parent = None, elements = []\<rparr>, \<lparr>parent = Some 0, elements = []\<rparr>,
                   \<lparr>parent = Some 0, elements = []\<rparr>]\<rparr>"

definition example_symbol_x :: symbol where
  "example_symbol_x =
     \<lparr>sym_addr = 14, sym_kind = SYMBOL_CONSTANT, sym_location = example_location,
      sym_name = ''x'', sym_type = Some example_u32,
      sym_address = Some (ADDRESS_STATIC ''x'' 0),
      sym_value = Some (Value example_u32 (Data_integer 2)), sym_symbols = None,
      sym_template = None\<rparr>"

definition example_symbol_t :: symbol where
  "example_symbol_t =
     \<lparr>sym_addr = 15, sym_kind = SYMBOL_TYPE, sym_location = example_location,
      sym_name = ''t'', sym_type = Some example_u32, sym_address = None, sym_value = None,
      sym_symbols = None, sym_template = None\<rparr>"

definition example_context_constant :: "context" where
  "example_context_constant =
     example_context
       \<lparr>live := {14, 1, 2, 3, 4, 5, 6, 7, 8, 9, 10, 11, 12, 13},
        tables := [\<lparr>parent = None, elements = [(''x'', example_symbol_x)]\<rparr>]\<rparr>"

definition example_context_declared :: "context" where
  "example_context_declared =
     example_context
       \<lparr>live := {15, 14, 1, 2, 3, 4, 5, 6, 7, 8, 9, 10, 11, 12, 13},
        tables := [\<lparr>parent = None,
                    elements = [(''x'', example_symbol_x), (''t'', example_symbol_t)]\<rparr>]\<rparr>"

chapter \<open>Properties\<close>

section \<open>Arithmetic in the evaluator\<close>

text \<open>
  C6. In \<^verbatim>\<open>eval_rvalue\<close>, when the operands of a binary operator evaluate to the integers
  \<open>a\<close> and \<open>b\<close> and the type of the expression is an integer type with bounds \<open>mn\<close> and
  \<open>mx\<close>: addition, subtraction and multiplication whose exact result is outside the
  bounds fail with the out-of-range diagnostic, whose arguments are the two operands and
  the result; division by zero fails with the divide-by-zero diagnostic; and every
  operation whose exact result is within the bounds returns that result, division being
  truncated.
\<close>

theorem eval_rvalue_arithmetic:
  assumes "eval_rvalue ctx lhs = Inr (Value lty (Data_integer a), ctx1)"
      and "eval_rvalue ctx1 rhs = Inr (Value rty (Data_integer b), ctx2)"
      and "type_is_integer lty" and "type_is_integer rty"
      and "type_is_integer ty" and "tdata ty = Integer_data mn mx"
  shows "(a + b < mn \<or> mx < a + b \<longrightarrow>
            eval_rvalue ctx (Tir_expr loc ty (TIR_EXPR_BINARY BOP_ADD lhs rhs)) =
              Inl (Fatal loc ''arithmetic operation produces out-of-range result (%s + %s == %s)''
                     [Big a, Big b, Big (a + b)]))
       \<and> (a - b < mn \<or> mx < a - b \<longrightarrow>
            eval_rvalue ctx (Tir_expr loc ty (TIR_EXPR_BINARY BOP_SUB lhs rhs)) =
              Inl (Fatal loc ''arithmetic operation produces out-of-range result (%s - %s == %s)''
                     [Big a, Big b, Big (a - b)]))
       \<and> (a * b < mn \<or> mx < a * b \<longrightarrow>
            eval_rvalue ctx (Tir_expr loc ty (TIR_EXPR_BINARY BOP_MUL lhs rhs)) =
              Inl (Fatal loc ''arithmetic operation produces out-of-range result (%s * %s == %s)''
                     [Big a, Big b, Big (a * b)]))
       \<and> (b = 0 \<longrightarrow>
            eval_rvalue ctx (Tir_expr loc ty (TIR_EXPR_BINARY BOP_DIV lhs rhs)) =
              Inl (Fatal loc ''divide by zero (%s / %s)'' [Big a, Big b]))
       \<and> (mn \<le> a + b \<and> a + b \<le> mx \<longrightarrow>
            eval_rvalue ctx (Tir_expr loc ty (TIR_EXPR_BINARY BOP_ADD lhs rhs)) =
              Inr (Value ty (Data_integer (a + b)), ctx2))
       \<and> (mn \<le> a - b \<and> a - b \<le> mx \<longrightarrow>
            eval_rvalue ctx (Tir_expr loc ty (TIR_EXPR_BINARY BOP_SUB lhs rhs)) =
              Inr (Value ty (Data_integer (a - b)), ctx2))
       \<and> (mn \<le> a * b \<and> a * b \<le> mx \<longrightarrow>
            eval_rvalue ctx (Tir_expr loc ty (TIR_EXPR_BINARY BOP_MUL lhs rhs)) =
              Inr (Value ty (Data_integer (a * b)), ctx2))
       \<and> (b \<noteq> 0 \<and> mn \<le> sgn a * sgn b * (\<bar>a\<bar> div \<bar>b\<bar>)
              \<and> sgn a * sgn b * (\<bar>a\<bar> div \<bar>b\<bar>) \<le> mx \<longrightarrow>
            eval_rvalue ctx (Tir_expr loc ty (TIR_EXPR_BINARY BOP_DIV lhs rhs)) =
              Inr (Value ty (Data_integer (sgn a * sgn b * (\<bar>a\<bar> div \<bar>b\<bar>))), ctx2))"
proof -
  have add: "eval_rvalue ctx (Tir_expr loc ty (TIR_EXPR_BINARY BOP_ADD lhs rhs)) =
      (if a + b < mn \<or> mx < a + b
       then Inl (Fatal loc ''arithmetic operation produces out-of-range result (%s + %s == %s)''
                   [Big a, Big b, Big (a + b)])
       else Inr (Value ty (Data_integer (a + b)), ctx2))"
    using assms
    by (auto simp: eval_binary_def eval_arithmetic_def integer_is_out_of_range_def
        value_new_integer_def)
  have sub: "eval_rvalue ctx (Tir_expr loc ty (TIR_EXPR_BINARY BOP_SUB lhs rhs)) =
      (if a - b < mn \<or> mx < a - b
       then Inl (Fatal loc ''arithmetic operation produces out-of-range result (%s - %s == %s)''
                   [Big a, Big b, Big (a - b)])
       else Inr (Value ty (Data_integer (a - b)), ctx2))"
    using assms
    by (auto simp: eval_binary_def eval_arithmetic_def integer_is_out_of_range_def
        value_new_integer_def)
  have mul: "eval_rvalue ctx (Tir_expr loc ty (TIR_EXPR_BINARY BOP_MUL lhs rhs)) =
      (if a * b < mn \<or> mx < a * b
       then Inl (Fatal loc ''arithmetic operation produces out-of-range result (%s * %s == %s)''
                   [Big a, Big b, Big (a * b)])
       else Inr (Value ty (Data_integer (a * b)), ctx2))"
    using assms
    by (auto simp: eval_binary_def eval_arithmetic_def integer_is_out_of_range_def
        value_new_integer_def)
  have dvd: "eval_rvalue ctx (Tir_expr loc ty (TIR_EXPR_BINARY BOP_DIV lhs rhs)) =
      (if b = 0 then Inl (Fatal loc ''divide by zero (%s / %s)'' [Big a, Big b])
       else case value_new_integer ty (bigint_divrem_quot a b) of
              Inl e \<Rightarrow> Inl e
            | Inr res \<Rightarrow> Inr (res, ctx2))"
    using assms by (auto simp: eval_binary_def eval_divide_def)
  show ?thesis
    using add sub mul dvd assms(5,6)
    by (auto simp: value_new_integer_def bigint_divrem_quot_def)
qed

text \<open>
  The theorem at \<open>200u8 + 100u8\<close>, \<open>3u8 - 5u8\<close>, \<open>16u8 * 16u8\<close> and \<open>7s8 / 0s8\<close>, which
  fail, and at \<open>200u8 + 55u8\<close>, \<open>5u8 - 3u8\<close>, \<open>15u8 * 17u8\<close> and \<open>-7s8 / 2s8\<close>, which
  give 255, 2, 255 and -3.
\<close>

theorem eval_rvalue_arithmetic_witness:
  "eval_rvalue example_context (Tir_expr example_location example_u8 (TIR_EXPR_BINARY BOP_ADD
       (Tir_expr example_location example_u8 (TIR_EXPR_INTEGER 200))
       (Tir_expr example_location example_u8 (TIR_EXPR_INTEGER 100)))) =
     Inl (Fatal example_location
            ''arithmetic operation produces out-of-range result (%s + %s == %s)''
            [Big 200, Big 100, Big 300])
   \<and> eval_rvalue example_context (Tir_expr example_location example_u8 (TIR_EXPR_BINARY BOP_SUB
       (Tir_expr example_location example_u8 (TIR_EXPR_INTEGER 3))
       (Tir_expr example_location example_u8 (TIR_EXPR_INTEGER 5)))) =
     Inl (Fatal example_location
            ''arithmetic operation produces out-of-range result (%s - %s == %s)''
            [Big 3, Big 5, Big (- 2)])
   \<and> eval_rvalue example_context (Tir_expr example_location example_u8 (TIR_EXPR_BINARY BOP_MUL
       (Tir_expr example_location example_u8 (TIR_EXPR_INTEGER 16))
       (Tir_expr example_location example_u8 (TIR_EXPR_INTEGER 16)))) =
     Inl (Fatal example_location
            ''arithmetic operation produces out-of-range result (%s * %s == %s)''
            [Big 16, Big 16, Big 256])
   \<and> eval_rvalue example_context (Tir_expr example_location example_s8 (TIR_EXPR_BINARY BOP_DIV
       (Tir_expr example_location example_s8 (TIR_EXPR_INTEGER 7))
       (Tir_expr example_location example_s8 (TIR_EXPR_INTEGER 0)))) =
     Inl (Fatal example_location ''divide by zero (%s / %s)'' [Big 7, Big 0])
   \<and> eval_rvalue example_context (Tir_expr example_location example_u8 (TIR_EXPR_BINARY BOP_ADD
       (Tir_expr example_location example_u8 (TIR_EXPR_INTEGER 200))
       (Tir_expr example_location example_u8 (TIR_EXPR_INTEGER 55)))) =
     Inr (Value example_u8 (Data_integer 255), example_context)
   \<and> eval_rvalue example_context (Tir_expr example_location example_u8 (TIR_EXPR_BINARY BOP_SUB
       (Tir_expr example_location example_u8 (TIR_EXPR_INTEGER 5))
       (Tir_expr example_location example_u8 (TIR_EXPR_INTEGER 3)))) =
     Inr (Value example_u8 (Data_integer 2), example_context)
   \<and> eval_rvalue example_context (Tir_expr example_location example_u8 (TIR_EXPR_BINARY BOP_MUL
       (Tir_expr example_location example_u8 (TIR_EXPR_INTEGER 15))
       (Tir_expr example_location example_u8 (TIR_EXPR_INTEGER 17)))) =
     Inr (Value example_u8 (Data_integer 255), example_context)
   \<and> eval_rvalue example_context (Tir_expr example_location example_s8 (TIR_EXPR_BINARY BOP_DIV
       (Tir_expr example_location example_s8 (TIR_EXPR_INTEGER (- 7)))
       (Tir_expr example_location example_s8 (TIR_EXPR_INTEGER 2)))) =
     Inr (Value example_s8 (Data_integer (- 3)), example_context)"
proof -
  have u8: "type_is_integer example_u8" "tdata example_u8 = Integer_data 0 255"
    and s8: "type_is_integer example_s8" "tdata example_s8 = Integer_data (- 128) 127"
    by (simp_all add: example_u8_def example_s8_def type_is_integer_def)
  have lit_u8: "0 \<le> i \<Longrightarrow> i \<le> 255 \<Longrightarrow>
      eval_rvalue example_context (Tir_expr example_location example_u8 (TIR_EXPR_INTEGER i)) =
        Inr (Value example_u8 (Data_integer i), example_context)" for i
    by (simp add: example_u8_def type_is_integer_def value_new_integer_def)
  have lit_s8: "- 128 \<le> i \<Longrightarrow> i \<le> 127 \<Longrightarrow>
      eval_rvalue example_context (Tir_expr example_location example_s8 (TIR_EXPR_INTEGER i)) =
        Inr (Value example_s8 (Data_integer i), example_context)" for i
    by (simp add: example_s8_def type_is_integer_def value_new_integer_def)
  note t = eval_rvalue_arithmetic [where loc = example_location]
  show ?thesis
    using t [OF lit_u8 [of 200] lit_u8 [of 100] u8(1) u8(1) u8]
      t [OF lit_u8 [of 3] lit_u8 [of 5] u8(1) u8(1) u8]
      t [OF lit_u8 [of 16] lit_u8 [of 16] u8(1) u8(1) u8]
      t [OF lit_s8 [of 7] lit_s8 [of 0] s8(1) s8(1) s8]
      t [OF lit_u8 [of 200] lit_u8 [of 55] u8(1) u8(1) u8]
      t [OF lit_u8 [of 5] lit_u8 [of 3] u8(1) u8(1) u8]
      t [OF lit_u8 [of 15] lit_u8 [of 17] u8(1) u8(1) u8]
      t [OF lit_s8 [of "- 7"] lit_s8 [of 2] s8(1) s8(1) s8]
    by simp
qed

section \<open>Evaluation of the examples\<close>

lemmas example_defs =
  example_slice_of_a_def example_index_def example_a_def example_constant_a_def
  example_addressof_a_def example_true_def example_false_def example_failing_def
  example_context_a_def example_context_def example_type_symbol_def
  example_pointer_array_u8_def example_slice_u8_def example_array_u8_def
  example_bool_def example_byte_def example_integer_def example_u8_def example_s8_def
  example_u16_def example_s16_def example_u32_def example_s32_def example_u64_def
  example_s64_def example_usize_def example_ssize_def example_location_def
  example_xalloc_def

lemmas eval_defs =
  value_new_integer_def value_new_boolean_def value_new_byte_def value_new_array_def
  value_new_slice_def value_new_pointer_def type_is_integer_def
  eval_binary_def eval_logical_def eval_divide_def eval_arithmetic_def value_eq_def
  integer_is_out_of_range_def bigint_divrem_quot_def
  eval_slice_check_def eval_slice_make_def bigint_to_uz_def SIZE_MAX_def uz_to_bigint_def
  type_unique_pointer_def type_unique_def type_new_pointer_def type_new_def pointer_type_name_def
  symbol_new_type_def symbol_new_def symbol_table_insert_def symbol_table_lookup.simps
  symbol_table_lookup_local_def Let_def

section \<open>Slices in the evaluator\<close>

text \<open>
  C10. In \<^verbatim>\<open>eval_rvalue\<close>, for a slice expression whose left operand evaluates to an array
  of count \<open>n\<close> and whose begin and end evaluate to the \<^verbatim>\<open>usize\<close> values \<open>b\<close> and \<open>e\<close>:
  whenever \<open>b \<ge> n\<close> the evaluation fails with the index out-of-bounds diagnostic at
  the location of begin, whatever \<open>e\<close> is, so also for \<open>b = e = n\<close>; when \<open>b < n\<close> the
  end is rejected only if \<open>e > n\<close>, and for \<open>e \<le> n\<close>, so also for \<open>e = n\<close>, both
  bounds checks pass and the evaluation goes on to build the slice from the address of
  the array.
\<close>

theorem eval_rvalue_slice_bounds:
  assumes "eval_rvalue ctx lhs = Inr (Value aty (Data_array els), ctx1)"
      and "tkind aty = TYPE_ARRAY" and "tdata aty = Array_data n base"
      and "eval_rvalue ctx1 begin = Inr (Value bty (Data_integer b), ctx2)"
      and "tkind bty = TYPE_USIZE" and "0 \<le> b" and "b \<le> int SIZE_MAX"
      and "eval_rvalue ctx2 end = Inr (Value ety (Data_integer e), ctx3)"
      and "tkind ety = TYPE_USIZE" and "0 \<le> e" and "e \<le> int SIZE_MAX"
  shows "(int n \<le> b \<longrightarrow>
            eval_rvalue ctx (Tir_expr loc ty (TIR_EXPR_SLICE lhs begin end)) =
              Inl (Fatal (expr_location begin)
                     ''index out-of-bounds (array count is %zu, received %zu)''
                     [Zu n, Zu (nat b)]))
       \<and> (b = int n \<and> e = int n \<longrightarrow>
            eval_rvalue ctx (Tir_expr loc ty (TIR_EXPR_SLICE lhs begin end)) =
              Inl (Fatal (expr_location begin)
                     ''index out-of-bounds (array count is %zu, received %zu)''
                     [Zu n, Zu n]))
       \<and> (b < int n \<and> int n < e \<longrightarrow>
            eval_rvalue ctx (Tir_expr loc ty (TIR_EXPR_SLICE lhs begin end)) =
              Inl (Fatal (expr_location begin)
                     ''index out-of-bounds (array count is %zu, received %zu)''
                     [Zu n, Zu (nat e)]))
       \<and> (b < int n \<and> e \<le> int n \<longrightarrow>
            eval_slice_check loc (expr_location begin) (expr_location end)
              (Value aty (Data_array els)) (Value bty (Data_integer b))
              (Value ety (Data_integer e)) = Inr (nat b, nat e)
            \<and> eval_rvalue ctx (Tir_expr loc ty (TIR_EXPR_SLICE lhs begin end)) =
                (case eval_lvalue ctx3 lhs of
                   Inl err \<Rightarrow> Inl err
                 | Inr (pointer, ctx4) \<Rightarrow> eval_slice_make ctx4 ty pointer (nat b) (nat e)))"
proof -
  have check: "eval_slice_check loc (expr_location begin) (expr_location end)
      (Value aty (Data_array els)) (Value bty (Data_integer b)) (Value ety (Data_integer e)) =
      (if n \<le> nat b
       then Inl (Fatal (expr_location begin)
                   ''index out-of-bounds (array count is %zu, received %zu)'' [Zu n, Zu (nat b)])
       else if n < nat e
       then Inl (Fatal (expr_location begin)
                   ''index out-of-bounds (array count is %zu, received %zu)'' [Zu n, Zu (nat e)])
       else Inr (nat b, nat e))"
    using assms by (simp add: eval_slice_check_def bigint_to_uz_def)
  have unfolded: "eval_rvalue ctx (Tir_expr loc ty (TIR_EXPR_SLICE lhs begin end)) =
      (case eval_slice_check loc (expr_location begin) (expr_location end)
              (Value aty (Data_array els)) (Value bty (Data_integer b))
              (Value ety (Data_integer e)) of
         Inl err \<Rightarrow> Inl err
       | Inr (begin_uz, end_uz) \<Rightarrow>
           (case eval_lvalue ctx3 lhs of
              Inl err \<Rightarrow> Inl err
            | Inr (pointer, ctx4) \<Rightarrow> eval_slice_make ctx4 ty pointer begin_uz end_uz))"
    using assms(1,4,8) by simp
  have b1: "int n \<le> b \<Longrightarrow> n \<le> nat b" and b2: "b < int n \<Longrightarrow> \<not> n \<le> nat b"
    and e1: "int n < e \<Longrightarrow> n < nat e" and e2: "e \<le> int n \<Longrightarrow> \<not> n < nat e"
    using assms(6,10) by linarith+
  show ?thesis
    unfolding unfolded check using b1 b2 e1 e2 by auto
qed

text \<open>
  The theorem at \<open>a[3:3]\<close> and \<open>a[1:3]\<close> for the constant \<open>a\<close> of type \<open>[3]u8\<close>: the
  first is rejected, the second is the slice of two elements at offset 1 of \<open>a\<close>.
\<close>

theorem eval_rvalue_slice_bounds_witness:
  "eval_rvalue example_context_a (example_slice_of_a 3 3) =
     Inl (Fatal example_location ''index out-of-bounds (array count is %zu, received %zu)''
            [Zu 3, Zu 3])
   \<and> map_sum id fst (eval_rvalue example_context_a (example_slice_of_a 1 3)) =
       Inr (Value example_slice_u8 (Data_slice
              (Value (Type 21 ''*u8'' 8 TYPE_POINTER (Pointer_data example_u8))
                 (Data_pointer (ADDRESS_STATIC ''a'' 1)))
              (Value example_usize (Data_integer 2))))"
proof -
  have a: "eval_rvalue example_context_a example_a =
      Inr (Value example_array_u8 (Data_array
             [Value example_u8 (Data_integer 1), Value example_u8 (Data_integer 2),
              Value example_u8 (Data_integer 3)]), example_context_a)"
    by (simp add: example_defs eval_defs)
  have i: "0 \<le> i \<Longrightarrow> i \<le> int SIZE_MAX \<Longrightarrow>
      eval_rvalue example_context_a (example_index i) =
        Inr (Value example_usize (Data_integer i), example_context_a)" for i
    by (simp add: example_defs eval_defs)
  have k: "tkind example_array_u8 = TYPE_ARRAY" "tdata example_array_u8 = Array_data 3 example_u8"
    "tkind example_usize = TYPE_USIZE"
    by (simp_all add: example_defs)
  have s: "(0::int) \<le> 3" "(3::int) \<le> int SIZE_MAX" "(0::int) \<le> 1" "(1::int) \<le> int SIZE_MAX"
    by (simp_all add: SIZE_MAX_def)
  have lv: "map_sum id fst (case eval_lvalue example_context_a example_a of
        Inl err \<Rightarrow> Inl err
      | Inr (pointer, ctx4) \<Rightarrow> eval_slice_make ctx4 example_slice_u8 pointer (nat 1) (nat 3)) =
      Inr (Value example_slice_u8 (Data_slice
             (Value (Type 21 ''*u8'' 8 TYPE_POINTER (Pointer_data example_u8))
                (Data_pointer (ADDRESS_STATIC ''a'' 1)))
             (Value example_usize (Data_integer 2))))"
    by (simp add: example_defs eval_defs)
  have loc: "expr_location (example_index j) = example_location" for j
    by (simp add: example_index_def)
  show ?thesis
    using eval_rvalue_slice_bounds [OF a k(1,2) i [OF s(1,2)] k(3) s(1,2) i [OF s(1,2)] k(3) s(1,2),
        of example_location example_slice_u8]
      eval_rvalue_slice_bounds [OF a k(1,2) i [OF s(3,4)] k(3) s(3,4) i [OF s(1,2)] k(3) s(1,2),
        of example_location example_slice_u8]
      lv
    by (simp add: example_slice_of_a_def loc)
qed

section \<open>Logical operators in the evaluator\<close>

text \<open>
  C8, as stated, fails: \<^verbatim>\<open>eval_rvalue\<close> evaluates both operands of every binary
  operator before it looks at the operator. In the example context, \<open>true or e\<close> and
  \<open>false and e\<close>, where \<open>e\<close> is \<open>1u8 / 0u8 == 0u8\<close>, fail with the divide-by-zero
  diagnostic of \<open>e\<close>, although the left operands evaluate to true and to false.
\<close>

theorem eval_rvalue_logical_counterexample:
  "eval_rvalue example_context example_true =
     Inr (Value example_bool (Data_boolean True), example_context)
   \<and> eval_rvalue example_context
       (Tir_expr example_location example_bool
          (TIR_EXPR_BINARY BOP_OR example_true example_failing)) =
     Inl (Fatal example_location ''divide by zero (%s / %s)'' [Big 1, Big 0])
   \<and> eval_rvalue example_context example_false =
     Inr (Value example_bool (Data_boolean False), example_context)
   \<and> eval_rvalue example_context
       (Tir_expr example_location example_bool
          (TIR_EXPR_BINARY BOP_AND example_false example_failing)) =
     Inl (Fatal example_location ''divide by zero (%s / %s)'' [Big 1, Big 0])"
  by (simp add: example_defs eval_defs)

text \<open>
  C8, amended. For \<open>or\<close> and \<open>and\<close>, \<^verbatim>\<open>eval_rvalue\<close> evaluates the left operand, then the
  right operand, then applies the operator: when the left operand evaluates to a boolean
  and the right operand fails, the expression fails with the error of the right operand,
  whatever the left value is; when both evaluate to booleans, the result is their
  disjunction or conjunction, so a true left operand of \<open>or\<close> gives true and a false
  left operand of \<open>and\<close> gives false.
\<close>

theorem eval_rvalue_logical:
  assumes "eval_rvalue ctx lhs = Inr (Value lty (Data_boolean a), ctx1)"
      and "tkind lty = TYPE_BOOL"
  shows "(eval_rvalue ctx1 rhs = Inl err \<longrightarrow>
            eval_rvalue ctx (Tir_expr loc ty (TIR_EXPR_BINARY BOP_OR lhs rhs)) = Inl err
            \<and> eval_rvalue ctx (Tir_expr loc ty (TIR_EXPR_BINARY BOP_AND lhs rhs)) = Inl err)
       \<and> (eval_rvalue ctx1 rhs = Inr (Value rty (Data_boolean b), ctx2) \<and> tkind rty = TYPE_BOOL \<longrightarrow>
            eval_rvalue ctx (Tir_expr loc ty (TIR_EXPR_BINARY BOP_OR lhs rhs)) =
              Inr (Value (builtin_bool ctx2) (Data_boolean (a \<or> b)), ctx2)
            \<and> eval_rvalue ctx (Tir_expr loc ty (TIR_EXPR_BINARY BOP_AND lhs rhs)) =
              Inr (Value (builtin_bool ctx2) (Data_boolean (a \<and> b)), ctx2))"
  using assms by (simp add: eval_binary_def eval_logical_def value_new_boolean_def)

text \<open>
  The amended statement at \<open>true or e\<close> and \<open>false and e\<close>, with \<open>e\<close> the failing
  expression above, and at \<open>true or false\<close> and \<open>false and true\<close>.
\<close>

theorem eval_rvalue_logical_witness:
  "eval_rvalue example_context
     (Tir_expr example_location example_bool
        (TIR_EXPR_BINARY BOP_OR example_true example_failing)) =
     Inl (Fatal example_location ''divide by zero (%s / %s)'' [Big 1, Big 0])
   \<and> eval_rvalue example_context
       (Tir_expr example_location example_bool
          (TIR_EXPR_BINARY BOP_AND example_false example_failing)) =
     Inl (Fatal example_location ''divide by zero (%s / %s)'' [Big 1, Big 0])
   \<and> eval_rvalue example_context
       (Tir_expr example_location example_bool
          (TIR_EXPR_BINARY BOP_OR example_true example_false)) =
     Inr (Value example_bool (Data_boolean True), example_context)
   \<and> eval_rvalue example_context
       (Tir_expr example_location example_bool
          (TIR_EXPR_BINARY BOP_AND example_false example_true)) =
     Inr (Value example_bool (Data_boolean False), example_context)"
proof -
  have t: "eval_rvalue example_context example_true =
      Inr (Value example_bool (Data_boolean True), example_context)"
    and f: "eval_rvalue example_context example_false =
      Inr (Value example_bool (Data_boolean False), example_context)"
    and e: "eval_rvalue example_context example_failing =
      Inl (Fatal example_location ''divide by zero (%s / %s)'' [Big 1, Big 0])"
    and k: "tkind example_bool = TYPE_BOOL"
    and c: "builtin_bool example_context = example_bool"
    by (simp_all add: example_defs eval_defs)
  show ?thesis
    using eval_rvalue_logical [OF t k, of example_failing _ example_location example_bool]
      eval_rvalue_logical [OF f k, of example_failing _ example_location example_bool]
      eval_rvalue_logical [OF t k, of example_false _ example_location example_bool
         example_bool False example_context]
      eval_rvalue_logical [OF f k, of example_true _ example_location example_bool
         example_bool True example_context]
      t f e k c
    by simp
qed

section \<open>Equality of pointer values\<close>

lemma value_eq_pointer:
  "tkind (vtype lhs) = TYPE_POINTER \<Longrightarrow> vtype rhs = vtype lhs \<Longrightarrow>
   value_eq lhs rhs = Inl Unreachable"
  by (simp add: value_eq_def type_is_integer_def)

lemma type_can_compare_equality_pointer:
  "tkind ty = TYPE_POINTER \<Longrightarrow> type_can_compare_equality ty"
  by (simp add: type_can_compare_equality_def)

text \<open>
  C9 does not hold of the code. \<^verbatim>\<open>type_can_compare_equality\<close> accepts the pointer type
  \<open>*[3]u8\<close>, so that \<open>&a == &a\<close> is a well-typed expression, but \<^verbatim>\<open>value_eq\<close> on two
  values of that type reaches \<^verbatim>\<open>UNREACHABLE()\<close>, and so does the evaluation of
  \<open>&a == &a\<close> for the constant \<open>a\<close>: no boolean is returned.
\<close>

theorem value_eq_pointer_unreachable:
  "type_can_compare_equality example_pointer_array_u8
   \<and> map_sum id fst (eval_rvalue example_context_a example_addressof_a) =
       Inr (Value example_pointer_array_u8 (Data_pointer (ADDRESS_STATIC ''a'' 0)))
   \<and> value_eq (Value example_pointer_array_u8 (Data_pointer (ADDRESS_STATIC ''a'' 0)))
       (Value example_pointer_array_u8 (Data_pointer (ADDRESS_STATIC ''a'' 0))) = Inl Unreachable
   \<and> eval_rvalue example_context_a
       (Tir_expr example_location example_bool
          (TIR_EXPR_BINARY BOP_EQ example_addressof_a example_addressof_a)) = Inl Unreachable"
  by (simp add: example_defs eval_defs type_can_compare_equality_def)

section \<open>Canonical types\<close>

lemma symbol_table_lookup_agree:
  "self < length tabs \<Longrightarrow> self < length tabs' \<Longrightarrow> (\<forall>i \<le> self. tabs' ! i = tabs ! i) \<Longrightarrow>
   symbol_table_lookup tabs' self nm = symbol_table_lookup tabs self nm"
proof (induction tabs self nm rule: symbol_table_lookup.induct)
  case (1 tabs self nm)
  have same: "tabs' ! self = tabs ! self"
    using "1.prems" by simp
  show ?case
  proof (cases "symbol_table_lookup_local (tabs ! self) nm")
    case (Some a)
    then show ?thesis
      using "1.prems" same
      by (simp add: symbol_table_lookup.simps [of tabs self] symbol_table_lookup.simps [of tabs' self])
  next
    case None
    show ?thesis
    proof (cases "parent (tabs ! self)")
      case None
      then show ?thesis
        using "1.prems" same \<open>symbol_table_lookup_local (tabs ! self) nm = None\<close>
        by (simp add: symbol_table_lookup.simps [of tabs self]
            symbol_table_lookup.simps [of tabs' self])
    next
      case (Some p)
      show ?thesis
      proof (cases "p < self")
        case True
        have "symbol_table_lookup tabs' p nm = symbol_table_lookup tabs p nm"
          using "1.IH" [OF _ \<open>symbol_table_lookup_local (tabs ! self) nm = None\<close> Some True]
            "1.prems" True
          by simp
        then show ?thesis
          using "1.prems" same Some True \<open>symbol_table_lookup_local (tabs ! self) nm = None\<close>
          by (simp add: symbol_table_lookup.simps [of tabs self]
              symbol_table_lookup.simps [of tabs' self])
      next
        case False
        then show ?thesis
          using "1.prems" same Some \<open>symbol_table_lookup_local (tabs ! self) nm = None\<close>
          by (simp add: symbol_table_lookup.simps [of tabs self]
              symbol_table_lookup.simps [of tabs' self])
      qed
    qed
  qed
qed

lemma symbol_table_lookup_local_None:
  "symbol_table_lookup tabs self nm = Inr None \<Longrightarrow>
   self < length tabs \<and> symbol_table_lookup_local (tabs ! self) nm = None"
  by (subst (asm) symbol_table_lookup.simps) (auto split: if_splits option.splits)

lemma symbol_table_lookup_insert:
  assumes ins: "symbol_table_insert ctx self nm symb = Inr ctx'"
  shows "symbol_table_lookup (tables ctx') self m =
           (if m = nm then Inr (Some symb) else symbol_table_lookup (tables ctx) self m)"
proof -
  let ?tabs = "tables ctx"
  let ?T = "?tabs ! self"
  from ins have valid: "self < length ?tabs"
    and free: "symbol_table_lookup_local ?T nm = None"
    and tabs': "tables ctx' = ?tabs [self := ?T\<lparr>elements := elements ?T @ [(nm, symb)]\<rparr>]"
    by (auto simp: symbol_table_insert_def split: if_splits option.splits)
  have valid': "self < length (tables ctx')"
    using valid tabs' by simp
  have at: "tables ctx' ! self = ?T\<lparr>elements := elements ?T @ [(nm, symb)]\<rparr>"
    using valid tabs' by simp
  have local: "symbol_table_lookup_local (tables ctx' ! self) m =
      (case symbol_table_lookup_local ?T m of
         Some x \<Rightarrow> Some x
       | None \<Rightarrow> if m = nm then Some symb else None)"
    by (simp add: at symbol_table_lookup_local_def map_add_def split: option.splits)
  have up: "symbol_table_lookup (tables ctx') p m = symbol_table_lookup ?tabs p m" if "p < self" for p
    using that valid tabs' by (intro symbol_table_lookup_agree) auto
  show ?thesis
  proof (cases "m = nm")
    case True
    then show ?thesis
      using valid' local free by (simp add: symbol_table_lookup.simps [of "tables ctx'" self])
  next
    case False
    then show ?thesis
      using valid valid' local up at
      by (simp add: symbol_table_lookup.simps [of "tables ctx'" self]
          symbol_table_lookup.simps [of ?tabs self] split: option.splits)
  qed
qed

lemma registry_ok_sound:
  "registry_ok ctx \<Longrightarrow>
   symbol_table_lookup (tables ctx) (global_symbol_table ctx) (request_name r) = Inr (Some symb) \<Longrightarrow>
   \<exists>ty. sym_type symb = Some ty \<and> tname ty = request_name r \<and> taddr ty \<in> live ctx"
  unfolding registry_ok_def by blast

lemma symbol_table_insert_frame:
  "symbol_table_insert ctx self nm symb = Inr ctx' \<Longrightarrow>
   live ctx' = live ctx \<and> xalloc ctx' = xalloc ctx
   \<and> global_symbol_table ctx' = global_symbol_table ctx"
  by (auto simp: symbol_table_insert_def split: if_splits option.splits)

text \<open>
  One call of the shared part of the builders on a freshly built type: the result is a
  type of the name of the new type that is registered under that name afterwards, what
  was registered stays registered, and the invariant is kept.
\<close>

lemma type_unique_type_new:
  assumes ok: "registry_ok ctx" and fresh: "allocator_fresh ctx"
      and call: "type_unique (type_new ctx (request_name r) sz k d) = Inr (res, ctx')"
  shows "registry_ok ctx' \<and> allocator_fresh ctx'
       \<and> (\<exists>ty. res = Some ty \<and> tname ty = request_name r \<and> registered ctx' (request_name r) ty)
       \<and> (\<forall>m ty. registered ctx m ty \<longrightarrow> registered ctx' m ty)"
proof -
  let ?nm = "request_name r"
  let ?p = "xalloc ctx (live ctx)"
  let ?ty = "Type ?p ?nm sz k d"
  let ?ctx1 = "ctx\<lparr>live := insert ?p (live ctx)\<rparr>"
  let ?g = "global_symbol_table ctx"
  have fin: "finite (live ctx)" using ok by (simp add: registry_ok_def)
  then have p_fresh: "?p \<notin> live ctx" using fresh by (simp add: allocator_fresh_def)
  have new: "type_new ctx ?nm sz k d = (?ty, ?ctx1)"
    by (simp add: type_new_def Let_def)
  show ?thesis
  proof (cases "symbol_table_lookup (tables ctx) ?g ?nm")
    case (Inl e)
    then show ?thesis using call by (simp add: new type_unique_def)
  next
    case (Inr found)
    show ?thesis
    proof (cases found)
      case (Some existing)
      then have res: "res = sym_type existing" and ctx': "ctx' = ?ctx1\<lparr>live := live ?ctx1 - {?p}\<rparr>"
        using call Inr by (simp_all add: new type_unique_def)
      have live': "live ctx' = live ctx" using p_fresh ctx' by auto
      have tabs': "tables ctx' = tables ctx" "global_symbol_table ctx' = ?g"
        "xalloc ctx' = xalloc ctx"
        using ctx' by simp_all
      obtain ty where ty: "sym_type existing = Some ty" "tname ty = ?nm"
        using registry_ok_sound [OF ok, of r existing] Inr Some by auto
      have reg: "registered ctx' m t = registered ctx m t" for m t
        by (simp add: registered_def tabs')
      have "registry_ok ctx'"
        using ok unfolding registry_ok_def reg live' tabs' by blast
      moreover have "allocator_fresh ctx'"
        using fresh by (simp add: allocator_fresh_def tabs')
      moreover have "registered ctx' ?nm ty"
        using Inr Some ty by (simp add: registered_def tabs')
      ultimately show ?thesis using res ty reg by auto
    next
      case None
      let ?q = "xalloc ctx (insert ?p (live ctx))"
      let ?symb = "\<lparr>sym_addr = ?q, sym_kind = SYMBOL_TYPE, sym_location = builtin_location ctx,
        sym_name = ?nm, sym_type = Some ?ty, sym_address = None, sym_value = None,
        sym_symbols = None, sym_template = None\<rparr>"
      let ?ctx2 = "ctx\<lparr>live := insert ?q (insert ?p (live ctx))\<rparr>"
      have snew: "symbol_new_type ?ctx1 (builtin_location ctx) ?ty = (?symb, ?ctx2)"
        by (simp add: symbol_new_type_def symbol_new_def Let_def)
      from call Inr None have ins: "symbol_table_insert ?ctx2 ?g ?nm ?symb = Inr ctx'"
        and res: "res = Some ?ty"
        by (auto simp: new type_unique_def snew split: sum.splits)
      have frame: "live ctx' = insert ?q (insert ?p (live ctx))" "xalloc ctx' = xalloc ctx"
        "global_symbol_table ctx' = ?g"
        using symbol_table_insert_frame [OF ins] by simp_all
      have look: "symbol_table_lookup (tables ctx') ?g m =
          (if m = ?nm then Inr (Some ?symb) else symbol_table_lookup (tables ctx) ?g m)" for m
        using symbol_table_lookup_insert [OF ins, of m] by simp
      have reg_new: "registered ctx' ?nm t \<longleftrightarrow> t = ?ty" for t
        by (auto simp: registered_def look frame)
      have reg_old: "m \<noteq> ?nm \<Longrightarrow> registered ctx' m t = registered ctx m t" for m t
        by (simp add: registered_def look frame)
      have not_reg: "\<not> registered ctx ?nm t" for t
        using Inr None by (simp add: registered_def)
      have old_live: "registered ctx (request_name r') t \<Longrightarrow> taddr t \<in> live ctx" for r' t
        using registry_ok_sound [OF ok, of r'] by (auto simp: registered_def)
      have keep: "registered ctx m t \<Longrightarrow> registered ctx' m t" for m t
        using reg_old [of m t] not_reg [of t] by (cases "m = ?nm") auto
      have inj: "ty1 = ty2" if "registered ctx' (request_name r1) ty1"
        "registered ctx' (request_name r2) ty2" "taddr ty1 = taddr ty2" for r1 r2 ty1 ty2
      proof (cases "request_name r1 = ?nm"; cases "request_name r2 = ?nm")
        assume "request_name r1 = ?nm" "request_name r2 = ?nm"
        then show ?thesis using that reg_new by simp
      next
        assume a: "request_name r1 = ?nm" "request_name r2 \<noteq> ?nm"
        then have "ty1 = ?ty" "registered ctx (request_name r2) ty2"
          using that reg_new reg_old by auto
        then show ?thesis using old_live [of r2 ty2] that(3) p_fresh by auto
      next
        assume a: "request_name r1 \<noteq> ?nm" "request_name r2 = ?nm"
        then have "ty2 = ?ty" "registered ctx (request_name r1) ty1"
          using that reg_new reg_old by auto
        then show ?thesis using old_live [of r1 ty1] that(3) p_fresh by auto
      next
        assume a: "request_name r1 \<noteq> ?nm" "request_name r2 \<noteq> ?nm"
        then have "registered ctx (request_name r1) ty1" "registered ctx (request_name r2) ty2"
          using that reg_old by auto
        then show ?thesis using ok that(3) unfolding registry_ok_def by blast
      qed
      have sound: "\<exists>ty. sym_type symb = Some ty \<and> tname ty = request_name r' \<and> taddr ty \<in> live ctx'"
        if "symbol_table_lookup (tables ctx') (global_symbol_table ctx') (request_name r')
              = Inr (Some symb)" for r' symb
      proof (cases "request_name r' = ?nm")
        case True
        then show ?thesis using that by (auto simp: look frame)
      next
        case False
        then have "symbol_table_lookup (tables ctx) ?g (request_name r') = Inr (Some symb)"
          using that by (simp add: look frame)
        then show ?thesis using registry_ok_sound [OF ok, of r' symb] by (auto simp: frame)
      qed
      have "registry_ok ctx'"
        unfolding registry_ok_def
      proof (intro conjI allI impI)
        show "finite (live ctx')" using fin frame(1) by simp
      next
        fix r' symb
        assume "symbol_table_lookup (tables ctx') (global_symbol_table ctx') (request_name r')
                  = Inr (Some symb)"
        then show "\<exists>ty. sym_type symb = Some ty \<and> tname ty = request_name r'
                        \<and> taddr ty \<in> live ctx'"
          by (rule sound)
      next
        fix r1 r2 ty1 ty2
        assume "registered ctx' (request_name r1) ty1 \<and> registered ctx' (request_name r2) ty2
                  \<and> taddr ty1 = taddr ty2"
        then show "ty1 = ty2" using inj [of r1 ty1 r2 ty2] by simp
      qed
      moreover have "allocator_fresh ctx'"
        using fresh by (simp add: allocator_fresh_def frame)
      ultimately show ?thesis using res reg_new keep by auto
    qed
  qed
qed

lemma type_unique_request_spec:
  assumes ok: "registry_ok ctx" and fresh: "allocator_fresh ctx"
      and call: "type_unique_request ctx r = Inr (res, ctx')"
  shows "registry_ok ctx' \<and> allocator_fresh ctx'
       \<and> (\<exists>ty. res = Some ty \<and> tname ty = request_name r \<and> registered ctx' (request_name r) ty)
       \<and> (\<forall>m ty. registered ctx m ty \<longrightarrow> registered ctx' m ty)"
proof (cases r)
  case (Unique_function ps ret)
  then show ?thesis
    using type_unique_type_new [OF ok fresh, of r 8 TYPE_FUNCTION "Function_data ps ret" res ctx'] call
    by (simp add: type_unique_function_def type_new_function_def)
next
  case (Unique_pointer base)
  then show ?thesis
    using type_unique_type_new [OF ok fresh, of r 8 TYPE_POINTER "Pointer_data base" res ctx'] call
    by (simp add: type_unique_pointer_def type_new_pointer_def)
next
  case (Unique_array n base)
  then show ?thesis
    using type_unique_type_new [OF ok fresh, of r "(n * tsize base) mod 2 ^ 64" TYPE_ARRAY
        "Array_data n base" res ctx'] call
    by (auto simp: type_unique_array_def type_new_array_def Let_def split: if_splits)
next
  case (Unique_slice base)
  then show ?thesis
    using type_unique_type_new [OF ok fresh, of r "8 * 2" TYPE_SLICE "Slice_data base" res ctx'] call
    by (simp add: type_unique_slice_def type_new_slice_def)
qed

lemma type_unique_requests_spec:
  "registry_ok ctx \<Longrightarrow> allocator_fresh ctx \<Longrightarrow> type_unique_requests ctx rs = Inr (ress, ctx') \<Longrightarrow>
   registry_ok ctx' \<and> allocator_fresh ctx' \<and> (\<forall>m ty. registered ctx m ty \<longrightarrow> registered ctx' m ty)"
proof (induction rs arbitrary: ctx ress)
  case Nil
  then show ?case by simp
next
  case (Cons r rs)
  from Cons.prems(3) obtain t c ts where
    step: "type_unique_request ctx r = Inr (t, c)" and rest: "type_unique_requests c rs = Inr (ts, ctx')"
    by (auto split: sum.splits)
  show ?case
    using type_unique_request_spec [OF Cons.prems(1,2) step]
      Cons.IH [OF _ _ rest]
    by blast
qed

lemma registered_unique:
  "registered ctx nm ty \<Longrightarrow> registered ctx nm ty' \<Longrightarrow> ty = ty'"
  by (auto simp: registered_def)

lemma registry_ok_injective:
  "registry_ok ctx \<Longrightarrow> registered ctx (request_name r) ty \<Longrightarrow>
   registered ctx (request_name r') ty' \<Longrightarrow> taddr ty = taddr ty' \<Longrightarrow> ty = ty'"
  unfolding registry_ok_def by blast

text \<open>
  C1. Take a context that satisfies the invariant of the registry, and an allocator that
  returns addresses that are not live. For any two calls of the unique type builders
  (function, pointer, array, slice), with any sequence of calls of the builders between
  them: both return a type that bears the canonical name of the call; when the two
  canonical names are equal the two returned pointers are equal, the second being the
  entry of the global table; when the names differ the returned objects are at
  different addresses.
\<close>

theorem type_unique_canonical:
  assumes "registry_ok ctx" and "allocator_fresh ctx"
      and "type_unique_request ctx r1 = Inr (res1, ctx1)"
      and "type_unique_requests ctx1 rs = Inr (ress, ctx2)"
      and "type_unique_request ctx2 r2 = Inr (res2, ctx3)"
  shows "\<exists>ty1 ty2. res1 = Some ty1 \<and> res2 = Some ty2
           \<and> tname ty1 = request_name r1 \<and> tname ty2 = request_name r2
           \<and> registered ctx2 (request_name r1) ty1
           \<and> registered ctx3 (request_name r2) ty2
           \<and> (request_name r1 = request_name r2 \<longrightarrow> ty1 = ty2)
           \<and> (request_name r1 \<noteq> request_name r2 \<longrightarrow> taddr ty1 \<noteq> taddr ty2)"
proof -
  from type_unique_request_spec [OF assms(1,2,3)] obtain ty1 where
    one: "registry_ok ctx1" "allocator_fresh ctx1" "res1 = Some ty1"
      "tname ty1 = request_name r1" "registered ctx1 (request_name r1) ty1"
    by blast
  from type_unique_requests_spec [OF one(1,2) assms(4)] one(5) have
    mid: "registry_ok ctx2" "allocator_fresh ctx2" "registered ctx2 (request_name r1) ty1"
    by blast+
  from type_unique_request_spec [OF mid(1,2) assms(5)] mid(3) obtain ty2 where
    two: "registry_ok ctx3" "res2 = Some ty2" "tname ty2 = request_name r2"
      "registered ctx3 (request_name r2) ty2" "registered ctx3 (request_name r1) ty1"
    by blast
  have same: "ty1 = ty2" if "request_name r1 = request_name r2"
    using registered_unique [OF two(5)] two(4) that by simp
  have differ: "taddr ty1 \<noteq> taddr ty2" if "request_name r1 \<noteq> request_name r2"
  proof
    assume "taddr ty1 = taddr ty2"
    then have "ty1 = ty2"
      using registry_ok_injective [OF two(1) two(5) two(4)] by simp
    then show False using that one(4) two(3) by simp
  qed
  show ?thesis
    using one(3,4) two(2,3,4) mid(3) same differ by blast
qed

lemma example_xalloc_fresh: "finite S \<Longrightarrow> example_xalloc S \<notin> S"
proof
  assume "finite S" and "example_xalloc S \<in> S"
  then have "example_xalloc S \<le> Max (insert 0 S)"
    by simp
  then show False
    by (simp add: example_xalloc_def)
qed

lemma example_context_ok: "registry_ok example_context" "allocator_fresh example_context"
  by (simp_all add: registry_ok_def registered_def allocator_fresh_def example_context_def
      symbol_table_lookup.simps symbol_table_lookup_local_def example_xalloc_fresh)

lemmas registry_defs =
  type_unique_function_def type_unique_pointer_def type_unique_array_def type_unique_slice_def
  type_new_function_def type_new_pointer_def type_new_array_def type_new_slice_def
  function_type_name_def pointer_type_name_def array_type_name_def slice_type_name_def
  fmt_zu.simps digit_char_def type_unique_def type_new_def symbol_new_type_def symbol_new_def
  symbol_table_insert_def symbol_table_lookup.simps symbol_table_lookup_local_def Let_def

text \<open>
  The theorem in the example context, for the calls \<open>*u8\<close>, \<open>[]u8\<close>, \<open>*u8\<close> and for the
  calls \<open>*u8\<close>, \<open>[]u8\<close>, \<open>[3]u8\<close>: the two pointers to \<open>u8\<close> are the object at
  address 14, the array is a new object at address 18.
\<close>

theorem type_unique_canonical_witness:
  "registry_ok example_context \<and> allocator_fresh example_context
   \<and> map_sum id fst (type_unique_requests example_context
        [Unique_pointer example_u8, Unique_slice example_u8, Unique_pointer example_u8]) =
       Inr [Some (Type 14 ''*u8'' 8 TYPE_POINTER (Pointer_data example_u8)),
            Some (Type 16 ''[]u8'' 16 TYPE_SLICE (Slice_data example_u8)),
            Some (Type 14 ''*u8'' 8 TYPE_POINTER (Pointer_data example_u8))]
   \<and> map_sum id fst (type_unique_requests example_context
        [Unique_pointer example_u8, Unique_slice example_u8, Unique_array 3 example_u8]) =
       Inr [Some (Type 14 ''*u8'' 8 TYPE_POINTER (Pointer_data example_u8)),
            Some (Type 16 ''[]u8'' 16 TYPE_SLICE (Slice_data example_u8)),
            Some (Type 18 ''[3]u8'' 3 TYPE_ARRAY (Array_data 3 example_u8))]"
proof -
  define c1 where "c1 = snd (projr (type_unique_request example_context (Unique_pointer example_u8)))"
  define c2 where "c2 = snd (projr (type_unique_requests c1 [Unique_slice example_u8]))"
  let ?p = "Type 14 ''*u8'' 8 TYPE_POINTER (Pointer_data example_u8)"
  let ?s = "Type 16 ''[]u8'' 16 TYPE_SLICE (Slice_data example_u8)"
  let ?a = "Type 18 ''[3]u8'' 3 TYPE_ARRAY (Array_data 3 example_u8)"
  have s1: "type_unique_request example_context (Unique_pointer example_u8) = Inr (Some ?p, c1)"
    by (simp add: c1_def registry_defs example_defs)
  have s2: "type_unique_requests c1 [Unique_slice example_u8] = Inr ([Some ?s], c2)"
    by (simp add: c2_def c1_def registry_defs example_defs)
  have s3: "map_sum id fst (type_unique_request c2 (Unique_pointer example_u8)) = Inr (Some ?p)"
    by (simp add: c2_def c1_def registry_defs example_defs)
  have s4: "map_sum id fst (type_unique_request c2 (Unique_array 3 example_u8)) = Inr (Some ?a)"
    by (simp add: c2_def c1_def registry_defs example_defs)
  obtain c3 c4 where
    s3': "type_unique_request c2 (Unique_pointer example_u8) = Inr (Some ?p, c3)" and
    s4': "type_unique_request c2 (Unique_array 3 example_u8) = Inr (Some ?a, c4)"
    using s3 s4 by (auto simp: map_sum_def split: sum.splits)
  have e1: "map_sum id fst (type_unique_requests example_context
        [Unique_pointer example_u8, Unique_slice example_u8, Unique_pointer example_u8]) =
       Inr [Some ?p, Some ?s, Some ?p]"
    by (simp add: registry_defs example_defs)
  have e2: "map_sum id fst (type_unique_requests example_context
        [Unique_pointer example_u8, Unique_slice example_u8, Unique_array 3 example_u8]) =
       Inr [Some ?p, Some ?s, Some ?a]"
    by (simp add: registry_defs example_defs)
  show ?thesis
    using type_unique_canonical [OF example_context_ok s1 s2 s3']
      type_unique_canonical [OF example_context_ok s1 s2 s4']
      e1 e2 example_context_ok
    by blast
qed

section \<open>Redeclaration and repeated imports\<close>

text \<open>
  C3, as stated, fails: \<^verbatim>\<open>symbol_table_insert\<close> has no case for the identical symbol.
  After the import of the table that declares \<open>x\<close>, inserting the very same symbol
  under \<open>x\<close> again is a redeclaration error that cites the location of that symbol.
\<close>

theorem symbol_table_insert_identical_counterexample:
  "map_option (map_sum id tables)
     (merge_symbol_table (Suc (Suc 0)) example_context_import 1 2 0) =
     Some (Inr [\<lparr>parent = None, elements = []\<rparr>,
                \<lparr>parent = Some 0, elements = [(''x'', example_constant_x 14 3)]\<rparr>,
                \<lparr>parent = None, elements = [(''x'', example_constant_x 14 3)]\<rparr>,
                \<lparr>parent = None, elements = [(''x'', example_constant_x 15 7)]\<rparr>])
   \<and> symbol_table_insert
       (example_context_import
          \<lparr>tables := [\<lparr>parent = None, elements = []\<rparr>,
                      \<lparr>parent = Some 0, elements = [(''x'', example_constant_x 14 3)]\<rparr>,
                      \<lparr>parent = None, elements = [(''x'', example_constant_x 14 3)]\<rparr>,
                      \<lparr>parent = None, elements = [(''x'', example_constant_x 15 7)]\<rparr>]\<rparr>)
       1 ''x'' (example_constant_x 14 3) =
     Inl (Fatal \<lparr>path = ''lib.sunder'', line = 3\<rparr>
            ''redeclaration of `%s` previously declared at [%s:%zu]''
            [Str ''x'', Str ''lib.sunder'', Zu 3])"
  by (simp add: example_context_import_def example_context_def example_constant_x_def
      symbol_table_insert_def symbol_table_lookup_local_def Let_def)

text \<open>
  C3, amended. \<^verbatim>\<open>symbol_table_insert\<close> fails with the redeclaration diagnostic, at the
  location of the new symbol and citing the path and line of the previous declaration,
  whenever the name is bound locally, whatever symbol it is bound to. The repeated
  import is handled by \<^verbatim>\<open>merge_symbol_table\<close>: at an entry of the imported table that is
  not a namespace, when the name is bound locally to the symbol at the same address the
  entry is skipped and the merge goes on in the unchanged context; when the name is
  bound locally to a symbol at another address the merge fails with the redeclaration
  diagnostic that cites the bound symbol.
\<close>

theorem symbol_table_insert_redeclaration:
  assumes "self < length (tables ctx)"
      and "symbol_table_lookup_local (tables ctx ! self) nm = Some existing"
  shows "symbol_table_insert ctx self nm symb =
           Inl (Fatal (sym_location symb)
                  ''redeclaration of `%s` previously declared at [%s:%zu]''
                  [Str nm, Str (path (sym_location existing)), Zu (line (sym_location existing))])
       \<and> (othr < length (tables ctx) \<and> i < length (elements (tables ctx ! othr))
            \<and> elements (tables ctx ! othr) ! i = (nm, symb)
            \<and> sym_kind symb \<noteq> SYMBOL_NAMESPACE \<longrightarrow>
            (sym_addr existing = sym_addr symb \<longrightarrow>
               merge_symbol_table (Suc fuel) ctx self othr i =
                 merge_symbol_table fuel ctx self othr (Suc i))
            \<and> (sym_addr existing \<noteq> sym_addr symb \<longrightarrow>
               merge_symbol_table (Suc fuel) ctx self othr i =
                 Some (Inl (Fatal (sym_location symb)
                   ''redeclaration of `%s` previously declared at [%s:%zu]''
                   [Str nm, Str (path (sym_location existing)),
                    Zu (line (sym_location existing))]))))"
proof -
  have ins: "symbol_table_insert ctx self nm symb =
      Inl (Fatal (sym_location symb)
             ''redeclaration of `%s` previously declared at [%s:%zu]''
             [Str nm, Str (path (sym_location existing)), Zu (line (sym_location existing))])"
    using assms by (simp add: symbol_table_insert_def)
  show ?thesis
    using assms ins by (simp add: Let_def)
qed

text \<open>
  The amended statement on the example: the module table after one import of the table
  that declares \<open>x\<close>. A second import of the same table leaves the context as it is;
  the import of the other table, whose \<open>x\<close> is a different symbol, is a redeclaration
  that cites line 3 of the first.
\<close>

theorem symbol_table_insert_redeclaration_witness:
  "merge_symbol_table (Suc (Suc 0))
     (example_context_import
        \<lparr>tables := (tables example_context_import)
           [1 := \<lparr>parent = Some 0, elements = [(''x'', example_constant_x 14 3)]\<rparr>]\<rparr>) 1 2 0 =
     Some (Inr (example_context_import
        \<lparr>tables := (tables example_context_import)
           [1 := \<lparr>parent = Some 0, elements = [(''x'', example_constant_x 14 3)]\<rparr>]\<rparr>))
   \<and> merge_symbol_table (Suc (Suc 0))
       (example_context_import
          \<lparr>tables := (tables example_context_import)
             [1 := \<lparr>parent = Some 0, elements = [(''x'', example_constant_x 14 3)]\<rparr>]\<rparr>) 1 3 0 =
     Some (Inl (Fatal \<lparr>path = ''lib.sunder'', line = 7\<rparr>
                  ''redeclaration of `%s` previously declared at [%s:%zu]''
                  [Str ''x'', Str ''lib.sunder'', Zu 3]))"
proof -
  let ?ctx = "example_context_import
        \<lparr>tables := (tables example_context_import)
           [1 := \<lparr>parent = Some 0, elements = [(''x'', example_constant_x 14 3)]\<rparr>]\<rparr>"
  have v: "1 < length (tables ?ctx)"
    and l: "symbol_table_lookup_local (tables ?ctx ! 1) ''x'' = Some (example_constant_x 14 3)"
    by (simp_all add: example_context_import_def symbol_table_lookup_local_def)
  have o2: "2 < length (tables ?ctx) \<and> 0 < length (elements (tables ?ctx ! 2))
      \<and> elements (tables ?ctx ! 2) ! 0 = (''x'', example_constant_x 14 3)
      \<and> sym_kind (example_constant_x 14 3) \<noteq> SYMBOL_NAMESPACE"
    and o3: "3 < length (tables ?ctx) \<and> 0 < length (elements (tables ?ctx ! 3))
      \<and> elements (tables ?ctx ! 3) ! 0 = (''x'', example_constant_x 15 7)
      \<and> sym_kind (example_constant_x 15 7) \<noteq> SYMBOL_NAMESPACE"
    by (simp_all add: example_context_import_def example_constant_x_def)
  have a: "sym_addr (example_constant_x 14 3) = sym_addr (example_constant_x 14 3)"
    "sym_addr (example_constant_x 14 3) \<noteq> sym_addr (example_constant_x 15 7)"
    "sym_location (example_constant_x 14 3) = \<lparr>path = ''lib.sunder'', line = 3\<rparr>"
    "sym_location (example_constant_x 15 7) = \<lparr>path = ''lib.sunder'', line = 7\<rparr>"
    by (simp_all add: example_constant_x_def)
  have rest: "merge_symbol_table (Suc 0) ?ctx 1 2 (Suc 0) = Some (Inr ?ctx)"
    by (simp add: example_context_import_def)
  show ?thesis
    using symbol_table_insert_redeclaration [OF v l, of "example_constant_x 14 3" 2 0 "Suc 0"]
      symbol_table_insert_redeclaration [OF v l, of "example_constant_x 15 7" 3 0 "Suc 0"]
      o2 o3 a rest
    by simp
qed

section \<open>Functions that do not end with a return\<close>

lemma resolve_stmt_kind:
  assumes "resolve_stmt H r ctx s = Inr (res, r', ctx')"
  shows "(case res of
            None \<Rightarrow> declares_constant_or_alias s
          | Some st \<Rightarrow> \<not> declares_constant_or_alias s \<and>
                       (stmt_kind_of st = STMT_RETURN) = cst_stmt_is_return s)"
proof -
  obtain location d where s: "s = Cst_stmt location d" by (cases s)
  show ?thesis
  proof (cases d)
    case (CST_STMT_DECL decl)
    with assms s show ?thesis
      by (auto simp: resolve_stmt_decl_def
               split: if_splits sum.splits prod.splits cst_decl_data.splits)
  next
    case (CST_STMT_DEFER blk)
    with assms s show ?thesis
      by (auto simp: Let_def split: if_splits sum.splits prod.splits)
  next
    case (CST_STMT_IF conditionals)
    with assms s show ?thesis
      by (auto split: if_splits sum.splits prod.splits list.splits conditional.splits)
  next
    case (CST_STMT_FOR_RANGE loop_variable cst_begin cst_end blk)
    with assms s show ?thesis
      by (auto split: if_splits sum.splits prod.splits)
  next
    case (CST_STMT_FOR_EXPR e blk)
    with assms s show ?thesis
      by (auto simp: Let_def split: if_splits sum.splits prod.splits)
  next
    case CST_STMT_BREAK
    with assms s show ?thesis
      by (auto simp: resolve_stmt_break_def split: if_splits)
  next
    case CST_STMT_CONTINUE
    with assms s show ?thesis
      by (auto simp: resolve_stmt_continue_def split: if_splits)
  next
    case (CST_STMT_DUMP e)
    with assms s show ?thesis
      by (auto simp: resolve_stmt_dump_def split: if_splits sum.splits prod.splits)
  next
    case (CST_STMT_RETURN e)
    with assms s show ?thesis
      by (auto simp: resolve_stmt_return_def Let_def
               split: if_splits sum.splits prod.splits option.splits type_data.splits)
  next
    case (CST_STMT_ASSIGN lhs rhs)
    with assms s show ?thesis
      by (auto simp: resolve_stmt_assign_def Let_def split: if_splits sum.splits prod.splits)
  next
    case (CST_STMT_EXPR e)
    with assms s show ?thesis
      by (auto simp: resolve_stmt_expr_def split: if_splits sum.splits prod.splits)
  qed
qed

lemma resolve_stmts_kinds:
  "resolve_stmts H r ctx ss = Inr (stmts, r', ctx') \<Longrightarrow>
   map (\<lambda>st. stmt_kind_of st = STMT_RETURN) stmts = map cst_stmt_is_return (statements_kept ss)"
proof (induction ss arbitrary: r ctx stmts r' ctx')
  case Nil
  then show ?case by (simp add: statements_kept_def)
next
  case (Cons s ss)
  from Cons.prems obtain res r1 ctx1 rest where
    s: "resolve_stmt H r ctx s = Inr (res, r1, ctx1)" and
    ss: "resolve_stmts H r1 ctx1 ss = Inr (rest, r', ctx')" and
    stmts: "stmts = (case res of None \<Rightarrow> rest | Some resolved \<Rightarrow> resolved # rest)"
    by (auto split: sum.splits prod.splits)
  note ih = Cons.IH [OF ss]
  from resolve_stmt_kind [OF s] ih stmts show ?case
    by (cases res) (simp_all add: statements_kept_def)
qed

lemma resolve_block_stmts:
  assumes "resolve_block H r ctx symbol_table blk = Inr (body, r', ctx')"
  shows "map (\<lambda>st. stmt_kind_of st = STMT_RETURN) (block_stmts body) =
           map cst_stmt_is_return (statements_kept (cst_block_stmts blk))"
    and "current_rbp_offset r' = current_rbp_offset r"
proof -
  obtain location ss where blk: "blk = Cst_block location ss" by (cases blk)
  with assms obtain resolved r1 where
    "resolve_stmts H (r\<lparr>current_symbol_table := symbol_table\<rparr>) ctx ss = Inr (resolved, r1, ctx')"
    and "block_stmts body = resolved"
    and "current_rbp_offset r' = current_rbp_offset r"
    by (auto split: if_splits sum.splits prod.splits)
  with blk resolve_stmts_kinds show
    "map (\<lambda>st. stmt_kind_of st = STMT_RETURN) (block_stmts body) =
       map cst_stmt_is_return (statements_kept (cst_block_stmts blk))"
    and "current_rbp_offset r' = current_rbp_offset r"
    by auto
qed

lemma ends_with_return:
  assumes "map (\<lambda>st. stmt_kind_of st = STMT_RETURN) stmts = map cst_stmt_is_return kept"
  shows "(length stmts = 0 \<or> stmt_kind_of (stmts ! (length stmts - 1)) \<noteq> STMT_RETURN) =
         (kept = [] \<or> \<not> cst_stmt_is_return (last kept))"
proof (cases "stmts = []")
  case True
  with assms show ?thesis by simp
next
  case False
  with assms have k: "kept \<noteq> []" by auto
  from assms have "last (map (\<lambda>st. stmt_kind_of st = STMT_RETURN) stmts) =
                   last (map cst_stmt_is_return kept)"
    by simp
  with False k have "(stmt_kind_of (last stmts) = STMT_RETURN) = cst_stmt_is_return (last kept)"
    by (simp add: last_map)
  with False k show ?thesis by (simp add: last_conv_nth)
qed

lemma statements_kept_last:
  assumes "stmts \<noteq> []" and "\<not> declares_constant_or_alias (last stmts)"
  shows "statements_kept stmts \<noteq> [] \<and> last (statements_kept stmts) = last stmts"
proof -
  from assms(1) obtain front where "stmts = front @ [last stmts]"
    using append_butlast_last_id by metis
  then have "statements_kept stmts = statements_kept front @ statements_kept [last stmts]"
    by (metis filter_append statements_kept_def)
  with assms(2) show ?thesis by (simp add: statements_kept_def)
qed

lemma statements_kept_trailing:
  assumes "\<forall>d \<in> set decls. declares_constant_or_alias d"
    and "\<not> declares_constant_or_alias s"
  shows "statements_kept (front @ s # decls) \<noteq> [] \<and>
         last (statements_kept (front @ s # decls)) = s"
proof -
  from assms(1) have "statements_kept decls = []"
    by (simp add: statements_kept_def)
  with assms(2) show ?thesis by (simp add: statements_kept_def)
qed

text \<open>
  Claim C4, as the code has it. The check of \<^verbatim>\<open>complete_function\<close> reads the resolved
  body, in which the constant and alias declarations of the body do not appear, since
  they resolve to no statement. So, with \<open>body_kept\<close> the statements of the body
  without its constant and alias declarations:

  whenever \<^verbatim>\<open>complete_function\<close> returns a function, the return type of the function is
  void or \<open>body_kept\<close> is not empty and its last statement is a return; in every
  other case completion fails;

  when the function is completed in the state that \<^verbatim>\<open>resolve\<close> calls it in and the body
  resolves, the result is the diagnostic of the declaration if the return type is not
  void and \<open>body_kept\<close> is empty or does not end with a return, and the completed
  function otherwise;

  so a function that returns and whose body ends with an if statement has a void
  return type, whatever the arms of the if statement are; and a body in which a return
  is followed by constant and alias declarations only counts as ending with the return.
\<close>

theorem complete_function_return:
  "(\<forall>function r' ctx'.
      complete_function H resolver ctx incomplete = Inr (function, r', ctx') \<longrightarrow>
      (\<exists>parameter_types return_type.
         tdata (fun_type function) = Function_data parameter_types return_type \<and>
         (tkind return_type = TYPE_VOID \<or>
          (body_kept incomplete \<noteq> [] \<and> cst_stmt_is_return (last (body_kept incomplete))))))
   \<and> (\<forall>static_name offset body resolver' ctx' completed parameter_types return_type.
        current_function resolver = None \<and> current_rbp_offset resolver = 0 \<and>
        \<not> is_within_loop resolver \<and>
        fun_address (inc_function incomplete) = ADDRESS_STATIC static_name offset \<and>
        resolve_block H
          (resolver\<lparr>current_static_addr_prefix := Some static_name,
                    current_function := Some (inc_function incomplete)\<rparr>)
          ctx (inc_symbol_table incomplete) (inc_decl_body incomplete) =
          Inr (body, resolver', ctx') \<and>
        current_function resolver' = Some completed \<and>
        tkind (fun_type completed) = TYPE_FUNCTION \<and>
        tdata (fun_type completed) = Function_data parameter_types return_type \<longrightarrow>
        complete_function H resolver ctx incomplete =
          (if tkind return_type \<noteq> TYPE_VOID \<and>
              (body_kept incomplete = [] \<or> \<not> cst_stmt_is_return (last (body_kept incomplete)))
           then Inl (Fatal (inc_decl_location incomplete)
                  ''Non-void-returning function does not end with a return statement'' [])
           else Inr (completed\<lparr>fun_body := Some body\<rparr>,
                     resolver'\<lparr>current_static_addr_prefix := current_static_addr_prefix resolver,
                               current_function := None\<rparr>, ctx')))
   \<and> (\<forall>function r' ctx' location conditionals.
        complete_function H resolver ctx incomplete = Inr (function, r', ctx') \<and>
        cst_block_stmts (inc_decl_body incomplete) \<noteq> [] \<and>
        last (cst_block_stmts (inc_decl_body incomplete)) =
          Cst_stmt location (CST_STMT_IF conditionals) \<longrightarrow>
        (\<exists>parameter_types return_type.
           tdata (fun_type function) = Function_data parameter_types return_type \<and>
           tkind return_type = TYPE_VOID))
   \<and> (\<forall>front ret decls.
        cst_block_stmts (inc_decl_body incomplete) = front @ ret # decls \<and>
        cst_stmt_is_return ret \<and> (\<forall>d \<in> set decls. declares_constant_or_alias d) \<longrightarrow>
        body_kept incomplete \<noteq> [] \<and> cst_stmt_is_return (last (body_kept incomplete)))"
proof -
  let ?diagnostic = "Fatal (inc_decl_location incomplete)
                       ''Non-void-returning function does not end with a return statement'' []"
  have determined: "complete_function H resolver ctx incomplete =
          (if tkind return_type \<noteq> TYPE_VOID \<and>
              (body_kept incomplete = [] \<or> \<not> cst_stmt_is_return (last (body_kept incomplete)))
           then Inl ?diagnostic
           else Inr (completed\<lparr>fun_body := Some body\<rparr>,
                     resolver'\<lparr>current_static_addr_prefix := current_static_addr_prefix resolver,
                               current_function := None\<rparr>, ctx'))"
    if pre: "current_function resolver = None" "current_rbp_offset resolver = 0"
        "\<not> is_within_loop resolver"
      and address: "fun_address (inc_function incomplete) = ADDRESS_STATIC static_name offset"
      and blk: "resolve_block H
          (resolver\<lparr>current_static_addr_prefix := Some static_name,
                    current_function := Some (inc_function incomplete)\<rparr>)
          ctx (inc_symbol_table incomplete) (inc_decl_body incomplete) =
          Inr (body, resolver', ctx')"
      and completed: "current_function resolver' = Some completed"
        "tkind (fun_type completed) = TYPE_FUNCTION"
        "tdata (fun_type completed) = Function_data parameter_types return_type"
    for static_name offset body resolver' ctx' completed parameter_types return_type
  proof -
    from resolve_block_stmts(2) [OF blk] pre(2) have rbp: "current_rbp_offset resolver' = 0"
      by simp
    note ends = ends_with_return [OF resolve_block_stmts(1) [OF blk]]
    have "complete_function H resolver ctx incomplete =
          (if tkind return_type \<noteq> TYPE_VOID \<and>
              (length (block_stmts body) = 0 \<or>
               stmt_kind_of (block_stmts body ! (length (block_stmts body) - 1)) \<noteq> STMT_RETURN)
           then Inl ?diagnostic
           else Inr (completed\<lparr>fun_body := Some body\<rparr>,
                     resolver'\<lparr>current_static_addr_prefix := current_static_addr_prefix resolver,
                               current_function := None\<rparr>, ctx'))"
      using pre address blk completed rbp
      by (simp add: complete_function_def Let_def)
    then show ?thesis
      by (simp only: ends body_kept_def)
  qed
  have accepted: "\<exists>parameter_types return_type.
         tdata (fun_type func) = Function_data parameter_types return_type \<and>
         (tkind return_type = TYPE_VOID \<or>
          (body_kept incomplete \<noteq> [] \<and> cst_stmt_is_return (last (body_kept incomplete))))"
    if ok: "complete_function H resolver ctx incomplete = Inr (func, r', ctx')"
    for func r' ctx'
  proof -
    from ok have pre: "current_function resolver = None" "current_rbp_offset resolver = 0"
        "\<not> is_within_loop resolver"
      by (auto simp: complete_function_def split: if_splits)
    from ok pre obtain static_name offset where
      address: "fun_address (inc_function incomplete) = ADDRESS_STATIC static_name offset"
      by (cases "fun_address (inc_function incomplete)") (auto simp: complete_function_def)
    from ok pre address obtain body resolver' ctx1 where
      blk: "resolve_block H
          (resolver\<lparr>current_static_addr_prefix := Some static_name,
                    current_function := Some (inc_function incomplete)\<rparr>)
          ctx (inc_symbol_table incomplete) (inc_decl_body incomplete) =
          Inr (body, resolver', ctx1)"
      by (auto simp: complete_function_def split: sum.splits)
    from ok pre address blk obtain completed where
      completed: "current_function resolver' = Some completed"
      by (cases "current_function resolver'") (auto simp: complete_function_def)
    from ok pre address blk completed have kind: "tkind (fun_type completed) = TYPE_FUNCTION"
      by (auto simp: complete_function_def Let_def split: if_splits)
    from ok pre address blk completed kind obtain parameter_types return_type where
      data: "tdata (fun_type completed) = Function_data parameter_types return_type"
      by (cases "tdata (fun_type completed)")
        (auto simp: complete_function_def Let_def split: if_splits)
    from determined [OF pre address blk completed kind data] ok
    have "func = completed\<lparr>fun_body := Some body\<rparr>"
      and "\<not> (tkind return_type \<noteq> TYPE_VOID \<and>
              (body_kept incomplete = [] \<or> \<not> cst_stmt_is_return (last (body_kept incomplete))))"
      by (auto split: if_splits)
    with data show ?thesis by auto
  qed
  have if_last: "body_kept incomplete \<noteq> [] \<and> \<not> cst_stmt_is_return (last (body_kept incomplete))"
    if "cst_block_stmts (inc_decl_body incomplete) \<noteq> []"
      and "last (cst_block_stmts (inc_decl_body incomplete)) =
             Cst_stmt location (CST_STMT_IF conditionals)"
    for location conditionals
    using statements_kept_last [of "cst_block_stmts (inc_decl_body incomplete)"] that
    by (simp add: body_kept_def)
  have trailing: "body_kept incomplete \<noteq> [] \<and> cst_stmt_is_return (last (body_kept incomplete))"
    if "cst_block_stmts (inc_decl_body incomplete) = front @ ret # decls"
      and "cst_stmt_is_return ret" and "\<forall>d \<in> set decls. declares_constant_or_alias d"
    for front ret decls
  proof -
    from that(2) have "\<not> declares_constant_or_alias ret"
      by (cases ret rule: declares_constant_or_alias.cases) auto
    from statements_kept_trailing [OF that(3) this, of front] that(1,2) show ?thesis
      by (simp add: body_kept_def)
  qed
  show ?thesis
  proof (intro conjI allI impI)
    fix func r' ctx'
    assume "complete_function H resolver ctx incomplete = Inr (func, r', ctx')"
    then show "\<exists>parameter_types return_type.
         tdata (fun_type func) = Function_data parameter_types return_type \<and>
         (tkind return_type = TYPE_VOID \<or>
          (body_kept incomplete \<noteq> [] \<and> cst_stmt_is_return (last (body_kept incomplete))))"
      by (rule accepted)
  next
    fix static_name offset body resolver' ctx' completed parameter_types return_type
    assume "current_function resolver = None \<and> current_rbp_offset resolver = 0 \<and>
        \<not> is_within_loop resolver \<and>
        fun_address (inc_function incomplete) = ADDRESS_STATIC static_name offset \<and>
        resolve_block H
          (resolver\<lparr>current_static_addr_prefix := Some static_name,
                    current_function := Some (inc_function incomplete)\<rparr>)
          ctx (inc_symbol_table incomplete) (inc_decl_body incomplete) =
          Inr (body, resolver', ctx') \<and>
        current_function resolver' = Some completed \<and>
        tkind (fun_type completed) = TYPE_FUNCTION \<and>
        tdata (fun_type completed) = Function_data parameter_types return_type"
    then show "complete_function H resolver ctx incomplete =
          (if tkind return_type \<noteq> TYPE_VOID \<and>
              (body_kept incomplete = [] \<or> \<not> cst_stmt_is_return (last (body_kept incomplete)))
           then Inl ?diagnostic
           else Inr (completed\<lparr>fun_body := Some body\<rparr>,
                     resolver'\<lparr>current_static_addr_prefix := current_static_addr_prefix resolver,
                               current_function := None\<rparr>, ctx'))"
      using determined by blast
  next
    fix func r' ctx' location conditionals
    assume h: "complete_function H resolver ctx incomplete = Inr (func, r', ctx') \<and>
        cst_block_stmts (inc_decl_body incomplete) \<noteq> [] \<and>
        last (cst_block_stmts (inc_decl_body incomplete)) =
          Cst_stmt location (CST_STMT_IF conditionals)"
    then have "body_kept incomplete \<noteq> [] \<and> \<not> cst_stmt_is_return (last (body_kept incomplete))"
      using if_last by blast
    with accepted [of func r' ctx'] h
    show "\<exists>parameter_types return_type.
           tdata (fun_type func) = Function_data parameter_types return_type \<and>
           tkind return_type = TYPE_VOID"
      by blast
  next
    fix front ret decls
    assume "cst_block_stmts (inc_decl_body incomplete) = front @ ret # decls \<and>
        cst_stmt_is_return ret \<and> (\<forall>d \<in> set decls. declares_constant_or_alias d)"
    then show "body_kept incomplete \<noteq> []"
      and "cst_stmt_is_return (last (body_kept incomplete))"
      using trailing by blast+
  qed
qed

lemmas completion_defs = example_statement_hooks_def example_hooks_def example_declare_local_def
  example_return_def example_const_def example_alias_def example_if_else_def
  example_incomplete_def example_function_def example_func_u32_def example_func_void_def
  example_module_resolver_def example_context_def example_location_def example_literal_def
  example_u32_def example_void_def example_bool_def
  example_resolved_return_def example_resolved_if_else_def example_body_def
  example_context_blocks_def example_context_constant_def example_context_declared_def
  example_symbol_x_def example_symbol_t_def
  resolve_stmt_decl_def resolve_stmt_return_def resolve_condition_def
  check_type_compatibility_def resolve_expr_integer_def integer_literal_suffix_to_type_def
  tir_expr_new_integer_def type_is_integer_def
  symbol_new_def symbol_table_new_def symbol_table_insert_def symbol_table_lookup_local_def
  example_xalloc_def Let_def

text \<open>
  The function \<open>f\<close> of type \<open>func(u32) u32\<close> with the body
  \<^verbatim>\<open>return 1u32; const x: u32 = 2u32;\<close>: the last statement of the body is the
  declaration, which is not a return, and the function is completed, with the return as
  the only statement of its resolved body.
\<close>

theorem complete_function_return_counterexample:
  "tdata example_func_u32 = Function_data [example_u32] example_u32
   \<and> tkind example_u32 \<noteq> TYPE_VOID
   \<and> last (cst_block_stmts (inc_decl_body
         (example_incomplete example_func_u32 [example_return 1, example_const]))) =
       example_const
   \<and> \<not> cst_stmt_is_return example_const
   \<and> complete_function example_statement_hooks example_module_resolver example_context
       (example_incomplete example_func_u32 [example_return 1, example_const]) =
     Inr ((example_function example_func_u32)
            \<lparr>fun_body := Some (example_body [example_resolved_return 1])\<rparr>,
          example_module_resolver, example_context_constant)"
  by (simp add: completion_defs complete_function_def)

text \<open>The bodies of the examples resolve, in the state in which \<open>f\<close> is completed.\<close>

lemma example_blocks:
  "resolve_block example_statement_hooks
     (example_module_resolver\<lparr>current_static_addr_prefix := Some ''f'',
        current_function := Some (example_function ty)\<rparr>)
     example_context 0 (Cst_block example_location []) =
   Inr (example_body [],
        example_module_resolver\<lparr>current_static_addr_prefix := Some ''f'',
          current_function := Some (example_function ty)\<rparr>, example_context)"
  "resolve_block example_statement_hooks
     (example_module_resolver\<lparr>current_static_addr_prefix := Some ''f'',
        current_function := Some (example_function example_func_u32)\<rparr>)
     example_context 0 (Cst_block example_location [example_if_else]) =
   Inr (example_body [example_resolved_if_else],
        example_module_resolver\<lparr>current_static_addr_prefix := Some ''f'',
          current_function := Some (example_function example_func_u32)\<rparr>,
        example_context_blocks)"
  "resolve_block example_statement_hooks
     (example_module_resolver\<lparr>current_static_addr_prefix := Some ''f'',
        current_function := Some (example_function example_func_u32)\<rparr>)
     example_context 0 (Cst_block example_location [example_if_else, example_return 3]) =
   Inr (example_body [example_resolved_if_else, example_resolved_return 3],
        example_module_resolver\<lparr>current_static_addr_prefix := Some ''f'',
          current_function := Some (example_function example_func_u32)\<rparr>,
        example_context_blocks)"
  "resolve_block example_statement_hooks
     (example_module_resolver\<lparr>current_static_addr_prefix := Some ''f'',
        current_function := Some (example_function example_func_u32)\<rparr>)
     example_context 0
     (Cst_block example_location [example_return 1, example_const, example_alias]) =
   Inr (example_body [example_resolved_return 1],
        example_module_resolver\<lparr>current_static_addr_prefix := Some ''f'',
          current_function := Some (example_function example_func_u32)\<rparr>,
        example_context_declared)"
  by (simp_all add: completion_defs)

lemma example_kept:
  "body_kept (example_incomplete ty []) = []"
  "body_kept (example_incomplete ty [example_if_else]) = [example_if_else]"
  "body_kept (example_incomplete ty [example_if_else, example_return 3]) =
     [example_if_else, example_return 3]"
  "body_kept (example_incomplete ty [example_return 1, example_const, example_alias]) =
     [example_return 1]"
  "\<not> cst_stmt_is_return example_if_else"
  "cst_stmt_is_return (example_return i)"
  by (simp_all add: body_kept_def statements_kept_def example_incomplete_def example_if_else_def
        example_return_def example_const_def example_alias_def)

text \<open>
  The theorem on \<open>f\<close>. With the type \<open>func(u32) u32\<close>: the body
  \<^verbatim>\<open>if true { return 1u32; } else { return 2u32; }\<close> is rejected; the same body
  followed by \<^verbatim>\<open>return 3u32;\<close> is accepted; the body
  \<^verbatim>\<open>return 1u32; const x: u32 = 2u32; alias t = u32;\<close> is accepted, and its resolved
  body is the return alone; the empty body is rejected. With the type \<open>func() void\<close>
  the empty body is accepted.
\<close>

theorem complete_function_return_witness:
  "complete_function example_statement_hooks example_module_resolver example_context
     (example_incomplete example_func_u32 [example_if_else]) =
     Inl (Fatal example_location
            ''Non-void-returning function does not end with a return statement'' [])
   \<and> complete_function example_statement_hooks example_module_resolver example_context
       (example_incomplete example_func_u32 [example_if_else, example_return 3]) =
     Inr ((example_function example_func_u32)
            \<lparr>fun_body := Some (example_body [example_resolved_if_else,
                                               example_resolved_return 3])\<rparr>,
          example_module_resolver, example_context_blocks)
   \<and> complete_function example_statement_hooks example_module_resolver example_context
       (example_incomplete example_func_u32 [example_return 1, example_const, example_alias]) =
     Inr ((example_function example_func_u32)
            \<lparr>fun_body := Some (example_body [example_resolved_return 1])\<rparr>,
          example_module_resolver, example_context_declared)
   \<and> complete_function example_statement_hooks example_module_resolver example_context
       (example_incomplete example_func_u32 []) =
     Inl (Fatal example_location
            ''Non-void-returning function does not end with a return statement'' [])
   \<and> complete_function example_statement_hooks example_module_resolver example_context
       (example_incomplete example_func_void []) =
     Inr ((example_function example_func_void)\<lparr>fun_body := Some (example_body [])\<rparr>,
          example_module_resolver, example_context)"
proof -
  let ?r = "example_module_resolver"
  have pre: "current_function ?r = None" "current_rbp_offset ?r = 0" "\<not> is_within_loop ?r"
    "current_static_addr_prefix ?r = None"
    "?r\<lparr>current_static_addr_prefix := Some ''f'', current_function := Some g\<rparr>
       \<lparr>current_static_addr_prefix := None, current_function := None\<rparr> = ?r" for g
    by (simp_all add: example_module_resolver_def)
  have f: "fun_address (inc_function (example_incomplete ty b)) = ADDRESS_STATIC ''f'' 0"
    "inc_function (example_incomplete ty b) = example_function ty"
    "inc_symbol_table (example_incomplete ty b) = 0"
    "inc_decl_body (example_incomplete ty b) = Cst_block example_location b"
    "inc_decl_location (example_incomplete ty b) = example_location"
    "fun_type (example_function ty) = ty" for ty b
    by (simp_all add: example_incomplete_def example_function_def)
  have u32: "tkind example_func_u32 = TYPE_FUNCTION"
    "tdata example_func_u32 = Function_data [example_u32] example_u32"
    "tkind example_u32 \<noteq> TYPE_VOID"
    and void: "tkind example_func_void = TYPE_FUNCTION"
    "tdata example_func_void = Function_data [] example_void"
    "tkind example_void = TYPE_VOID"
    by (simp_all add: example_func_u32_def example_func_void_def example_u32_def example_void_def)
  note t = complete_function_return [THEN conjunct2, THEN conjunct1, rule_format]
  have 1: "complete_function example_statement_hooks ?r example_context
             (example_incomplete example_func_u32 [example_if_else]) =
           Inl (Fatal example_location
                  ''Non-void-returning function does not end with a return statement'' [])"
    using t [of ?r "example_incomplete example_func_u32 [example_if_else]" "''f''" 0
        example_statement_hooks example_context "example_body [example_resolved_if_else]"
        "?r\<lparr>current_static_addr_prefix := Some ''f'',
            current_function := Some (example_function example_func_u32)\<rparr>"
        example_context_blocks "example_function example_func_u32" "[example_u32]" example_u32]
      pre f u32 example_blocks(2) example_kept
    by simp
  have 2: "complete_function example_statement_hooks ?r example_context
             (example_incomplete example_func_u32 [example_if_else, example_return 3]) =
           Inr ((example_function example_func_u32)
                  \<lparr>fun_body := Some (example_body [example_resolved_if_else,
                                                     example_resolved_return 3])\<rparr>,
                ?r, example_context_blocks)"
    using t [of ?r "example_incomplete example_func_u32 [example_if_else, example_return 3]"
        "''f''" 0 example_statement_hooks example_context
        "example_body [example_resolved_if_else, example_resolved_return 3]"
        "?r\<lparr>current_static_addr_prefix := Some ''f'',
            current_function := Some (example_function example_func_u32)\<rparr>"
        example_context_blocks "example_function example_func_u32" "[example_u32]" example_u32]
      pre f u32 example_blocks(3) example_kept
    by simp
  have 3: "complete_function example_statement_hooks ?r example_context
             (example_incomplete example_func_u32
                [example_return 1, example_const, example_alias]) =
           Inr ((example_function example_func_u32)
                  \<lparr>fun_body := Some (example_body [example_resolved_return 1])\<rparr>,
                ?r, example_context_declared)"
    using t [of ?r "example_incomplete example_func_u32
                      [example_return 1, example_const, example_alias]"
        "''f''" 0 example_statement_hooks example_context
        "example_body [example_resolved_return 1]"
        "?r\<lparr>current_static_addr_prefix := Some ''f'',
            current_function := Some (example_function example_func_u32)\<rparr>"
        example_context_declared "example_function example_func_u32" "[example_u32]" example_u32]
      pre f u32 example_blocks(4) example_kept
    by simp
  have 4: "complete_function example_statement_hooks ?r example_context
             (example_incomplete example_func_u32 []) =
           Inl (Fatal example_location
                  ''Non-void-returning function does not end with a return statement'' [])"
    using t [of ?r "example_incomplete example_func_u32 []" "''f''" 0
        example_statement_hooks example_context "example_body []"
        "?r\<lparr>current_static_addr_prefix := Some ''f'',
            current_function := Some (example_function example_func_u32)\<rparr>"
        example_context "example_function example_func_u32" "[example_u32]" example_u32]
      pre f u32 example_blocks(1) example_kept
    by simp
  have 5: "complete_function example_statement_hooks ?r example_context
             (example_incomplete example_func_void []) =
           Inr ((example_function example_func_void)\<lparr>fun_body := Some (example_body [])\<rparr>,
                ?r, example_context)"
    using t [of ?r "example_incomplete example_func_void []" "''f''" 0
        example_statement_hooks example_context "example_body []"
        "?r\<lparr>current_static_addr_prefix := Some ''f'',
            current_function := Some (example_function example_func_void)\<rparr>"
        example_context "example_function example_func_void" "[]" example_void]
      pre f void example_blocks(1) example_kept
    by simp
  from 1 2 3 4 5 show ?thesis by blast
qed

section \<open>Range of integer literals\<close>

text \<open>
  C5. For an integer literal whose suffix resolves to byte, with the bounds of
  \<^verbatim>\<open>u8\<close>, or to a sized integer type, with the bounds stored in the type:
  \<^verbatim>\<open>resolve_expr_integer\<close> fails with the out-of-range diagnostic when the value is
  below the minimum or above the maximum, and otherwise returns the literal with that
  type and value. When the literal is the operand of a unary \<open>-\<close> or \<open>+\<close>,
  \<^verbatim>\<open>resolve_expr_unary\<close> does the same for the negated value, or the value, at the
  location of the operator: the sign is folded in before the range check.
\<close>

theorem resolve_expr_integer_range:
  assumes "integer_literal_suffix_to_type ctx (cst_integer_location lit) (cst_integer_suffix lit)
             = Inr ty"
      and "(tkind ty = TYPE_BYTE \<and> mn = u8_min ctx \<and> mx = u8_max ctx)
           \<or> (type_is_integer ty \<and> tdata ty = Integer_data mn mx)"
      and "range_checked = (\<lambda>loc v.
             if v < mn
             then Inl (Fatal loc
                    (if tkind ty = TYPE_BYTE then ''out-of-range byte literal (%s < %s)''
                     else ''out-of-range integer literal (%s < %s)'') [Big v, Big mn])
             else if v > mx
             then Inl (Fatal loc
                    (if tkind ty = TYPE_BYTE then ''out-of-range byte literal (%s > %s)''
                     else ''out-of-range integer literal (%s > %s)'') [Big v, Big mx])
             else Inr (Tir_expr loc ty (TIR_EXPR_INTEGER v)))"
  shows "resolve_expr_integer ctx (Cst_expr loc (CST_EXPR_INTEGER lit)) =
           range_checked loc (cst_integer_value lit)
       \<and> (tok_kind op = TOKEN_DASH \<longrightarrow>
            resolve_expr_unary rest ctx
              (Cst_expr loc (CST_EXPR_UNARY op (Cst_expr loc' (CST_EXPR_INTEGER lit)))) =
              range_checked (tok_location op) (- cst_integer_value lit))
       \<and> (tok_kind op = TOKEN_PLUS \<longrightarrow>
            resolve_expr_unary rest ctx
              (Cst_expr loc (CST_EXPR_UNARY op (Cst_expr loc' (CST_EXPR_INTEGER lit)))) =
              range_checked (tok_location op) (cst_integer_value lit))"
proof -
  have new: "tir_expr_new_integer ctx l ty v = range_checked l v" for l v
    using assms(2)
  proof
    assume "tkind ty = TYPE_BYTE \<and> mn = u8_min ctx \<and> mx = u8_max ctx"
    then show ?thesis
      by (simp add: tir_expr_new_integer_def assms(3) type_is_integer_def Let_def)
  next
    assume "type_is_integer ty \<and> tdata ty = Integer_data mn mx"
    moreover from this have "tkind ty \<noteq> TYPE_BYTE"
      by (auto simp: type_is_integer_def)
    ultimately show ?thesis
      by (simp add: tir_expr_new_integer_def assms(3) Let_def)
  qed
  show ?thesis
    using assms(1) by (simp add: resolve_expr_integer_def resolve_expr_unary_def new Let_def)
qed

text \<open>
  The theorem in the example context: \<open>-128s8\<close> resolves to the literal -128 of type
  \<open>s8\<close>, while \<open>128s8\<close>, \<open>+128s8\<close> and \<open>300u8\<close> are out of range, and \<open>255y\<close> is a byte.
\<close>

theorem resolve_expr_integer_range_witness:
  "resolve_expr_unary (\<lambda>c e. Inl Unreachable) example_context
     (example_signed_literal TOKEN_DASH 128 ''s8'') =
     Inr (Tir_expr example_location example_s8 (TIR_EXPR_INTEGER (- 128)))
   \<and> resolve_expr_integer example_context (example_literal 128 ''s8'') =
     Inl (Fatal example_location ''out-of-range integer literal (%s > %s)'' [Big 128, Big 127])
   \<and> resolve_expr_unary (\<lambda>c e. Inl Unreachable) example_context
       (example_signed_literal TOKEN_PLUS 128 ''s8'') =
     Inl (Fatal example_location ''out-of-range integer literal (%s > %s)'' [Big 128, Big 127])
   \<and> resolve_expr_integer example_context (example_literal 300 ''u8'') =
     Inl (Fatal example_location ''out-of-range integer literal (%s > %s)'' [Big 300, Big 255])
   \<and> resolve_expr_integer example_context (example_literal 255 ''y'') =
     Inr (Tir_expr example_location example_byte (TIR_EXPR_INTEGER 255))"
proof -
  have s8: "integer_literal_suffix_to_type example_context example_location ''s8'' = Inr example_s8"
    and u8: "integer_literal_suffix_to_type example_context example_location ''u8'' = Inr example_u8"
    and y: "integer_literal_suffix_to_type example_context example_location ''y'' = Inr example_byte"
    by (simp_all add: integer_literal_suffix_to_type_def example_context_def)
  have b: "type_is_integer example_s8 \<and> tdata example_s8 = Integer_data (- 128) 127"
    "type_is_integer example_u8 \<and> tdata example_u8 = Integer_data 0 255"
    "tkind example_byte = TYPE_BYTE \<and> 0 = u8_min example_context \<and> 255 = u8_max example_context"
    "tkind example_s8 \<noteq> TYPE_BYTE" "tkind example_u8 \<noteq> TYPE_BYTE"
    by (simp_all add: type_is_integer_def example_s8_def example_u8_def example_byte_def
        example_context_def)
  let ?lit = "\<lambda>v s. \<lparr>cst_integer_location = example_location, cst_integer_value = v,
    cst_integer_suffix = s\<rparr>"
  let ?op = "\<lambda>k. \<lparr>tok_kind = k, tok_location = example_location\<rparr>"
  show ?thesis
    using resolve_expr_integer_range [of example_context "?lit 128 ''s8''" example_s8 "- 128" 127
        _ example_location "?op TOKEN_DASH" "\<lambda>c e. Inl Unreachable" example_location, OF _ _ refl]
      resolve_expr_integer_range [of example_context "?lit 128 ''s8''" example_s8 "- 128" 127
        _ example_location "?op TOKEN_PLUS" "\<lambda>c e. Inl Unreachable" example_location, OF _ _ refl]
      resolve_expr_integer_range [of example_context "?lit 300 ''u8''" example_u8 0 255
        _ example_location "?op TOKEN_PLUS" "\<lambda>c e. Inl Unreachable" example_location, OF _ _ refl]
      resolve_expr_integer_range [of example_context "?lit 255 ''y''" example_byte 0 255
        _ example_location "?op TOKEN_PLUS" "\<lambda>c e. Inl Unreachable" example_location, OF _ _ refl]
      s8 u8 y b
    by (simp add: example_signed_literal_def example_literal_def)
qed

section \<open>Circular imports\<close>

lemma lookup_module_from_bound:
  "lookup_module_from ms i p = Some k \<Longrightarrow> i \<le> k \<and> k < i + length ms"
proof (induction ms arbitrary: i)
  case Nil
  then show ?case by simp
next
  case (Cons m ms)
  show ?case
  proof (cases "mod_path m = p")
    case True
    with Cons.prems show ?thesis by simp
  next
    case False
    with Cons.prems have "lookup_module_from ms (Suc i) p = Some k" by simp
    from Cons.IH [OF this] show ?thesis by simp
  qed
qed

lemma lookup_module_bound:
  "lookup_module ctx p = Some k \<Longrightarrow> k < length (modules ctx)"
  using lookup_module_from_bound [of "modules ctx" 0 p k] by (simp add: lookup_module_def)

text \<open>The loader modelled from the specification returns a module that is loaded.\<close>

lemma load_module_loaded:
  assumes "load_module n fs fe ctx nm p = Some (Inr (module, ctx'))"
  shows "module < length (modules ctx') \<and> mod_loaded (modules ctx' ! module)"
proof (cases n)
  case 0
  with assms show ?thesis by simp
next
  case (Suc k)
  with assms show ?thesis
    by (auto simp: Let_def split: prod.splits option.splits sum.splits if_splits)
qed

text \<open>
  Claim C7. An import of \<^verbatim>\<open>resolve_import_file\<close> that names a file (not a directory,
  and not a file of a directory import without the extension) goes three ways. When the
  canonical path is in the cache of modules and the module there is not loaded, it
  fails with the diagnostic of a circular dependency, at the location of the import and
  with the imported name, and this whatever \<^verbatim>\<open>load_module\<close> does, which is not called.
  When the path is not in the cache, \<^verbatim>\<open>load_module\<close> is called; if it fails, so does
  the import, and if it returns a loaded module, the result is the merge of the exports
  of that module into the symbols of the importing module, in the context that the
  load left. When the path is in the cache and the module is loaded, the result is that
  merge in the present context, with no load.
\<close>

theorem resolve_import_file_circular:
  assumes "m < length (modules ctx)"
    and "canonical_import_path fs (mod_path (modules ctx ! m)) file_name = Some p"
    and "\<not> file_is_directory fs p"
    and "cstr_ends_with file_name ''.sunder'' \<or> \<not> from_directory"
  shows "(\<forall>module. lookup_module ctx p = Some module \<and> \<not> mod_loaded (modules ctx ! module) \<longrightarrow>
            resolve_import_file (Suc fuel) fs load ctx m location file_name from_directory =
              Some (Inl (Fatal location ''circular dependency when importing `%s`''
                           [Str file_name])))
       \<and> (\<forall>e. lookup_module ctx p = None \<and> load ctx file_name p = Some (Inl e) \<longrightarrow>
            resolve_import_file (Suc fuel) fs load ctx m location file_name from_directory =
              Some (Inl e))
       \<and> (\<forall>module ctx'. lookup_module ctx p = None \<and>
              load ctx file_name p = Some (Inr (module, ctx')) \<and>
              module < length (modules ctx') \<and> m < length (modules ctx') \<and>
              mod_loaded (modules ctx' ! module) \<longrightarrow>
            resolve_import_file (Suc fuel) fs load ctx m location file_name from_directory =
              merge_symbol_table fuel ctx' (mod_symbols (modules ctx' ! m))
                (mod_exports (modules ctx' ! module)) 0)
       \<and> (\<forall>module. lookup_module ctx p = Some module \<and> mod_loaded (modules ctx ! module) \<longrightarrow>
            resolve_import_file (Suc fuel) fs load ctx m location file_name from_directory =
              merge_symbol_table fuel ctx (mod_symbols (modules ctx ! m))
                (mod_exports (modules ctx ! module)) 0)"
proof (intro conjI allI impI)
  fix module
  assume h: "lookup_module ctx p = Some module \<and> \<not> mod_loaded (modules ctx ! module)"
  then have "module < length (modules ctx)" using lookup_module_bound by blast
  with h assms
  show "resolve_import_file (Suc fuel) fs load ctx m location file_name from_directory =
          Some (Inl (Fatal location ''circular dependency when importing `%s`'' [Str file_name]))"
    by auto
next
  fix e
  assume "lookup_module ctx p = None \<and> load ctx file_name p = Some (Inl e)"
  with assms
  show "resolve_import_file (Suc fuel) fs load ctx m location file_name from_directory =
          Some (Inl e)"
    by auto
next
  fix module ctx'
  assume "lookup_module ctx p = None \<and>
          load ctx file_name p = Some (Inr (module, ctx')) \<and>
          module < length (modules ctx') \<and> m < length (modules ctx') \<and>
          mod_loaded (modules ctx' ! module)"
  with assms
  show "resolve_import_file (Suc fuel) fs load ctx m location file_name from_directory =
          merge_symbol_table fuel ctx' (mod_symbols (modules ctx' ! m))
            (mod_exports (modules ctx' ! module)) 0"
    by auto
next
  fix module
  assume h: "lookup_module ctx p = Some module \<and> mod_loaded (modules ctx ! module)"
  then have "module < length (modules ctx)" using lookup_module_bound by blast
  with h assms
  show "resolve_import_file (Suc fuel) fs load ctx m location file_name from_directory =
          merge_symbol_table fuel ctx (mod_symbols (modules ctx ! m))
            (mod_exports (modules ctx ! module)) 0"
    by auto
qed

lemmas import_defs = example_fuel_def example_filesystem_def example_cycle_def example_dag_def
  example_declare_def example_context_def resolve_def canonical_import_path_def lookup_module_def
  cstr_ends_with_def symbol_table_new_def symbol_table_insert_def symbol_table_lookup_local_def
  Let_def example_location_def example_context_cycle_def example_context_loading_def

text \<open>
  The examples. While \<open>a\<close> and \<open>b\<close> are both being loaded, the import of \<open>a\<close> by \<open>b\<close>
  fails, and so does the load of \<open>a\<close> from the empty cache when the two import each
  other, with the diagnostic at the import in \<open>b\<close>. While \<open>a\<close> is being loaded in the
  acyclic example, its import of \<open>b\<close> loads \<open>b\<close> and \<open>d\<close> and leaves the constant of \<open>b\<close>
  in the symbols of \<open>a\<close>; the load of \<open>a\<close> from the empty cache returns with the four
  modules loaded, \<open>d\<close> only once, and the exports of each import merged.
\<close>

theorem resolve_import_file_circular_witness:
  "resolve_import_file (Suc 0) example_filesystem (load_module 0 example_filesystem example_cycle)
     example_context_cycle 1 \<lparr>path = ''b'', line = 1\<rparr> ''a'' False =
     Some (Inl (Fatal \<lparr>path = ''b'', line = 1\<rparr> ''circular dependency when importing `%s`''
                  [Str ''a'']))
   \<and> load_module example_fuel example_filesystem example_cycle example_context ''a'' ''./a'' =
     Some (Inl (Fatal \<lparr>path = ''b'', line = 1\<rparr> ''circular dependency when importing `%s`''
                  [Str ''a'']))
   \<and> lookup_module example_context_loading ''./b'' = None
   \<and> resolve_import_file (Suc example_fuel) example_filesystem
       (load_module example_fuel example_filesystem example_dag)
       example_context_loading 0 \<lparr>path = ''a'', line = 1\<rparr> ''b'' False =
     merge_symbol_table example_fuel
       (snd (projr (the (load_module example_fuel example_filesystem example_dag
                           example_context_loading ''b'' ''./b'')))) 1 4 0
   \<and> map (map fst \<circ> elements)
       (tables (projr (the (resolve_import_file (Suc example_fuel) example_filesystem
          (load_module example_fuel example_filesystem example_dag)
          example_context_loading 0 \<lparr>path = ''a'', line = 1\<rparr> ''b'' False)))) =
     [[], [''b''], [], [''d''], [''b''], [], [''d'']]
   \<and> map mod_loaded (modules (snd (projr (the
         (load_module example_fuel example_filesystem example_dag example_context
            ''a'' ''./a''))))) = [True, True, True, True]
   \<and> map (map fst \<circ> elements) (tables (snd (projr (the
         (load_module example_fuel example_filesystem example_dag example_context
            ''a'' ''./a''))))) =
     [[], [''b'', ''c''], [''a''], [''d''], [''b''], [], [''d''], [''d''], [''c'']]"
proof -
  define c1 where "c1 = snd (projr (the (load_module example_fuel example_filesystem example_dag
                           example_context_loading ''b'' ''./b'')))"
  have l1: "load_module example_fuel example_filesystem example_dag
              example_context_loading ''b'' ''./b'' = Some (Inr (1, c1))"
    unfolding c1_def by (simp add: import_defs)
  have m1: "map mod_path (modules c1) = [''./a'', ''./b'', ''./d'']"
           "map mod_symbols (modules c1) = [1, 3, 5]"
           "map mod_exports (modules c1) = [2, 4, 6]"
    unfolding c1_def by (simp_all add: import_defs)
  have cyc: "resolve_import_file (Suc 0) example_filesystem
               (load_module 0 example_filesystem example_cycle)
               example_context_cycle 1 \<lparr>path = ''b'', line = 1\<rparr> ''a'' False =
             Some (Inl (Fatal \<lparr>path = ''b'', line = 1\<rparr>
                          ''circular dependency when importing `%s`'' [Str ''a'']))"
    using resolve_import_file_circular [of 1 example_context_cycle example_filesystem "''a''"
        "''./a''" False 0 "load_module 0 example_filesystem example_cycle"
        "\<lparr>path = ''b'', line = 1\<rparr>"]
    by (simp add: import_defs)
  have len: "length (modules c1) = 3"
    using arg_cong [OF m1(1), of length] by simp
  have s1: "mod_symbols (modules c1 ! 0) = 1" "mod_exports (modules c1 ! 1) = 4"
    using m1(2) m1(3) len nth_map [of 0 "modules c1" mod_symbols]
      nth_map [of 1 "modules c1" mod_exports] by simp_all
  have loaded: "mod_loaded (modules c1 ! 1)" "1 < length (modules c1)" "0 < length (modules c1)"
    unfolding c1_def by (simp_all add: import_defs)
  have h1: "0 < length (modules example_context_loading)"
    by (simp add: import_defs)
  have h2: "canonical_import_path example_filesystem
              (mod_path (modules example_context_loading ! 0)) ''b'' = Some ''./b''"
    by (simp add: import_defs)
  have h3: "\<not> file_is_directory example_filesystem ''./b''"
    by (simp add: import_defs)
  have h4: "cstr_ends_with ''b'' ''.sunder'' \<or> \<not> False"
    by simp
  have absent: "lookup_module example_context_loading ''./b'' = None"
    by (simp add: import_defs)
  have "resolve_import_file (Suc example_fuel) example_filesystem
       (load_module example_fuel example_filesystem example_dag)
       example_context_loading 0 \<lparr>path = ''a'', line = 1\<rparr> ''b'' False =
     merge_symbol_table example_fuel c1 (mod_symbols (modules c1 ! 0))
       (mod_exports (modules c1 ! 1)) 0"
    using resolve_import_file_circular [OF h1 h2 h3 h4, of example_fuel
        "load_module example_fuel example_filesystem example_dag"
        "\<lparr>path = ''a'', line = 1\<rparr>"] absent l1 loaded
    by blast
  then have dag: "resolve_import_file (Suc example_fuel) example_filesystem
       (load_module example_fuel example_filesystem example_dag)
       example_context_loading 0 \<lparr>path = ''a'', line = 1\<rparr> ''b'' False =
     merge_symbol_table example_fuel c1 1 4 0"
    by (simp only: s1)
  show ?thesis
    unfolding c1_def [symmetric]
    apply (intro conjI)
          apply (rule cyc)
         apply (simp add: import_defs)
        apply (simp add: import_defs)
       apply (rule dag)
      apply (simp add: import_defs)
     apply (simp add: import_defs)
    apply (simp add: import_defs)
    done
qed

section \<open>Template instances are created once\<close>





















end
